theory Spec2Isabelle
  imports Complex_Main "HOL-Library.Sublist"
begin

section \<open>The pen layer compositor (src/PenSkin.js)\<close>

text \<open>
  The class \<open>PenSkin\<close> is embedded as a record of its fields together with the part of
  its environment that its methods touch: the host renderer's current draw region, the
  renderer's listener registration, the GL resources that are alive, and the sequence of
  GL, canvas and silhouette calls issued so far. Every method becomes a function from
  state to state, in the order of the source.

  The numbers that reach the class from outside (coordinates, pen diameter, color
  components) are values of the type \<open>number\<close> below: a real, an infinity or \<open>NaN\<close>.
  The arithmetic of the source on them is the arithmetic of IEEE doubles, every result
  rounded to the nearest double, and a store into a \<open>Float32Array\<close> rounds to single
  precision. Integer-valued quantities (sizes produced by \<open>Math.round\<close>, the native
  size documented as \<open>Array<int>\<close>) are \<open>int\<close>, array cursors are \<open>nat\<close>; halves
  of sizes and of cursors, which doubles hold exactly, are \<open>real\<close>. The render quality
  is a finite number and is kept as the real it denotes, its products with the native
  size rounded to doubles. Calls into twgl, WebGL, the 2D canvas context and the
  silhouette are recorded as effects; they are taken to return normally.
\<close>

subsection \<open>JavaScript numbers\<close>

text \<open>
  A number is a real, an infinity or \<open>NaN\<close>. The two zeros of IEEE arithmetic are one
  value here; nothing in the class tells them apart. A number that the program holds is
  a double (\<open>is_double\<close> below); the type also has the reals in between, which the
  operations round away.
\<close>

datatype number = Num real | PosInf | NegInf | NaN

text \<open>
  Rounding to the nearest integer, a tie going to the even neighbour.
\<close>

definition round_half_even :: "real \<Rightarrow> int" where
  "round_half_even x =
     (let f = \<lfloor>x\<rfloor>; d = x - of_int f
      in if d < 1 / 2 then f else if 1 / 2 < d then f + 1 else if even f then f else f + 1)"

text \<open>
  The binary exponent of a real \<open>x \<noteq> 0\<close>: the \<open>e\<close> with \<open>2 ^ e \<le> \<bar>x\<bar> < 2 ^ (e + 1)\<close>, found by
  halving a magnitude of at least 1 and doubling one below 1.
\<close>

function exponent_up :: "real \<Rightarrow> int" where
  "exponent_up x = (if x < 2 then 0 else exponent_up (x / 2) + 1)"
  by pat_completeness auto
termination
proof (relation "measure (\<lambda>x. nat \<lfloor>x\<rfloor>)")
  show "wf (measure (\<lambda>x. nat \<lfloor>x\<rfloor>))"
    by simp
  show "(x / 2, x) \<in> measure (\<lambda>x. nat \<lfloor>x\<rfloor>)" if "\<not> x < 2" for x :: real
  proof -
    define n where "n = \<lfloor>x\<rfloor>"
    have half: "\<lfloor>x / 2\<rfloor> = n div 2"
      unfolding n_def using floor_divide_real_eq_div [of 2 x] by simp
    have "2 \<le> n"
      unfolding n_def using that by (simp add: le_floor_iff)
    then have "nat (n div 2) < nat n"
      by linarith
    then show ?thesis
      unfolding in_measure half n_def .
  qed
qed

function exponent_down :: "real \<Rightarrow> int" where
  "exponent_down x = (if 1 \<le> x \<or> x \<le> 0 then 0 else exponent_down (x * 2) - 1)"
  by pat_completeness auto
termination
proof (relation "measure (\<lambda>x. nat \<lfloor>1 / x\<rfloor>)")
  show "wf (measure (\<lambda>x. nat \<lfloor>1 / x\<rfloor>))"
    by simp
  show "(x * 2, x) \<in> measure (\<lambda>x. nat \<lfloor>1 / x\<rfloor>)"
    if "\<not> (1 \<le> x \<or> x \<le> 0)" for x :: real
  proof -
    define n where "n = \<lfloor>1 / x\<rfloor>"
    have half: "\<lfloor>1 / (x * 2)\<rfloor> = n div 2"
      unfolding n_def using floor_divide_real_eq_div [of 2 "1 / x"] by simp
    have "1 \<le> n"
      unfolding n_def using that by (simp add: le_floor_iff)
    then have "nat (n div 2) < nat n"
      by linarith
    then show ?thesis
      unfolding in_measure half n_def .
  qed
qed

definition exponent :: "real \<Rightarrow> int" where
  "exponent x = (if 1 \<le> \<bar>x\<bar> then exponent_up \<bar>x\<bar> else exponent_down \<bar>x\<bar>)"

text \<open>
  \<open>round_to p emin x\<close> is \<open>x\<close> rounded to the nearest multiple of the unit in the last
  place of a binary format with \<open>p\<close> significant bits and least exponent \<open>emin\<close>
  (subnormal below it), a tie going to the even significand. \<open>to_format\<close> adds the
  overflow: a rounded value beyond the largest finite one is an infinity.
\<close>

definition two_to :: "int \<Rightarrow> real" where
  "two_to e = (if 0 \<le> e then 2 ^ nat e else 1 / 2 ^ nat (- e))"

definition round_to :: "nat \<Rightarrow> int \<Rightarrow> real \<Rightarrow> real" where
  "round_to p emin x =
     (if x = 0 then 0
      else (let e = max (exponent x) emin; q = two_to (e - int p + 1)
            in of_int (round_half_even (x / q)) * q))"

definition max_finite :: "nat \<Rightarrow> int \<Rightarrow> real" where
  "max_finite p emax = (2 ^ p - 1) * two_to (emax - int p + 1)"

definition to_format :: "nat \<Rightarrow> int \<Rightarrow> int \<Rightarrow> real \<Rightarrow> number" where
  "to_format p emin emax x =
     (let r = round_to p emin x
      in if max_finite p emax < r then PosInf
         else if r < - max_finite p emax then NegInf
         else Num r)"

text \<open>
  Doubles have 53 significant bits and exponents from -1022 to 1023, single-precision
  floats 24 bits and exponents from -126 to 127.
\<close>

definition to_double :: "real \<Rightarrow> number" where
  "to_double x = to_format 53 (- 1022) 1023 x"

definition to_float32 :: "real \<Rightarrow> number" where
  "to_float32 x = to_format 24 (- 126) 127 x"

text \<open>
  \<open>fround\<close> is the conversion of a store into a \<open>Float32Array\<close> (\<open>Math.fround\<close>).
  \<open>num_neg\<close>, \<open>num_add\<close>, \<open>num_sub\<close> and \<open>num_mul\<close> are unary \<open>-\<close> and binary \<open>+\<close>,
  \<open>-\<close> and \<open>*\<close> on numbers; \<open>num_sqrt\<close> is \<open>Math.sqrt\<close>, taken correctly rounded as
  IEEE square root is.
\<close>

fun fround :: "number \<Rightarrow> number" where
  "fround (Num x) = to_float32 x"
| "fround PosInf = PosInf"
| "fround NegInf = NegInf"
| "fround NaN = NaN"

fun num_neg :: "number \<Rightarrow> number" where
  "num_neg (Num x) = Num (- x)"
| "num_neg PosInf = NegInf"
| "num_neg NegInf = PosInf"
| "num_neg NaN = NaN"

fun num_add :: "number \<Rightarrow> number \<Rightarrow> number" where
  "num_add (Num x) (Num y) = to_double (x + y)"
| "num_add NaN b = NaN"
| "num_add a NaN = NaN"
| "num_add PosInf NegInf = NaN"
| "num_add NegInf PosInf = NaN"
| "num_add PosInf b = PosInf"
| "num_add a PosInf = PosInf"
| "num_add NegInf b = NegInf"
| "num_add a NegInf = NegInf"

definition num_sub :: "number \<Rightarrow> number \<Rightarrow> number" where
  "num_sub a b = num_add a (num_neg b)"

definition infinity :: "bool \<Rightarrow> number" where
  "infinity positive = (if positive then PosInf else NegInf)"

fun num_mul :: "number \<Rightarrow> number \<Rightarrow> number" where
  "num_mul (Num x) (Num y) = to_double (x * y)"
| "num_mul NaN b = NaN"
| "num_mul a NaN = NaN"
| "num_mul (Num x) PosInf = (if x = 0 then NaN else infinity (0 < x))"
| "num_mul (Num x) NegInf = (if x = 0 then NaN else infinity (x < 0))"
| "num_mul PosInf (Num y) = (if y = 0 then NaN else infinity (0 < y))"
| "num_mul NegInf (Num y) = (if y = 0 then NaN else infinity (y < 0))"
| "num_mul PosInf PosInf = PosInf"
| "num_mul PosInf NegInf = NegInf"
| "num_mul NegInf PosInf = NegInf"
| "num_mul NegInf NegInf = PosInf"

fun num_sqrt :: "number \<Rightarrow> number" where
  "num_sqrt (Num x) = (if x < 0 then NaN else to_double (sqrt x))"
| "num_sqrt PosInf = PosInf"
| "num_sqrt NegInf = NaN"
| "num_sqrt NaN = NaN"

text \<open>
  The numbers that a double can hold, and the double nearest to a real within the range
  of the finite doubles.
\<close>

fun is_double :: "number \<Rightarrow> bool" where
  "is_double (Num x) = (to_double x = Num x)"
| "is_double PosInf = True"
| "is_double NegInf = True"
| "is_double NaN = True"

definition double_of :: "real \<Rightarrow> real" where
  "double_of x = round_to 53 (- 1022) x"

subsection \<open>Pen attributes\<close>

type_synonym color = "number \<times> number \<times> number \<times> number"

record PenAttributes =
  diameter :: "number option"
  color4f :: "color option"

definition DefaultPenAttributes :: PenAttributes where
  "DefaultPenAttributes = \<lparr>diameter = Some (Num 1), color4f = Some (Num 0, Num 0, Num 1, Num 1)\<rparr>"

text \<open>
  \<open>a || b\<close> on an optional number: the left operand is falsy when it is missing, \<open>0\<close>
  or \<open>NaN\<close>; on an optional array: only when it is missing. The right operand is a field of
  \<open>DefaultPenAttributes\<close>, which is always present, so the last branch of each
  definition is never taken.
\<close>

definition or_number :: "number option \<Rightarrow> number option \<Rightarrow> number" where
  "or_number v d = (case v of
       Some x \<Rightarrow> (if x \<noteq> Num 0 \<and> x \<noteq> NaN then x
                  else (case d of Some y \<Rightarrow> y | None \<Rightarrow> Num 0))
     | None \<Rightarrow> (case d of Some y \<Rightarrow> y | None \<Rightarrow> Num 0))"

definition or_color :: "color option \<Rightarrow> color option \<Rightarrow> color" where
  "or_color v d = (case v of
       Some c \<Rightarrow> c
     | None \<Rightarrow> (case d of Some c \<Rightarrow> c | None \<Rightarrow> (Num 0, Num 0, Num 0, Num 0)))"

subsection \<open>The environment: GL handles, draw regions, recorded calls\<close>

type_synonym handle = nat

type_synonym stampElement = nat

datatype shader = StampShader | LineShader

datatype region = LineOnBufferDrawRegionId | ToBufferDrawRegionId

datatype attrib = Attr_lineColor | Attr_penPoints | Attr_lineThicknessAndLength

datatype bufferInfo = LineBufferInfo | RendererBufferInfo

record Rectangle =
  rect_left :: real
  rect_right :: real
  rect_bottom :: real
  rect_top :: real

text \<open>
  Modelled from the spec: \<open>Rectangle.js\<close> is not under src. The bounds are ``a centered
  rectangle \<open>[-W/2, W/2] \<times> [-H/2, H/2]\<close> derived from current surface size'', so the
  width and height read from it are the distances between its opposite sides.
\<close>

definition initFromBounds :: "real \<Rightarrow> real \<Rightarrow> real \<Rightarrow> real \<Rightarrow> Rectangle" where
  "initFromBounds l r b t = \<lparr>rect_left = l, rect_right = r, rect_bottom = b, rect_top = t\<rparr>"

definition rect_width :: "Rectangle \<Rightarrow> real" where
  "rect_width b = \<bar>rect_left b - rect_right b\<bar>"

definition rect_height :: "Rectangle \<Rightarrow> real" where
  "rect_height b = \<bar>rect_top b - rect_bottom b\<bar>"

record FramebufferInfo =
  fbi_framebuffer :: handle
  fbi_attachment :: "handle option"
  fbi_width :: int
  fbi_height :: int

text \<open>
  The calls whose order matters are recorded, one constructor per call, with the
  arguments that reach them: \<open>twgl.bindFramebufferInfo\<close> (\<open>None\<close> for \<open>null\<close>),
  \<open>gl.clearColor\<close>, \<open>gl.clear(gl.COLOR_BUFFER_BIT)\<close>, \<open>gl.viewport\<close>,
  \<open>gl.useProgram\<close>, \<open>twgl.setUniforms\<close> (of the line region: the skin, the bounds
  of the projection and the stage size; of a rectangle: the texture, the bounds and the
  position), \<open>twgl.setAttribInfoBufferFromArray\<close> with the data uploaded,
  \<open>twgl.setBuffersAndAttributes\<close>, \<open>twgl.drawBufferInfo\<close> with its vertex count when
  one is given, \<open>gl.bindTexture\<close>, \<open>gl.texImage2D\<close> of the canvas,
  \<open>twgl.setTextureParameters\<close>, \<open>gl.readPixels\<close>, the copy into the image data,
  \<open>silhouette.update\<close> with its premultiplied flag, and \<open>clearRect\<close> and
  \<open>drawImage\<close> of the 2D context. Creating and deleting GL objects changes the sets of
  live objects instead.
\<close>

datatype effect =
    BindFramebufferInfo "handle option"
  | ClearColor real real real real
  | Clear_COLOR_BUFFER_BIT
  | Viewport real real real real
  | UseProgram shader
  | SetUniforms_line "handle option" real real "int \<times> int"
  | SetUniforms_rectangle "handle option" Rectangle real real
  | SetAttribInfoBufferFromArray attrib "number list"
  | SetBuffersAndAttributes shader bufferInfo
  | DrawBufferInfo bufferInfo "real option"
  | BindTexture "handle option"
  | TexImage2D_canvas
  | SetTextureParameters "handle option"
  | ReadPixels int int int int
  | ImageData_set
  | Silhouette_update bool
  | Ctx_clearRect int int int int
  | Ctx_drawImage stampElement number number

subsection \<open>The state\<close>

record PenSkin =
  skin_id :: int
  rotationCenter :: "real \<times> real"
  texture :: "handle option"
  canvas_width :: int
  canvas_height :: int
  exportTexture :: "handle option"
  framebuffer :: "FramebufferInfo option"
  silhouetteBuffer :: "FramebufferInfo option"
  canvasDirty :: bool
  silhouetteDirty :: bool
  silhouettePixels :: "int option"
  silhouetteImageData :: "(int \<times> int) option"
  renderQuality :: real
  nativeSize :: "int \<times> int"
  bounds :: Rectangle
  lineBufferInfo :: "handle option"
  a_lineColor :: "number list"
  a_lineColorIndex :: nat
  a_lineThicknessAndLength :: "number list"
  a_lineThicknessAndLengthIndex :: nat
  a_penPoints :: "number list"
  a_penPointsIndex :: nat
  a_position :: "number list"
  premultipliedColor :: color
  regionId :: "region option"
  listening :: bool
  gl_textures :: "handle set"
  texture_sizes :: "handle \<Rightarrow> (int \<times> int) option"
  gl_framebuffers :: "handle set"
  gl_buffers :: "handle set"
  gl_next :: handle
  effects :: "effect list"

text \<open>
  \<open>skin_id\<close>, \<open>rotationCenter\<close> and \<open>texture\<close> are the fields \<open>_id\<close>, \<open>_rotationCenter\<close>
  and \<open>_texture\<close> inherited from \<open>Skin\<close>. \<open>premultipliedColor\<close> is the module-level
  reused array \<open>__premultipliedColor\<close>. \<open>silhouettePixels\<close> holds the byte length of
  the read-back buffer, \<open>silhouetteImageData\<close> the dimensions of the image data.
  \<open>regionId\<close> is the renderer's current draw region, \<open>listening\<close> whether
  \<open>onNativeSizeChanged\<close> is registered with the renderer; \<open>gl_textures\<close>,
  \<open>gl_framebuffers\<close> and \<open>gl_buffers\<close> are the GL objects created and not yet
  deleted, \<open>texture_sizes\<close> the width and height each texture was created with,
  \<open>gl_next\<close> the next fresh handle.
\<close>

definition texture_size :: "PenSkin \<Rightarrow> handle option \<Rightarrow> (int \<times> int) option" where
  "texture_size s t = (case t of None \<Rightarrow> None | Some h \<Rightarrow> texture_sizes s h)"

definition emit :: "effect \<Rightarrow> PenSkin \<Rightarrow> PenSkin" where
  "emit e s = s\<lparr>effects := effects s @ [e]\<rparr>"

definition createTexture :: "int \<Rightarrow> int \<Rightarrow> PenSkin \<Rightarrow> handle \<times> PenSkin" where
  "createTexture w h s =
     (gl_next s, s\<lparr>gl_textures := insert (gl_next s) (gl_textures s),
                    texture_sizes := (texture_sizes s)(gl_next s \<mapsto> (w, h)),
                    gl_next := Suc (gl_next s)\<rparr>)"

text \<open>\<open>gl.deleteTexture(null)\<close> does nothing.\<close>

definition deleteTexture :: "handle option \<Rightarrow> PenSkin \<Rightarrow> PenSkin" where
  "deleteTexture t s = (case t of
       None \<Rightarrow> s
     | Some h \<Rightarrow> s\<lparr>gl_textures := gl_textures s - {h}\<rparr>)"

definition createFramebufferInfo ::
  "handle option \<Rightarrow> int \<Rightarrow> int \<Rightarrow> PenSkin \<Rightarrow> FramebufferInfo \<times> PenSkin" where
  "createFramebufferInfo att w h s =
     (\<lparr>fbi_framebuffer = gl_next s, fbi_attachment = att, fbi_width = w, fbi_height = h\<rparr>,
      s\<lparr>gl_framebuffers := insert (gl_next s) (gl_framebuffers s), gl_next := Suc (gl_next s)\<rparr>)"

definition deleteFramebuffer :: "handle \<Rightarrow> PenSkin \<Rightarrow> PenSkin" where
  "deleteFramebuffer h s = s\<lparr>gl_framebuffers := gl_framebuffers s - {h}\<rparr>"

definition createBufferInfoFromArrays :: "PenSkin \<Rightarrow> handle \<times> PenSkin" where
  "createBufferInfoFromArrays s =
     (gl_next s, s\<lparr>gl_buffers := insert (gl_next s) (gl_buffers s), gl_next := Suc (gl_next s)\<rparr>)"

text \<open>
  A store into a \<open>Float32Array\<close>: the value is rounded to single precision, and an
  index outside the array is ignored.
\<close>

definition typed_set :: "number list \<Rightarrow> nat \<Rightarrow> number \<Rightarrow> number list" where
  "typed_set xs i v = (if i < length xs then xs[i := fround v] else xs)"

subsection \<open>Line geometry and the vertex batch\<close>

text \<open>
  The loop \<open>for (var i = 0; i < this.a_position.length; i += 12)\<close> of
  \<open>_createLineGeometry\<close>, which fills \<open>a_position\<close> with the corner codes of the
  quads.
\<close>

function a_position_loop :: "nat \<Rightarrow> number list \<Rightarrow> number list" where
  "a_position_loop i xs =
     (if i < length xs then
        a_position_loop (i + 12)
          (typed_set (typed_set (typed_set (typed_set (typed_set (typed_set
           (typed_set (typed_set (typed_set (typed_set (typed_set (typed_set xs
             (i + 0) (Num 1)) (i + 1) (Num 0)) (i + 2) (Num 0)) (i + 3) (Num 0))
             (i + 4) (Num 1)) (i + 5) (Num 1)) (i + 6) (Num 1)) (i + 7) (Num 1))
             (i + 8) (Num 0)) (i + 9) (Num 0)) (i + 10) (Num 0)) (i + 11) (Num 1))
      else xs)"
  by pat_completeness auto
termination
proof (relation "measure (\<lambda>(i, xs). length xs - i)")
  have len: "length (typed_set xs i v) = length xs" for xs i v
    by (simp add: typed_set_def)
  show "wf (measure (\<lambda>(i, xs). length xs - i))"
    by simp
  show "((i + 12,
          typed_set (typed_set (typed_set (typed_set (typed_set (typed_set
           (typed_set (typed_set (typed_set (typed_set (typed_set (typed_set xs
             (i + 0) (Num 1)) (i + 1) (Num 0)) (i + 2) (Num 0)) (i + 3) (Num 0))
             (i + 4) (Num 1)) (i + 5) (Num 1)) (i + 6) (Num 1)) (i + 7) (Num 1))
             (i + 8) (Num 0)) (i + 9) (Num 0)) (i + 10) (Num 0)) (i + 11) (Num 1)),
         (i, xs)) \<in> measure (\<lambda>(i, xs). length xs - i)"
    if "i < length xs" for i xs
    using that by (simp add: len)
qed

definition createLineGeometry :: "PenSkin \<Rightarrow> PenSkin" where
  "createLineGeometry s =
     (let s1 = s\<lparr>a_lineColor := replicate 65520 (Num 0),
                 a_lineColorIndex := 0,
                 a_lineThicknessAndLength := replicate 32760 (Num 0),
                 a_lineThicknessAndLengthIndex := 0,
                 a_penPoints := replicate 65520 (Num 0),
                 a_penPointsIndex := 0,
                 a_position := a_position_loop 0 (replicate 32760 (Num 0))\<rparr>;
          (h, s2) = createBufferInfoFromArrays s1
      in s2\<lparr>lineBufferInfo := Some h\<rparr>)"

text \<open>
  \<open>new Float32Array(a.buffer, 0, n)\<close>, the view of the first \<open>n\<close> elements, is
  \<open>take n a\<close>. The vertex count handed to \<open>drawBufferInfo\<close> is the quotient
  \<open>a_lineThicknessAndLengthIndex / 2\<close>, a number.
\<close>

definition flushLines :: "PenSkin \<Rightarrow> PenSkin" where
  "flushLines s =
     (let s1 = (if a_lineColorIndex s < 1000 then
                  emit (SetAttribInfoBufferFromArray Attr_lineThicknessAndLength
                          (take (a_lineThicknessAndLengthIndex s) (a_lineThicknessAndLength s)))
                    (emit (SetAttribInfoBufferFromArray Attr_penPoints
                             (take (a_penPointsIndex s) (a_penPoints s)))
                       (emit (SetAttribInfoBufferFromArray Attr_lineColor
                                (take (a_lineColorIndex s) (a_lineColor s))) s))
                else
                  emit (SetAttribInfoBufferFromArray Attr_lineThicknessAndLength
                          (a_lineThicknessAndLength s))
                    (emit (SetAttribInfoBufferFromArray Attr_penPoints (a_penPoints s))
                       (emit (SetAttribInfoBufferFromArray Attr_lineColor (a_lineColor s)) s)));
          s2 = emit (SetBuffersAndAttributes LineShader LineBufferInfo) s1;
          s3 = emit (DrawBufferInfo LineBufferInfo
                       (Some (real (a_lineThicknessAndLengthIndex s2) / 2))) s2
      in s3\<lparr>a_lineColorIndex := 0,
            a_lineThicknessAndLengthIndex := 0,
            a_penPointsIndex := 0,
            silhouetteDirty := True\<rparr>)"

definition enterDrawLineOnBuffer :: "PenSkin \<Rightarrow> PenSkin" where
  "enterDrawLineOnBuffer s =
     (let s1 = s\<lparr>a_lineColorIndex := 0,
                 a_lineThicknessAndLengthIndex := 0,
                 a_penPointsIndex := 0\<rparr>;
          s2 = emit (BindFramebufferInfo (map_option fbi_framebuffer (framebuffer s1))) s1;
          s3 = emit (Viewport 0 0 (rect_width (bounds s2)) (rect_height (bounds s2))) s2;
          s4 = emit (UseProgram LineShader) s3
      in emit (SetUniforms_line (texture s4) (rect_width (bounds s4)) (rect_height (bounds s4))
                 (nativeSize s4)) s4)"

definition exitDrawLineOnBuffer :: "PenSkin \<Rightarrow> PenSkin" where
  "exitDrawLineOnBuffer s =
     (let s1 = (if a_lineColorIndex s \<noteq> 0 then flushLines s else s)
      in emit (BindFramebufferInfo None) s1)"

definition drawRectangleRegionEnter :: "shader \<Rightarrow> Rectangle \<Rightarrow> PenSkin \<Rightarrow> PenSkin" where
  "drawRectangleRegionEnter currentShader b s =
     emit (SetBuffersAndAttributes currentShader RendererBufferInfo)
       (emit (UseProgram currentShader)
          (emit (Viewport 0 0 (rect_width b) (rect_height b)) s))"

definition enterDrawToBuffer :: "PenSkin \<Rightarrow> PenSkin" where
  "enterDrawToBuffer s =
     (let s1 = emit (BindFramebufferInfo (map_option fbi_framebuffer (framebuffer s))) s
      in drawRectangleRegionEnter StampShader (bounds s1) s1)"

definition exitDrawToBuffer :: "PenSkin \<Rightarrow> PenSkin" where
  "exitDrawToBuffer s = emit (BindFramebufferInfo None) s"

text \<open>
  The two region objects built by the constructor: \<open>_lineOnBufferDrawRegionId\<close> and
  \<open>_toBufferDrawRegionId\<close>, each a pair of an enter and an exit callback.
\<close>

definition region_enter :: "region \<Rightarrow> PenSkin \<Rightarrow> PenSkin" where
  "region_enter r s = (case r of
       LineOnBufferDrawRegionId \<Rightarrow> enterDrawLineOnBuffer s
     | ToBufferDrawRegionId \<Rightarrow> enterDrawToBuffer s)"

definition region_exit :: "region \<Rightarrow> PenSkin \<Rightarrow> PenSkin" where
  "region_exit r s = (case r of
       LineOnBufferDrawRegionId \<Rightarrow> exitDrawLineOnBuffer s
     | ToBufferDrawRegionId \<Rightarrow> exitDrawToBuffer s)"

text \<open>
  Modelled from the spec: the renderer's \<open>enterDrawRegion\<close> is not under src. ``If the
  guard is already inside \<open>regionId\<close>, no-op; otherwise runs \<open>regionId.exit()\<close> for the
  currently-entered region (if any) and \<open>regionId.enter()\<close> for the new one, then records
  \<open>regionId\<close> as current.''
\<close>

definition enterDrawRegion :: "region \<Rightarrow> PenSkin \<Rightarrow> PenSkin" where
  "enterDrawRegion r s =
     (if regionId s = Some r then s
      else
        (let s1 = (case regionId s of None \<Rightarrow> s | Some c \<Rightarrow> region_exit c s);
             s2 = region_enter r s1
         in s2\<lparr>regionId := Some r\<rparr>))"

definition put_lineColor :: "number \<Rightarrow> PenSkin \<Rightarrow> PenSkin" where
  "put_lineColor v s =
     s\<lparr>a_lineColor := typed_set (a_lineColor s) (a_lineColorIndex s) v,
       a_lineColorIndex := a_lineColorIndex s + 1\<rparr>"

definition put_lineThicknessAndLength :: "number \<Rightarrow> PenSkin \<Rightarrow> PenSkin" where
  "put_lineThicknessAndLength v s =
     s\<lparr>a_lineThicknessAndLength :=
         typed_set (a_lineThicknessAndLength s) (a_lineThicknessAndLengthIndex s) v,
       a_lineThicknessAndLengthIndex := a_lineThicknessAndLengthIndex s + 1\<rparr>"

definition put_penPoints :: "number \<Rightarrow> PenSkin \<Rightarrow> PenSkin" where
  "put_penPoints v s =
     s\<lparr>a_penPoints := typed_set (a_penPoints s) (a_penPointsIndex s) v,
       a_penPointsIndex := a_penPointsIndex s + 1\<rparr>"

text \<open>One pass through the body of the loop \<open>for (let i = 0; i < 6; i++)\<close>.\<close>

definition vertex_body ::
  "number \<Rightarrow> number \<Rightarrow> number \<Rightarrow> number \<Rightarrow> number \<Rightarrow> number \<Rightarrow> PenSkin \<Rightarrow> PenSkin" where
  "vertex_body lineThickness lineLength x0 y0 lineDiffX lineDiffY s =
     (case premultipliedColor s of (c0, c1, c2, c3) \<Rightarrow>
        put_penPoints (num_neg lineDiffY)
          (put_penPoints lineDiffX
             (put_penPoints (num_neg y0)
                (put_penPoints x0
                   (put_lineThicknessAndLength lineLength
                      (put_lineThicknessAndLength lineThickness
                         (put_lineColor c3
                            (put_lineColor c2
                               (put_lineColor c1
                                  (put_lineColor c0 s))))))))))"

function vertex_loop ::
  "nat \<Rightarrow> number \<Rightarrow> number \<Rightarrow> number \<Rightarrow> number \<Rightarrow> number \<Rightarrow> number \<Rightarrow> PenSkin \<Rightarrow> PenSkin" where
  "vertex_loop i lineThickness lineLength x0 y0 lineDiffX lineDiffY s =
     (if i < 6 then
        vertex_loop (i + 1) lineThickness lineLength x0 y0 lineDiffX lineDiffY
          (vertex_body lineThickness lineLength x0 y0 lineDiffX lineDiffY s)
      else s)"
  by pat_completeness auto
termination
  by (relation "measure (\<lambda>(i, _). 6 - i)") auto

definition drawLineOnBuffer ::
  "PenAttributes \<Rightarrow> number \<Rightarrow> number \<Rightarrow> number \<Rightarrow> number \<Rightarrow> PenSkin \<Rightarrow> PenSkin" where
  "drawLineOnBuffer penAttributes x0 y0 x1 y1 s =
     (let s1 = enterDrawRegion LineOnBufferDrawRegionId s;
          s2 = (if a_lineColorIndex s1 + 24 > length (a_lineColor s1) then flushLines s1 else s1);
          penColor = or_color (color4f penAttributes) (color4f DefaultPenAttributes);
          s3 = (case penColor of (r, g, b, a) \<Rightarrow>
                  s2\<lparr>premultipliedColor := (num_mul r a, num_mul g a, num_mul b a, a)\<rparr>);
          lineDiffX = num_sub x1 x0;
          lineDiffY = num_sub y1 y0;
          lineLength = num_sqrt (num_add (num_mul lineDiffX lineDiffX)
                                         (num_mul lineDiffY lineDiffY));
          lineThickness = or_number (diameter penAttributes) (diameter DefaultPenAttributes)
      in vertex_loop 0 lineThickness lineLength x0 y0 lineDiffX lineDiffY s3)"

subsection \<open>Public drawing operations\<close>

definition size_of :: "PenSkin \<Rightarrow> int \<times> int" where
  "size_of s = nativeSize s"

definition clear :: "PenSkin \<Rightarrow> PenSkin" where
  "clear s =
     (let s1 = emit (BindFramebufferInfo (map_option fbi_framebuffer (framebuffer s))) s;
          s2 = emit (ClearColor 0 0 0 0) s1;
          s3 = emit Clear_COLOR_BUFFER_BIT s2;
          s4 = emit (Ctx_clearRect 0 0 (canvas_width s3) (canvas_height s3)) s3
      in s4\<lparr>silhouetteDirty := True\<rparr>)"

definition drawLine ::
  "PenAttributes \<Rightarrow> number \<Rightarrow> number \<Rightarrow> number \<Rightarrow> number \<Rightarrow> PenSkin \<Rightarrow> PenSkin" where
  "drawLine penAttributes x0 y0 x1 y1 s =
     (let d = or_number (diameter penAttributes) (diameter DefaultPenAttributes);
          offset = (if d = Num 1 \<or> d = Num 3 then Num (1 / 2) else Num 0);
          s1 = drawLineOnBuffer penAttributes
                 (num_add x0 offset) (num_add y0 offset) (num_add x1 offset) (num_add y1 offset) s
      in s1\<lparr>silhouetteDirty := True\<rparr>)"

definition drawPoint :: "PenAttributes \<Rightarrow> number \<Rightarrow> number \<Rightarrow> PenSkin \<Rightarrow> PenSkin" where
  "drawPoint penAttributes x y s = drawLine penAttributes x y x y s"

definition drawStamp :: "stampElement \<Rightarrow> number \<Rightarrow> number \<Rightarrow> PenSkin \<Rightarrow> PenSkin" where
  "drawStamp stampElement x y s =
     (let s1 = emit (Ctx_drawImage stampElement
                       (num_add (Num (fst (rotationCenter s))) x)
                       (num_sub (Num (snd (rotationCenter s))) y)) s
      in s1\<lparr>canvasDirty := True, silhouetteDirty := True\<rparr>)"

definition drawRectangle ::
  "shader \<Rightarrow> handle option \<Rightarrow> Rectangle \<Rightarrow> real \<Rightarrow> real \<Rightarrow> PenSkin \<Rightarrow> PenSkin" where
  "drawRectangle currentShader tex b x y s =
     emit (DrawBufferInfo RendererBufferInfo None)
       (emit (SetUniforms_rectangle tex b x y)
          (emit (SetTextureParameters tex) s))"

text \<open>
  \<open>_drawToBuffer(texture = this._texture, x = -this._canvas.width / 2,
  y = this._canvas.height / 2)\<close>: the callers pass the defaults explicitly.
\<close>

function drawToBuffer :: "handle option \<Rightarrow> real \<Rightarrow> real \<Rightarrow> PenSkin \<Rightarrow> PenSkin" where
  "drawToBuffer tex x y s =
     (let s1 = (if tex \<noteq> texture s \<and> canvasDirty s
                then drawToBuffer (texture s)
                       (- real_of_int (canvas_width s) / 2) (real_of_int (canvas_height s) / 2) s
                else s);
          s2 = (if tex = texture s1
                then (emit (Ctx_clearRect 0 0 (canvas_width s1) (canvas_height s1))
                        (emit TexImage2D_canvas
                           (emit (BindTexture tex) s1)))\<lparr>canvasDirty := False\<rparr>
                else s1);
          s3 = enterDrawRegion ToBufferDrawRegionId s2;
          s4 = drawRectangle StampShader tex (bounds s2) x y s3
      in s4\<lparr>silhouetteDirty := True\<rparr>)"
  by pat_completeness auto
termination
  by (relation "measure (\<lambda>(tex, x, y, s). if tex \<noteq> texture s then 1 else 0)") auto

definition drawToBuffer_default :: "PenSkin \<Rightarrow> PenSkin" where
  "drawToBuffer_default s =
     drawToBuffer (texture s)
       (- real_of_int (canvas_width s) / 2) (real_of_int (canvas_height s) / 2) s"

definition getTexture :: "real \<Rightarrow> real \<Rightarrow> PenSkin \<Rightarrow> handle option \<times> PenSkin" where
  "getTexture pixelsWide pixelsTall s =
     (let s1 = (if canvasDirty s then drawToBuffer_default s else s)
      in (exportTexture s1, s1))"

subsection \<open>Resizing, render quality, silhouette, disposal\<close>

text \<open>\<open>Math.round\<close> of a finite number: the nearest integer, a tie going up.\<close>

definition Math_round :: "real \<Rightarrow> int" where
  "Math_round x = \<lfloor>x + 1 / 2\<rfloor>"

text \<open>
  \<open>_setCanvasSize\<close> is embedded in the order of its text: the canvas part (bounds,
  canvas size, rotation center), the two textures (the first created from the canvas,
  whose size it takes, the second with the width and height given), the two
  framebuffers with the clear that follows them, and then the redraw of the old export
  texture and the read-back buffers.
\<close>

definition setCanvasSize_canvas :: "int \<Rightarrow> int \<Rightarrow> PenSkin \<Rightarrow> PenSkin" where
  "setCanvasSize_canvas width height s =
     (let s1 = s\<lparr>bounds := initFromBounds (real_of_int width / 2) (real_of_int width / (- 2))
                                (real_of_int height / 2) (real_of_int height / (- 2)),
                 canvas_width := width,
                 canvas_height := height\<rparr>
      in s1\<lparr>rotationCenter := (real_of_int (fst (size_of s1)) / 2,
                                  real_of_int (snd (size_of s1)) / 2)\<rparr>)"

definition setCanvasSize_textures :: "int \<Rightarrow> int \<Rightarrow> PenSkin \<Rightarrow> PenSkin" where
  "setCanvasSize_textures width height s =
     (let (t, s1) = createTexture (canvas_width s) (canvas_height s) s;
          s2 = s1\<lparr>texture := Some t\<rparr>;
          (e, s3) = createTexture width height s2
      in s3\<lparr>exportTexture := Some e\<rparr>)"

definition setCanvasSize_framebuffers :: "int \<Rightarrow> int \<Rightarrow> PenSkin \<Rightarrow> PenSkin" where
  "setCanvasSize_framebuffers width height s =
     (let s1 = (case framebuffer s of
                  Some f \<Rightarrow> deleteFramebuffer (fbi_framebuffer f) s | None \<Rightarrow> s);
          s2 = (case silhouetteBuffer s1 of
                  Some f \<Rightarrow> deleteFramebuffer (fbi_framebuffer f) s1 | None \<Rightarrow> s1);
          (fb, s3) = createFramebufferInfo (exportTexture s2) width height s2;
          s4 = s3\<lparr>framebuffer := Some fb\<rparr>;
          (sb, s5) = createFramebufferInfo None width height s4;
          s6 = s5\<lparr>silhouetteBuffer := Some sb\<rparr>
      in emit Clear_COLOR_BUFFER_BIT (emit (ClearColor 0 0 0 0) s6))"

definition setCanvasSize :: "int \<times> int \<Rightarrow> PenSkin \<Rightarrow> PenSkin" where
  "setCanvasSize canvasSize s =
     (case canvasSize of (width, height) \<Rightarrow>
        (let s1 = setCanvasSize_canvas width height s;
             oldExportTexture = exportTexture s1;
             s2 = setCanvasSize_textures width height s1;
             s3 = setCanvasSize_framebuffers width height s2;
             s4 = (case oldExportTexture of
                     Some old \<Rightarrow>
                       drawToBuffer (Some old) (- real_of_int (canvas_width s3) / 2)
                         (real_of_int (canvas_height s3) / 2) s3
                   | None \<Rightarrow> s3)
         in s4\<lparr>silhouettePixels := Some (width * height * 4),
               silhouetteImageData := Some (width, height),
               silhouetteDirty := True\<rparr>))"

definition onNativeSizeChanged :: "int \<times> int \<Rightarrow> PenSkin \<Rightarrow> PenSkin" where
  "onNativeSizeChanged newSize s = setCanvasSize newSize (s\<lparr>nativeSize := newSize\<rparr>)"

text \<open>
  In \<open>setRenderQuality\<close> each product \<open>this._nativeSize[k] * quality\<close> is a double:
  the real product rounded by \<open>double_of\<close>. The quality is finite and the products are
  taken within the range of the finite doubles, where \<open>Math.round\<close> gives an integer.
\<close>

definition setRenderQuality :: "real \<Rightarrow> PenSkin \<Rightarrow> PenSkin" where
  "setRenderQuality quality s =
     (if renderQuality s = quality then s
      else
        (let s1 = s\<lparr>renderQuality := quality\<rparr>
         in setCanvasSize
              (Math_round (double_of (real_of_int (fst (nativeSize s1)) * quality)),
               Math_round (double_of (real_of_int (snd (nativeSize s1)) * quality))) s1))"

definition updateSilhouette :: "PenSkin \<Rightarrow> PenSkin" where
  "updateSilhouette s =
     (if silhouetteDirty s then
        (let s1 = (if canvasDirty s then drawToBuffer_default s else s);
             s2 = enterDrawRegion ToBufferDrawRegionId s1;
             s3 = emit (ReadPixels 0 0 (canvas_width s2) (canvas_height s2)) s2;
             s4 = emit ImageData_set s3;
             s5 = emit (Silhouette_update True) s4
         in s5\<lparr>silhouetteDirty := False\<rparr>)
      else s)"

text \<open>
  \<open>RenderConstants.ID_NONE\<close>: ``the ID value to use for "no item" or when an object has
  been disposed''.
\<close>

definition ID_NONE :: int where
  "ID_NONE = - 1"

text \<open>
  Modelled from the spec: \<open>Skin.js\<close> is not under src. The generic skin owns the id,
  and \<open>ID_NONE\<close> is the id of an object that has been disposed; the inherited
  \<open>dispose\<close> knows no field of the pen layer.
\<close>

definition Skin_dispose :: "PenSkin \<Rightarrow> PenSkin" where
  "Skin_dispose s = s\<lparr>skin_id := ID_NONE\<rparr>"

definition dispose :: "PenSkin \<Rightarrow> PenSkin" where
  "dispose s =
     (let s1 = s\<lparr>listening := False\<rparr>;
          s2 = deleteTexture (texture s1) s1;
          s3 = deleteTexture (exportTexture s2) s2;
          s4 = s3\<lparr>texture := None\<rparr>
      in Skin_dispose s4)"

text \<open>
  Modelled from the spec: the constructor of \<open>Skin\<close> is not under src. The generic
  skin owns the id, the rotation center and the texture slot; they start as the id given,
  the origin and no texture. The other fields of \<open>blank\<close> are the assignments at the
  head of the constructor of \<open>PenSkin\<close>; a canvas element is created 300 by 150, and
  the arrays do not exist before \<open>_createLineGeometry\<close>. The renderer is taken with a
  fresh GL context and in no draw region.
\<close>

definition blank :: "int \<Rightarrow> int \<times> int \<Rightarrow> PenSkin" where
  "blank i rendererNativeSize =
     \<lparr>skin_id = i, rotationCenter = (0, 0), texture = None,
      canvas_width = 300, canvas_height = 150,
      exportTexture = None, framebuffer = None, silhouetteBuffer = None,
      canvasDirty = False, silhouetteDirty = False,
      silhouettePixels = None, silhouetteImageData = None,
      renderQuality = 1, nativeSize = rendererNativeSize,
      bounds = initFromBounds 0 0 0 0, lineBufferInfo = None,
      a_lineColor = [], a_lineColorIndex = 0,
      a_lineThicknessAndLength = [], a_lineThicknessAndLengthIndex = 0,
      a_penPoints = [], a_penPointsIndex = 0, a_position = [],
      premultipliedColor = (Num 0, Num 0, Num 0, Num 0),
      regionId = None, listening = False,
      gl_textures = {}, texture_sizes = (\<lambda>h. None),
      gl_framebuffers = {}, gl_buffers = {}, gl_next = 0,
      effects = []\<rparr>"

text \<open>
  The constructor: the field assignments, \<open>_createLineGeometry()\<close>, the registration
  of the size-change listener, and \<open>_setCanvasSize(renderer.getNativeSize())\<close>.
\<close>

definition constructor :: "int \<Rightarrow> int \<times> int \<Rightarrow> PenSkin" where
  "constructor i rendererNativeSize =
     (let s1 = createLineGeometry (blank i rendererNativeSize);
          s2 = s1\<lparr>listening := True\<rparr>
      in setCanvasSize rendererNativeSize s2)"

subsection \<open>Sequences of public operations\<close>

text \<open>
  The public operations, and the state after a sequence of them. A state is reachable
  when it is \<open>run (constructor i n) ops\<close> for some id, native size and operations.
\<close>

datatype operation =
    Clear
  | DrawPoint PenAttributes number number
  | DrawLine PenAttributes number number number number
  | DrawStamp stampElement number number
  | GetTexture real real
  | UpdateSilhouette
  | SetRenderQuality real
  | NativeSizeChanged "int \<times> int"

fun step :: "PenSkin \<Rightarrow> operation \<Rightarrow> PenSkin" where
  "step s Clear = clear s"
| "step s (DrawPoint a x y) = drawPoint a x y s"
| "step s (DrawLine a x0 y0 x1 y1) = drawLine a x0 y0 x1 y1 s"
| "step s (DrawStamp e x y) = drawStamp e x y s"
| "step s (GetTexture w h) = snd (getTexture w h s)"
| "step s UpdateSilhouette = updateSilhouette s"
| "step s (SetRenderQuality q) = setRenderQuality q s"
| "step s (NativeSizeChanged newSize) = onNativeSizeChanged newSize s"

definition run :: "PenSkin \<Rightarrow> operation list \<Rightarrow> PenSkin" where
  "run s ops = foldl step s ops"

subsection \<open>Auxiliary notions for the proofs\<close>

text \<open>
  \<open>write_at xs i ys\<close> is the array \<open>xs\<close> with the run \<open>ys\<close> in place of its elements
  from index \<open>i\<close>. An array with its write cursor is a channel; \<open>push\<close> is one store
  followed by the increment of the cursor, as in \<open>a[i] = v; i++\<close>, and \<open>pushes\<close> a
  sequence of them.
\<close>

definition write_at :: "number list \<Rightarrow> nat \<Rightarrow> number list \<Rightarrow> number list" where
  "write_at xs i ys = take i xs @ ys @ drop (i + length ys) xs"

definition push :: "number list \<times> nat \<Rightarrow> number \<Rightarrow> number list \<times> nat" where
  "push ch v = (typed_set (fst ch) (snd ch) v, snd ch + 1)"

definition pushes :: "number list \<Rightarrow> number list \<times> nat \<Rightarrow> number list \<times> nat" where
  "pushes vs ch = foldl push ch vs"

definition chan_color :: "PenSkin \<Rightarrow> number list \<times> nat" where
  "chan_color s = (a_lineColor s, a_lineColorIndex s)"

definition chan_thickness :: "PenSkin \<Rightarrow> number list \<times> nat" where
  "chan_thickness s = (a_lineThicknessAndLength s, a_lineThicknessAndLengthIndex s)"

definition chan_points :: "PenSkin \<Rightarrow> number list \<times> nat" where
  "chan_points s = (a_penPoints s, a_penPointsIndex s)"

text \<open>
  The invariant of the batch: the arrays have the lengths \<open>_createLineGeometry\<close> gave
  them, the cursors are in lockstep, and the color cursor is a multiple of 24 within the
  array.
\<close>

definition batch_inv :: "PenSkin \<Rightarrow> bool" where
  "batch_inv s \<longleftrightarrow>
     length (a_lineColor s) = 65520 \<and>
     length (a_lineThicknessAndLength s) = 32760 \<and>
     length (a_penPoints s) = 65520 \<and>
     a_penPointsIndex s = a_lineColorIndex s \<and>
     a_lineColorIndex s = 2 * a_lineThicknessAndLengthIndex s \<and>
     24 dvd a_lineColorIndex s \<and>
     a_lineColorIndex s \<le> 65520"

text \<open>
  The state of \<open>_drawLineOnBuffer\<close> when it starts to write: the line region has been
  entered and the batch has been flushed if the segment would not fit.
\<close>

definition before_append :: "PenSkin \<Rightarrow> PenSkin" where
  "before_append s =
     (let s1 = enterDrawRegion LineOnBufferDrawRegionId s
      in if a_lineColorIndex s1 + 24 > length (a_lineColor s1) then flushLines s1 else s1)"

text \<open>
  The calls that \<open>_flushLines\<close> issues in a state: the three uploads (the written part
  of each array below 1000 color floats, the whole arrays otherwise), the binding of the
  buffers, and the draw of \<open>a_lineThicknessAndLengthIndex / 2\<close> vertices. The lemma
  \<open>effects_flushLines\<close> below relates it to \<open>flushLines\<close>.
\<close>

definition flush_calls :: "PenSkin \<Rightarrow> effect list" where
  "flush_calls s =
     (if a_lineColorIndex s < 1000 then
        [SetAttribInfoBufferFromArray Attr_lineColor (take (a_lineColorIndex s) (a_lineColor s)),
         SetAttribInfoBufferFromArray Attr_penPoints (take (a_penPointsIndex s) (a_penPoints s)),
         SetAttribInfoBufferFromArray Attr_lineThicknessAndLength
           (take (a_lineThicknessAndLengthIndex s) (a_lineThicknessAndLength s))]
      else
        [SetAttribInfoBufferFromArray Attr_lineColor (a_lineColor s),
         SetAttribInfoBufferFromArray Attr_penPoints (a_penPoints s),
         SetAttribInfoBufferFromArray Attr_lineThicknessAndLength (a_lineThicknessAndLength s)])
     @ [SetBuffersAndAttributes LineShader LineBufferInfo,
        DrawBufferInfo LineBufferInfo (Some (real (a_lineThicknessAndLengthIndex s) / 2))]"

text \<open>
  The first half of \<open>_drawToBuffer\<close> on the texture of the canvas: the canvas is
  uploaded and cleared, and the canvas-dirty flag is reset.
\<close>

definition merge_canvas :: "PenSkin \<Rightarrow> PenSkin" where
  "merge_canvas s =
     (emit (Ctx_clearRect 0 0 (canvas_width s) (canvas_height s))
        (emit TexImage2D_canvas (emit (BindTexture (texture s)) s)))\<lparr>canvasDirty := False\<rparr>"

text \<open>
  The length of the segment from \<open>(x0, y0)\<close> to \<open>(x1, y1)\<close> as \<open>_drawLineOnBuffer\<close>
  computes it.
\<close>

definition segment_length :: "number \<Rightarrow> number \<Rightarrow> number \<Rightarrow> number \<Rightarrow> number" where
  "segment_length x0 y0 x1 y1 =
     num_sqrt (num_add (num_mul (num_sub x1 x0) (num_sub x1 x0))
                       (num_mul (num_sub y1 y0) (num_sub y1 y0)))"

text \<open>The offset that \<open>drawLine\<close> adds to every coordinate.\<close>

definition pen_offset :: "PenAttributes \<Rightarrow> number" where
  "pen_offset a =
     (if or_number (diameter a) (diameter DefaultPenAttributes) = Num 1
         \<or> or_number (diameter a) (diameter DefaultPenAttributes) = Num 3
      then Num (1 / 2) else Num 0)"

section \<open>Properties\<close>

declare a_position_loop.simps [simp del] vertex_loop.simps [simp del] drawToBuffer.simps [simp del]

declare exponent_up.simps [simp del] exponent_down.simps [simp del]

subsection \<open>Numbers\<close>

lemmas num_eval = exponent_up.simps exponent_down.simps exponent_def two_to_def round_to_def
  max_finite_def to_format_def to_double_def to_float32_def round_half_even_def Let_def
  num_sub_def infinity_def double_of_def

lemma to_double_0: "to_double 0 = Num 0"
  by (simp add: num_eval)

lemma to_float32_0: "to_float32 0 = Num 0"
  by (simp add: num_eval)

lemma num_add_0: "is_double x \<Longrightarrow> num_add x (Num 0) = x"
  by (cases x) simp_all

lemma num_sub_self: "num_sub (Num v) (Num v) = Num 0"
  by (simp add: num_sub_def to_double_0)

lemma segment_length_point: "segment_length (Num x) (Num y) (Num x) (Num y) = Num 0"
  by (simp add: segment_length_def num_sub_self to_double_0)

subsection \<open>What each function leaves alone\<close>

text \<open>
  Each function changes a few fields of the state; the lemmas of this subsection list,
  function by function, the fields that keep their value.
\<close>

lemma emit_frame [simp]:
  "skin_id (emit e s) = skin_id s"
  "rotationCenter (emit e s) = rotationCenter s"
  "texture (emit e s) = texture s"
  "canvas_width (emit e s) = canvas_width s"
  "canvas_height (emit e s) = canvas_height s"
  "exportTexture (emit e s) = exportTexture s"
  "framebuffer (emit e s) = framebuffer s"
  "silhouetteBuffer (emit e s) = silhouetteBuffer s"
  "canvasDirty (emit e s) = canvasDirty s"
  "silhouetteDirty (emit e s) = silhouetteDirty s"
  "silhouettePixels (emit e s) = silhouettePixels s"
  "silhouetteImageData (emit e s) = silhouetteImageData s"
  "renderQuality (emit e s) = renderQuality s"
  "nativeSize (emit e s) = nativeSize s"
  "bounds (emit e s) = bounds s"
  "lineBufferInfo (emit e s) = lineBufferInfo s"
  "a_lineColor (emit e s) = a_lineColor s"
  "a_lineColorIndex (emit e s) = a_lineColorIndex s"
  "a_lineThicknessAndLength (emit e s) = a_lineThicknessAndLength s"
  "a_lineThicknessAndLengthIndex (emit e s) = a_lineThicknessAndLengthIndex s"
  "a_penPoints (emit e s) = a_penPoints s"
  "a_penPointsIndex (emit e s) = a_penPointsIndex s"
  "a_position (emit e s) = a_position s"
  "premultipliedColor (emit e s) = premultipliedColor s"
  "regionId (emit e s) = regionId s"
  "listening (emit e s) = listening s"
  "gl_textures (emit e s) = gl_textures s"
  "texture_sizes (emit e s) = texture_sizes s"
  "gl_framebuffers (emit e s) = gl_framebuffers s"
  "gl_buffers (emit e s) = gl_buffers s"
  "gl_next (emit e s) = gl_next s"
  by (simp_all add: emit_def)

lemma flushLines_frame [simp]:
  "skin_id (flushLines s) = skin_id s"
  "rotationCenter (flushLines s) = rotationCenter s"
  "texture (flushLines s) = texture s"
  "canvas_width (flushLines s) = canvas_width s"
  "canvas_height (flushLines s) = canvas_height s"
  "exportTexture (flushLines s) = exportTexture s"
  "framebuffer (flushLines s) = framebuffer s"
  "silhouetteBuffer (flushLines s) = silhouetteBuffer s"
  "canvasDirty (flushLines s) = canvasDirty s"
  "silhouettePixels (flushLines s) = silhouettePixels s"
  "silhouetteImageData (flushLines s) = silhouetteImageData s"
  "renderQuality (flushLines s) = renderQuality s"
  "nativeSize (flushLines s) = nativeSize s"
  "bounds (flushLines s) = bounds s"
  "lineBufferInfo (flushLines s) = lineBufferInfo s"
  "a_lineColor (flushLines s) = a_lineColor s"
  "a_lineThicknessAndLength (flushLines s) = a_lineThicknessAndLength s"
  "a_penPoints (flushLines s) = a_penPoints s"
  "a_position (flushLines s) = a_position s"
  "premultipliedColor (flushLines s) = premultipliedColor s"
  "regionId (flushLines s) = regionId s"
  "listening (flushLines s) = listening s"
  "gl_textures (flushLines s) = gl_textures s"
  "texture_sizes (flushLines s) = texture_sizes s"
  "gl_framebuffers (flushLines s) = gl_framebuffers s"
  "gl_buffers (flushLines s) = gl_buffers s"
  "gl_next (flushLines s) = gl_next s"
  by (simp_all add: flushLines_def Let_def)

lemma enterDrawLineOnBuffer_frame [simp]:
  "skin_id (enterDrawLineOnBuffer s) = skin_id s"
  "rotationCenter (enterDrawLineOnBuffer s) = rotationCenter s"
  "texture (enterDrawLineOnBuffer s) = texture s"
  "canvas_width (enterDrawLineOnBuffer s) = canvas_width s"
  "canvas_height (enterDrawLineOnBuffer s) = canvas_height s"
  "exportTexture (enterDrawLineOnBuffer s) = exportTexture s"
  "framebuffer (enterDrawLineOnBuffer s) = framebuffer s"
  "silhouetteBuffer (enterDrawLineOnBuffer s) = silhouetteBuffer s"
  "canvasDirty (enterDrawLineOnBuffer s) = canvasDirty s"
  "silhouetteDirty (enterDrawLineOnBuffer s) = silhouetteDirty s"
  "silhouettePixels (enterDrawLineOnBuffer s) = silhouettePixels s"
  "silhouetteImageData (enterDrawLineOnBuffer s) = silhouetteImageData s"
  "renderQuality (enterDrawLineOnBuffer s) = renderQuality s"
  "nativeSize (enterDrawLineOnBuffer s) = nativeSize s"
  "bounds (enterDrawLineOnBuffer s) = bounds s"
  "lineBufferInfo (enterDrawLineOnBuffer s) = lineBufferInfo s"
  "a_lineColor (enterDrawLineOnBuffer s) = a_lineColor s"
  "a_lineThicknessAndLength (enterDrawLineOnBuffer s) = a_lineThicknessAndLength s"
  "a_penPoints (enterDrawLineOnBuffer s) = a_penPoints s"
  "a_position (enterDrawLineOnBuffer s) = a_position s"
  "premultipliedColor (enterDrawLineOnBuffer s) = premultipliedColor s"
  "regionId (enterDrawLineOnBuffer s) = regionId s"
  "listening (enterDrawLineOnBuffer s) = listening s"
  "gl_textures (enterDrawLineOnBuffer s) = gl_textures s"
  "texture_sizes (enterDrawLineOnBuffer s) = texture_sizes s"
  "gl_framebuffers (enterDrawLineOnBuffer s) = gl_framebuffers s"
  "gl_buffers (enterDrawLineOnBuffer s) = gl_buffers s"
  "gl_next (enterDrawLineOnBuffer s) = gl_next s"
  by (simp_all add: enterDrawLineOnBuffer_def Let_def)

lemma exitDrawLineOnBuffer_frame [simp]:
  "skin_id (exitDrawLineOnBuffer s) = skin_id s"
  "rotationCenter (exitDrawLineOnBuffer s) = rotationCenter s"
  "texture (exitDrawLineOnBuffer s) = texture s"
  "canvas_width (exitDrawLineOnBuffer s) = canvas_width s"
  "canvas_height (exitDrawLineOnBuffer s) = canvas_height s"
  "exportTexture (exitDrawLineOnBuffer s) = exportTexture s"
  "framebuffer (exitDrawLineOnBuffer s) = framebuffer s"
  "silhouetteBuffer (exitDrawLineOnBuffer s) = silhouetteBuffer s"
  "canvasDirty (exitDrawLineOnBuffer s) = canvasDirty s"
  "silhouettePixels (exitDrawLineOnBuffer s) = silhouettePixels s"
  "silhouetteImageData (exitDrawLineOnBuffer s) = silhouetteImageData s"
  "renderQuality (exitDrawLineOnBuffer s) = renderQuality s"
  "nativeSize (exitDrawLineOnBuffer s) = nativeSize s"
  "bounds (exitDrawLineOnBuffer s) = bounds s"
  "lineBufferInfo (exitDrawLineOnBuffer s) = lineBufferInfo s"
  "a_lineColor (exitDrawLineOnBuffer s) = a_lineColor s"
  "a_lineThicknessAndLength (exitDrawLineOnBuffer s) = a_lineThicknessAndLength s"
  "a_penPoints (exitDrawLineOnBuffer s) = a_penPoints s"
  "a_position (exitDrawLineOnBuffer s) = a_position s"
  "premultipliedColor (exitDrawLineOnBuffer s) = premultipliedColor s"
  "regionId (exitDrawLineOnBuffer s) = regionId s"
  "listening (exitDrawLineOnBuffer s) = listening s"
  "gl_textures (exitDrawLineOnBuffer s) = gl_textures s"
  "texture_sizes (exitDrawLineOnBuffer s) = texture_sizes s"
  "gl_framebuffers (exitDrawLineOnBuffer s) = gl_framebuffers s"
  "gl_buffers (exitDrawLineOnBuffer s) = gl_buffers s"
  "gl_next (exitDrawLineOnBuffer s) = gl_next s"
  by (simp_all add: exitDrawLineOnBuffer_def Let_def)

lemma drawRectangleRegionEnter_frame [simp]:
  "skin_id (drawRectangleRegionEnter sh b s) = skin_id s"
  "rotationCenter (drawRectangleRegionEnter sh b s) = rotationCenter s"
  "texture (drawRectangleRegionEnter sh b s) = texture s"
  "canvas_width (drawRectangleRegionEnter sh b s) = canvas_width s"
  "canvas_height (drawRectangleRegionEnter sh b s) = canvas_height s"
  "exportTexture (drawRectangleRegionEnter sh b s) = exportTexture s"
  "framebuffer (drawRectangleRegionEnter sh b s) = framebuffer s"
  "silhouetteBuffer (drawRectangleRegionEnter sh b s) = silhouetteBuffer s"
  "canvasDirty (drawRectangleRegionEnter sh b s) = canvasDirty s"
  "silhouetteDirty (drawRectangleRegionEnter sh b s) = silhouetteDirty s"
  "silhouettePixels (drawRectangleRegionEnter sh b s) = silhouettePixels s"
  "silhouetteImageData (drawRectangleRegionEnter sh b s) = silhouetteImageData s"
  "renderQuality (drawRectangleRegionEnter sh b s) = renderQuality s"
  "nativeSize (drawRectangleRegionEnter sh b s) = nativeSize s"
  "bounds (drawRectangleRegionEnter sh b s) = bounds s"
  "lineBufferInfo (drawRectangleRegionEnter sh b s) = lineBufferInfo s"
  "a_lineColor (drawRectangleRegionEnter sh b s) = a_lineColor s"
  "a_lineColorIndex (drawRectangleRegionEnter sh b s) = a_lineColorIndex s"
  "a_lineThicknessAndLength (drawRectangleRegionEnter sh b s) = a_lineThicknessAndLength s"
  "a_lineThicknessAndLengthIndex (drawRectangleRegionEnter sh b s) = a_lineThicknessAndLengthIndex s"
  "a_penPoints (drawRectangleRegionEnter sh b s) = a_penPoints s"
  "a_penPointsIndex (drawRectangleRegionEnter sh b s) = a_penPointsIndex s"
  "a_position (drawRectangleRegionEnter sh b s) = a_position s"
  "premultipliedColor (drawRectangleRegionEnter sh b s) = premultipliedColor s"
  "regionId (drawRectangleRegionEnter sh b s) = regionId s"
  "listening (drawRectangleRegionEnter sh b s) = listening s"
  "gl_textures (drawRectangleRegionEnter sh b s) = gl_textures s"
  "texture_sizes (drawRectangleRegionEnter sh b s) = texture_sizes s"
  "gl_framebuffers (drawRectangleRegionEnter sh b s) = gl_framebuffers s"
  "gl_buffers (drawRectangleRegionEnter sh b s) = gl_buffers s"
  "gl_next (drawRectangleRegionEnter sh b s) = gl_next s"
  by (simp_all add: drawRectangleRegionEnter_def)

lemma enterDrawToBuffer_frame [simp]:
  "skin_id (enterDrawToBuffer s) = skin_id s"
  "rotationCenter (enterDrawToBuffer s) = rotationCenter s"
  "texture (enterDrawToBuffer s) = texture s"
  "canvas_width (enterDrawToBuffer s) = canvas_width s"
  "canvas_height (enterDrawToBuffer s) = canvas_height s"
  "exportTexture (enterDrawToBuffer s) = exportTexture s"
  "framebuffer (enterDrawToBuffer s) = framebuffer s"
  "silhouetteBuffer (enterDrawToBuffer s) = silhouetteBuffer s"
  "canvasDirty (enterDrawToBuffer s) = canvasDirty s"
  "silhouetteDirty (enterDrawToBuffer s) = silhouetteDirty s"
  "silhouettePixels (enterDrawToBuffer s) = silhouettePixels s"
  "silhouetteImageData (enterDrawToBuffer s) = silhouetteImageData s"
  "renderQuality (enterDrawToBuffer s) = renderQuality s"
  "nativeSize (enterDrawToBuffer s) = nativeSize s"
  "bounds (enterDrawToBuffer s) = bounds s"
  "lineBufferInfo (enterDrawToBuffer s) = lineBufferInfo s"
  "a_lineColor (enterDrawToBuffer s) = a_lineColor s"
  "a_lineColorIndex (enterDrawToBuffer s) = a_lineColorIndex s"
  "a_lineThicknessAndLength (enterDrawToBuffer s) = a_lineThicknessAndLength s"
  "a_lineThicknessAndLengthIndex (enterDrawToBuffer s) = a_lineThicknessAndLengthIndex s"
  "a_penPoints (enterDrawToBuffer s) = a_penPoints s"
  "a_penPointsIndex (enterDrawToBuffer s) = a_penPointsIndex s"
  "a_position (enterDrawToBuffer s) = a_position s"
  "premultipliedColor (enterDrawToBuffer s) = premultipliedColor s"
  "regionId (enterDrawToBuffer s) = regionId s"
  "listening (enterDrawToBuffer s) = listening s"
  "gl_textures (enterDrawToBuffer s) = gl_textures s"
  "texture_sizes (enterDrawToBuffer s) = texture_sizes s"
  "gl_framebuffers (enterDrawToBuffer s) = gl_framebuffers s"
  "gl_buffers (enterDrawToBuffer s) = gl_buffers s"
  "gl_next (enterDrawToBuffer s) = gl_next s"
  by (simp_all add: enterDrawToBuffer_def Let_def)

lemma exitDrawToBuffer_frame [simp]:
  "skin_id (exitDrawToBuffer s) = skin_id s"
  "rotationCenter (exitDrawToBuffer s) = rotationCenter s"
  "texture (exitDrawToBuffer s) = texture s"
  "canvas_width (exitDrawToBuffer s) = canvas_width s"
  "canvas_height (exitDrawToBuffer s) = canvas_height s"
  "exportTexture (exitDrawToBuffer s) = exportTexture s"
  "framebuffer (exitDrawToBuffer s) = framebuffer s"
  "silhouetteBuffer (exitDrawToBuffer s) = silhouetteBuffer s"
  "canvasDirty (exitDrawToBuffer s) = canvasDirty s"
  "silhouetteDirty (exitDrawToBuffer s) = silhouetteDirty s"
  "silhouettePixels (exitDrawToBuffer s) = silhouettePixels s"
  "silhouetteImageData (exitDrawToBuffer s) = silhouetteImageData s"
  "renderQuality (exitDrawToBuffer s) = renderQuality s"
  "nativeSize (exitDrawToBuffer s) = nativeSize s"
  "bounds (exitDrawToBuffer s) = bounds s"
  "lineBufferInfo (exitDrawToBuffer s) = lineBufferInfo s"
  "a_lineColor (exitDrawToBuffer s) = a_lineColor s"
  "a_lineColorIndex (exitDrawToBuffer s) = a_lineColorIndex s"
  "a_lineThicknessAndLength (exitDrawToBuffer s) = a_lineThicknessAndLength s"
  "a_lineThicknessAndLengthIndex (exitDrawToBuffer s) = a_lineThicknessAndLengthIndex s"
  "a_penPoints (exitDrawToBuffer s) = a_penPoints s"
  "a_penPointsIndex (exitDrawToBuffer s) = a_penPointsIndex s"
  "a_position (exitDrawToBuffer s) = a_position s"
  "premultipliedColor (exitDrawToBuffer s) = premultipliedColor s"
  "regionId (exitDrawToBuffer s) = regionId s"
  "listening (exitDrawToBuffer s) = listening s"
  "gl_textures (exitDrawToBuffer s) = gl_textures s"
  "texture_sizes (exitDrawToBuffer s) = texture_sizes s"
  "gl_framebuffers (exitDrawToBuffer s) = gl_framebuffers s"
  "gl_buffers (exitDrawToBuffer s) = gl_buffers s"
  "gl_next (exitDrawToBuffer s) = gl_next s"
  by (simp_all add: exitDrawToBuffer_def)

lemma region_enter_frame [simp]:
  "skin_id (region_enter r s) = skin_id s"
  "rotationCenter (region_enter r s) = rotationCenter s"
  "texture (region_enter r s) = texture s"
  "canvas_width (region_enter r s) = canvas_width s"
  "canvas_height (region_enter r s) = canvas_height s"
  "exportTexture (region_enter r s) = exportTexture s"
  "framebuffer (region_enter r s) = framebuffer s"
  "silhouetteBuffer (region_enter r s) = silhouetteBuffer s"
  "canvasDirty (region_enter r s) = canvasDirty s"
  "silhouetteDirty (region_enter r s) = silhouetteDirty s"
  "silhouettePixels (region_enter r s) = silhouettePixels s"
  "silhouetteImageData (region_enter r s) = silhouetteImageData s"
  "renderQuality (region_enter r s) = renderQuality s"
  "nativeSize (region_enter r s) = nativeSize s"
  "bounds (region_enter r s) = bounds s"
  "lineBufferInfo (region_enter r s) = lineBufferInfo s"
  "a_lineColor (region_enter r s) = a_lineColor s"
  "a_lineThicknessAndLength (region_enter r s) = a_lineThicknessAndLength s"
  "a_penPoints (region_enter r s) = a_penPoints s"
  "a_position (region_enter r s) = a_position s"
  "premultipliedColor (region_enter r s) = premultipliedColor s"
  "regionId (region_enter r s) = regionId s"
  "listening (region_enter r s) = listening s"
  "gl_textures (region_enter r s) = gl_textures s"
  "texture_sizes (region_enter r s) = texture_sizes s"
  "gl_framebuffers (region_enter r s) = gl_framebuffers s"
  "gl_buffers (region_enter r s) = gl_buffers s"
  "gl_next (region_enter r s) = gl_next s"
  by (simp_all add: region_enter_def split: region.split)

lemma region_exit_frame [simp]:
  "skin_id (region_exit r s) = skin_id s"
  "rotationCenter (region_exit r s) = rotationCenter s"
  "texture (region_exit r s) = texture s"
  "canvas_width (region_exit r s) = canvas_width s"
  "canvas_height (region_exit r s) = canvas_height s"
  "exportTexture (region_exit r s) = exportTexture s"
  "framebuffer (region_exit r s) = framebuffer s"
  "silhouetteBuffer (region_exit r s) = silhouetteBuffer s"
  "canvasDirty (region_exit r s) = canvasDirty s"
  "silhouettePixels (region_exit r s) = silhouettePixels s"
  "silhouetteImageData (region_exit r s) = silhouetteImageData s"
  "renderQuality (region_exit r s) = renderQuality s"
  "nativeSize (region_exit r s) = nativeSize s"
  "bounds (region_exit r s) = bounds s"
  "lineBufferInfo (region_exit r s) = lineBufferInfo s"
  "a_lineColor (region_exit r s) = a_lineColor s"
  "a_lineThicknessAndLength (region_exit r s) = a_lineThicknessAndLength s"
  "a_penPoints (region_exit r s) = a_penPoints s"
  "a_position (region_exit r s) = a_position s"
  "premultipliedColor (region_exit r s) = premultipliedColor s"
  "regionId (region_exit r s) = regionId s"
  "listening (region_exit r s) = listening s"
  "gl_textures (region_exit r s) = gl_textures s"
  "texture_sizes (region_exit r s) = texture_sizes s"
  "gl_framebuffers (region_exit r s) = gl_framebuffers s"
  "gl_buffers (region_exit r s) = gl_buffers s"
  "gl_next (region_exit r s) = gl_next s"
  by (simp_all add: region_exit_def split: region.split)

lemma enterDrawRegion_frame [simp]:
  "skin_id (enterDrawRegion r s) = skin_id s"
  "rotationCenter (enterDrawRegion r s) = rotationCenter s"
  "texture (enterDrawRegion r s) = texture s"
  "canvas_width (enterDrawRegion r s) = canvas_width s"
  "canvas_height (enterDrawRegion r s) = canvas_height s"
  "exportTexture (enterDrawRegion r s) = exportTexture s"
  "framebuffer (enterDrawRegion r s) = framebuffer s"
  "silhouetteBuffer (enterDrawRegion r s) = silhouetteBuffer s"
  "canvasDirty (enterDrawRegion r s) = canvasDirty s"
  "silhouettePixels (enterDrawRegion r s) = silhouettePixels s"
  "silhouetteImageData (enterDrawRegion r s) = silhouetteImageData s"
  "renderQuality (enterDrawRegion r s) = renderQuality s"
  "nativeSize (enterDrawRegion r s) = nativeSize s"
  "bounds (enterDrawRegion r s) = bounds s"
  "lineBufferInfo (enterDrawRegion r s) = lineBufferInfo s"
  "a_lineColor (enterDrawRegion r s) = a_lineColor s"
  "a_lineThicknessAndLength (enterDrawRegion r s) = a_lineThicknessAndLength s"
  "a_penPoints (enterDrawRegion r s) = a_penPoints s"
  "a_position (enterDrawRegion r s) = a_position s"
  "premultipliedColor (enterDrawRegion r s) = premultipliedColor s"
  "listening (enterDrawRegion r s) = listening s"
  "gl_textures (enterDrawRegion r s) = gl_textures s"
  "texture_sizes (enterDrawRegion r s) = texture_sizes s"
  "gl_framebuffers (enterDrawRegion r s) = gl_framebuffers s"
  "gl_buffers (enterDrawRegion r s) = gl_buffers s"
  "gl_next (enterDrawRegion r s) = gl_next s"
  by (simp_all add: enterDrawRegion_def Let_def split: option.split)

lemma drawRectangle_frame [simp]:
  "skin_id (drawRectangle sh tex b x y s) = skin_id s"
  "rotationCenter (drawRectangle sh tex b x y s) = rotationCenter s"
  "texture (drawRectangle sh tex b x y s) = texture s"
  "canvas_width (drawRectangle sh tex b x y s) = canvas_width s"
  "canvas_height (drawRectangle sh tex b x y s) = canvas_height s"
  "exportTexture (drawRectangle sh tex b x y s) = exportTexture s"
  "framebuffer (drawRectangle sh tex b x y s) = framebuffer s"
  "silhouetteBuffer (drawRectangle sh tex b x y s) = silhouetteBuffer s"
  "canvasDirty (drawRectangle sh tex b x y s) = canvasDirty s"
  "silhouetteDirty (drawRectangle sh tex b x y s) = silhouetteDirty s"
  "silhouettePixels (drawRectangle sh tex b x y s) = silhouettePixels s"
  "silhouetteImageData (drawRectangle sh tex b x y s) = silhouetteImageData s"
  "renderQuality (drawRectangle sh tex b x y s) = renderQuality s"
  "nativeSize (drawRectangle sh tex b x y s) = nativeSize s"
  "bounds (drawRectangle sh tex b x y s) = bounds s"
  "lineBufferInfo (drawRectangle sh tex b x y s) = lineBufferInfo s"
  "a_lineColor (drawRectangle sh tex b x y s) = a_lineColor s"
  "a_lineColorIndex (drawRectangle sh tex b x y s) = a_lineColorIndex s"
  "a_lineThicknessAndLength (drawRectangle sh tex b x y s) = a_lineThicknessAndLength s"
  "a_lineThicknessAndLengthIndex (drawRectangle sh tex b x y s) = a_lineThicknessAndLengthIndex s"
  "a_penPoints (drawRectangle sh tex b x y s) = a_penPoints s"
  "a_penPointsIndex (drawRectangle sh tex b x y s) = a_penPointsIndex s"
  "a_position (drawRectangle sh tex b x y s) = a_position s"
  "premultipliedColor (drawRectangle sh tex b x y s) = premultipliedColor s"
  "regionId (drawRectangle sh tex b x y s) = regionId s"
  "listening (drawRectangle sh tex b x y s) = listening s"
  "gl_textures (drawRectangle sh tex b x y s) = gl_textures s"
  "texture_sizes (drawRectangle sh tex b x y s) = texture_sizes s"
  "gl_framebuffers (drawRectangle sh tex b x y s) = gl_framebuffers s"
  "gl_buffers (drawRectangle sh tex b x y s) = gl_buffers s"
  "gl_next (drawRectangle sh tex b x y s) = gl_next s"
  by (simp_all add: drawRectangle_def)

lemma put_lineColor_frame [simp]:
  "skin_id (put_lineColor v s) = skin_id s"
  "rotationCenter (put_lineColor v s) = rotationCenter s"
  "texture (put_lineColor v s) = texture s"
  "canvas_width (put_lineColor v s) = canvas_width s"
  "canvas_height (put_lineColor v s) = canvas_height s"
  "exportTexture (put_lineColor v s) = exportTexture s"
  "framebuffer (put_lineColor v s) = framebuffer s"
  "silhouetteBuffer (put_lineColor v s) = silhouetteBuffer s"
  "canvasDirty (put_lineColor v s) = canvasDirty s"
  "silhouetteDirty (put_lineColor v s) = silhouetteDirty s"
  "silhouettePixels (put_lineColor v s) = silhouettePixels s"
  "silhouetteImageData (put_lineColor v s) = silhouetteImageData s"
  "renderQuality (put_lineColor v s) = renderQuality s"
  "nativeSize (put_lineColor v s) = nativeSize s"
  "bounds (put_lineColor v s) = bounds s"
  "lineBufferInfo (put_lineColor v s) = lineBufferInfo s"
  "a_lineThicknessAndLength (put_lineColor v s) = a_lineThicknessAndLength s"
  "a_lineThicknessAndLengthIndex (put_lineColor v s) = a_lineThicknessAndLengthIndex s"
  "a_penPoints (put_lineColor v s) = a_penPoints s"
  "a_penPointsIndex (put_lineColor v s) = a_penPointsIndex s"
  "a_position (put_lineColor v s) = a_position s"
  "premultipliedColor (put_lineColor v s) = premultipliedColor s"
  "regionId (put_lineColor v s) = regionId s"
  "listening (put_lineColor v s) = listening s"
  "gl_textures (put_lineColor v s) = gl_textures s"
  "texture_sizes (put_lineColor v s) = texture_sizes s"
  "gl_framebuffers (put_lineColor v s) = gl_framebuffers s"
  "gl_buffers (put_lineColor v s) = gl_buffers s"
  "gl_next (put_lineColor v s) = gl_next s"
  "effects (put_lineColor v s) = effects s"
  by (simp_all add: put_lineColor_def)

lemma put_lineThicknessAndLength_frame [simp]:
  "skin_id (put_lineThicknessAndLength v s) = skin_id s"
  "rotationCenter (put_lineThicknessAndLength v s) = rotationCenter s"
  "texture (put_lineThicknessAndLength v s) = texture s"
  "canvas_width (put_lineThicknessAndLength v s) = canvas_width s"
  "canvas_height (put_lineThicknessAndLength v s) = canvas_height s"
  "exportTexture (put_lineThicknessAndLength v s) = exportTexture s"
  "framebuffer (put_lineThicknessAndLength v s) = framebuffer s"
  "silhouetteBuffer (put_lineThicknessAndLength v s) = silhouetteBuffer s"
  "canvasDirty (put_lineThicknessAndLength v s) = canvasDirty s"
  "silhouetteDirty (put_lineThicknessAndLength v s) = silhouetteDirty s"
  "silhouettePixels (put_lineThicknessAndLength v s) = silhouettePixels s"
  "silhouetteImageData (put_lineThicknessAndLength v s) = silhouetteImageData s"
  "renderQuality (put_lineThicknessAndLength v s) = renderQuality s"
  "nativeSize (put_lineThicknessAndLength v s) = nativeSize s"
  "bounds (put_lineThicknessAndLength v s) = bounds s"
  "lineBufferInfo (put_lineThicknessAndLength v s) = lineBufferInfo s"
  "a_lineColor (put_lineThicknessAndLength v s) = a_lineColor s"
  "a_lineColorIndex (put_lineThicknessAndLength v s) = a_lineColorIndex s"
  "a_penPoints (put_lineThicknessAndLength v s) = a_penPoints s"
  "a_penPointsIndex (put_lineThicknessAndLength v s) = a_penPointsIndex s"
  "a_position (put_lineThicknessAndLength v s) = a_position s"
  "premultipliedColor (put_lineThicknessAndLength v s) = premultipliedColor s"
  "regionId (put_lineThicknessAndLength v s) = regionId s"
  "listening (put_lineThicknessAndLength v s) = listening s"
  "gl_textures (put_lineThicknessAndLength v s) = gl_textures s"
  "texture_sizes (put_lineThicknessAndLength v s) = texture_sizes s"
  "gl_framebuffers (put_lineThicknessAndLength v s) = gl_framebuffers s"
  "gl_buffers (put_lineThicknessAndLength v s) = gl_buffers s"
  "gl_next (put_lineThicknessAndLength v s) = gl_next s"
  "effects (put_lineThicknessAndLength v s) = effects s"
  by (simp_all add: put_lineThicknessAndLength_def)

lemma put_penPoints_frame [simp]:
  "skin_id (put_penPoints v s) = skin_id s"
  "rotationCenter (put_penPoints v s) = rotationCenter s"
  "texture (put_penPoints v s) = texture s"
  "canvas_width (put_penPoints v s) = canvas_width s"
  "canvas_height (put_penPoints v s) = canvas_height s"
  "exportTexture (put_penPoints v s) = exportTexture s"
  "framebuffer (put_penPoints v s) = framebuffer s"
  "silhouetteBuffer (put_penPoints v s) = silhouetteBuffer s"
  "canvasDirty (put_penPoints v s) = canvasDirty s"
  "silhouetteDirty (put_penPoints v s) = silhouetteDirty s"
  "silhouettePixels (put_penPoints v s) = silhouettePixels s"
  "silhouetteImageData (put_penPoints v s) = silhouetteImageData s"
  "renderQuality (put_penPoints v s) = renderQuality s"
  "nativeSize (put_penPoints v s) = nativeSize s"
  "bounds (put_penPoints v s) = bounds s"
  "lineBufferInfo (put_penPoints v s) = lineBufferInfo s"
  "a_lineColor (put_penPoints v s) = a_lineColor s"
  "a_lineColorIndex (put_penPoints v s) = a_lineColorIndex s"
  "a_lineThicknessAndLength (put_penPoints v s) = a_lineThicknessAndLength s"
  "a_lineThicknessAndLengthIndex (put_penPoints v s) = a_lineThicknessAndLengthIndex s"
  "a_position (put_penPoints v s) = a_position s"
  "premultipliedColor (put_penPoints v s) = premultipliedColor s"
  "regionId (put_penPoints v s) = regionId s"
  "listening (put_penPoints v s) = listening s"
  "gl_textures (put_penPoints v s) = gl_textures s"
  "texture_sizes (put_penPoints v s) = texture_sizes s"
  "gl_framebuffers (put_penPoints v s) = gl_framebuffers s"
  "gl_buffers (put_penPoints v s) = gl_buffers s"
  "gl_next (put_penPoints v s) = gl_next s"
  "effects (put_penPoints v s) = effects s"
  by (simp_all add: put_penPoints_def)

subsection \<open>Writing a run of values at a cursor\<close>

lemma length_write_at: "i + length ys \<le> length xs \<Longrightarrow> length (write_at xs i ys) = length xs"
  by (simp add: write_at_def)

lemma write_at_Nil: "i \<le> length xs \<Longrightarrow> write_at xs i [] = xs"
  by (simp add: write_at_def)

lemma typed_set_write_at:
  assumes "i + length ys < length xs"
  shows "typed_set (write_at xs i ys) (i + length ys) v = write_at xs i (ys @ [fround v])"
proof -
  have len: "length (write_at xs i ys) = length xs"
    using assms by (simp add: length_write_at)
  have "(take i xs @ ys @ drop (i + length ys) xs)[i + length ys := w]
        = take i xs @ ys @ (drop (i + length ys) xs)[0 := w]" for w
    using assms by (simp add: list_update_append)
  moreover have "(drop (i + length ys) xs)[0 := w] = w # drop (Suc (i + length ys)) xs" for w
    using assms by (metis Cons_nth_drop_Suc list_update_code(2))
  ultimately show ?thesis
    using assms len by (simp add: typed_set_def write_at_def)
qed

lemma take_drop_write_at:
  "i + length ys \<le> length xs \<Longrightarrow> take (length ys) (drop i (write_at xs i ys)) = ys"
  by (simp add: write_at_def)

lemma pushes_Nil [simp]: "pushes [] ch = ch"
  by (simp add: pushes_def)

lemma pushes_Cons: "pushes (v # vs) ch = pushes vs (push ch v)"
  by (simp add: pushes_def)

lemma pushes_append: "pushes (us @ vs) ch = pushes vs (pushes us ch)"
  by (simp add: pushes_def)

lemma snd_pushes: "snd (pushes vs ch) = snd ch + length vs"
  by (induction vs arbitrary: ch) (simp_all add: pushes_Cons push_def)

lemma pushes_write_at:
  "i + length vs \<le> length xs \<Longrightarrow>
   pushes vs (xs, i) = (write_at xs i (map fround vs), i + length vs)"
proof (induction vs rule: rev_induct)
  case Nil
  then show ?case by (simp add: write_at_Nil)
next
  case (snoc v vs)
  then have "pushes vs (xs, i) = (write_at xs i (map fround vs), i + length vs)"
    by simp
  moreover have "typed_set (write_at xs i (map fround vs)) (i + length (map fround vs)) v
                 = write_at xs i (map fround vs @ [fround v])"
    using snoc.prems by (intro typed_set_write_at) simp
  ultimately show ?case
    by (simp add: pushes_append pushes_Cons push_def)
qed

lemma length_concat_replicate: "length (concat (replicate n ys)) = n * length ys"
  by (induction n) simp_all

subsection \<open>The six vertex records of a segment\<close>

lemma chan_put:
  "chan_color (put_lineColor v s) = push (chan_color s) v"
  "chan_color (put_lineThicknessAndLength v s) = chan_color s"
  "chan_color (put_penPoints v s) = chan_color s"
  "chan_thickness (put_lineColor v s) = chan_thickness s"
  "chan_thickness (put_lineThicknessAndLength v s) = push (chan_thickness s) v"
  "chan_thickness (put_penPoints v s) = chan_thickness s"
  "chan_points (put_lineColor v s) = chan_points s"
  "chan_points (put_lineThicknessAndLength v s) = chan_points s"
  "chan_points (put_penPoints v s) = push (chan_points s) v"
  by (simp_all add: chan_color_def chan_thickness_def chan_points_def push_def
      put_lineColor_def put_lineThicknessAndLength_def put_penPoints_def)

lemma vertex_body_chan:
  assumes "premultipliedColor s = (c0, c1, c2, c3)"
  shows "chan_color (vertex_body t l x0 y0 dx dy s) = pushes [c0, c1, c2, c3] (chan_color s)"
    and "chan_thickness (vertex_body t l x0 y0 dx dy s) = pushes [t, l] (chan_thickness s)"
    and "chan_points (vertex_body t l x0 y0 dx dy s) = pushes [x0, num_neg y0, dx, num_neg dy] (chan_points s)"
  using assms by (simp_all add: vertex_body_def chan_put pushes_Cons)

lemma vertex_body_premultipliedColor:
  "premultipliedColor (vertex_body t l x0 y0 dx dy s) = premultipliedColor s"
  by (simp add: vertex_body_def split: prod.split)

lemma vertex_loop_chan:
  assumes "premultipliedColor s = (c0, c1, c2, c3)"
  shows "chan_color (vertex_loop i t l x0 y0 dx dy s)
           = pushes (concat (replicate (6 - i) [c0, c1, c2, c3])) (chan_color s)
         \<and> chan_thickness (vertex_loop i t l x0 y0 dx dy s)
           = pushes (concat (replicate (6 - i) [t, l])) (chan_thickness s)
         \<and> chan_points (vertex_loop i t l x0 y0 dx dy s)
           = pushes (concat (replicate (6 - i) [x0, num_neg y0, dx, num_neg dy])) (chan_points s)"
  using assms
proof (induction i t l x0 y0 dx dy s rule: vertex_loop.induct)
  case (1 i t l x0 y0 dx dy s)
  show ?case
  proof (cases "i < 6")
    case False
    then show ?thesis
      by (simp add: vertex_loop.simps)
  next
    case True
    let ?s' = "vertex_body t l x0 y0 dx dy s"
    have cat: "concat (replicate (6 - i) ys) = ys @ concat (replicate (6 - (i + 1)) ys)"
      for ys :: "number list"
    proof -
      have "6 - i = Suc (6 - (i + 1))"
        using True by simp
      then show ?thesis
        by (simp only: replicate_Suc concat.simps)
    qed
    have pm: "premultipliedColor ?s' = (c0, c1, c2, c3)"
      using "1.prems" by (simp add: vertex_body_premultipliedColor)
    have unroll: "vertex_loop i t l x0 y0 dx dy s = vertex_loop (i + 1) t l x0 y0 dx dy ?s'"
      using True by (subst vertex_loop.simps) simp
    show ?thesis
      unfolding unroll
      by (simp only: "1.IH" [OF True pm] vertex_body_chan [OF "1.prems"] cat pushes_append)
  qed
qed

subsection \<open>The batch invariant\<close>

lemma batch_inv_frame:
  assumes "a_lineColor s' = a_lineColor s"
    and "a_lineThicknessAndLength s' = a_lineThicknessAndLength s"
    and "a_penPoints s' = a_penPoints s"
    and "a_lineColorIndex s' = a_lineColorIndex s"
    and "a_lineThicknessAndLengthIndex s' = a_lineThicknessAndLengthIndex s"
    and "a_penPointsIndex s' = a_penPointsIndex s"
  shows "batch_inv s' = batch_inv s"
  unfolding batch_inv_def assms ..

lemma batch_inv_reset:
  assumes "batch_inv s"
    and "a_lineColor s' = a_lineColor s"
    and "a_lineThicknessAndLength s' = a_lineThicknessAndLength s"
    and "a_penPoints s' = a_penPoints s"
    and "a_lineColorIndex s' = 0"
    and "a_lineThicknessAndLengthIndex s' = 0"
    and "a_penPointsIndex s' = 0"
  shows "batch_inv s'"
  using assms(1) unfolding batch_inv_def assms(2-) by simp

lemma batch_inv_emit [simp]: "batch_inv (emit e s) = batch_inv s"
  by (rule batch_inv_frame) simp_all

lemma batch_inv_flushLines: "batch_inv s \<Longrightarrow> batch_inv (flushLines s)"
  by (erule batch_inv_reset) (simp_all add: flushLines_def Let_def)

lemma batch_inv_enterDrawLineOnBuffer:
  "batch_inv s \<Longrightarrow> batch_inv (enterDrawLineOnBuffer s)"
  by (erule batch_inv_reset) (simp_all add: enterDrawLineOnBuffer_def Let_def)

lemma batch_inv_region_enter: "batch_inv s \<Longrightarrow> batch_inv (region_enter r s)"
  by (cases r)
    (simp_all add: region_enter_def batch_inv_enterDrawLineOnBuffer
      batch_inv_frame [of "enterDrawToBuffer s" s])

lemma batch_inv_region_exit: "batch_inv s \<Longrightarrow> batch_inv (region_exit r s)"
  by (cases r)
    (simp_all add: region_exit_def exitDrawLineOnBuffer_def Let_def exitDrawToBuffer_def
      batch_inv_flushLines)

lemma batch_inv_regionId [simp]: "batch_inv (s\<lparr>regionId := r\<rparr>) = batch_inv s"
  by (rule batch_inv_frame) simp_all

lemma batch_inv_enterDrawRegion: "batch_inv s \<Longrightarrow> batch_inv (enterDrawRegion r s)"
  by (simp add: enterDrawRegion_def Let_def batch_inv_region_enter batch_inv_region_exit
      split: option.split)

lemma drawLineOnBuffer_chan:
  fixes s :: PenSkin
  assumes "or_color (color4f a) (color4f DefaultPenAttributes) = (r, g, b, al)"
  defines "s2 \<equiv> (let s1 = enterDrawRegion LineOnBufferDrawRegionId s
                 in if a_lineColorIndex s1 + 24 > length (a_lineColor s1) then flushLines s1 else s1)"
  shows "chan_color (drawLineOnBuffer a x0 y0 x1 y1 s)
           = pushes (concat (replicate 6 [num_mul r al, num_mul g al, num_mul b al, al])) (chan_color s2)"
    and "chan_thickness (drawLineOnBuffer a x0 y0 x1 y1 s)
           = pushes (concat (replicate 6
               [or_number (diameter a) (diameter DefaultPenAttributes),
                segment_length x0 y0 x1 y1])) (chan_thickness s2)"
    and "chan_points (drawLineOnBuffer a x0 y0 x1 y1 s)
           = pushes (concat (replicate 6 [x0, num_neg y0, num_sub x1 x0, num_neg (num_sub y1 y0)])) (chan_points s2)"
proof -
  let ?s3 = "s2\<lparr>premultipliedColor := (num_mul r al, num_mul g al, num_mul b al, al)\<rparr>"
  have pm: "premultipliedColor ?s3 = (num_mul r al, num_mul g al, num_mul b al, al)"
    by simp
  have eq: "drawLineOnBuffer a x0 y0 x1 y1 s =
        vertex_loop 0 (or_number (diameter a) (diameter DefaultPenAttributes))
          (segment_length x0 y0 x1 y1) x0 y0 (num_sub x1 x0) (num_sub y1 y0) ?s3"
    using assms(1) by (simp add: drawLineOnBuffer_def s2_def Let_def segment_length_def)
  have ch: "chan_color ?s3 = chan_color s2" "chan_thickness ?s3 = chan_thickness s2"
    "chan_points ?s3 = chan_points s2"
    by (simp_all add: chan_color_def chan_thickness_def chan_points_def)
  show "chan_color (drawLineOnBuffer a x0 y0 x1 y1 s)
           = pushes (concat (replicate 6 [num_mul r al, num_mul g al, num_mul b al, al])) (chan_color s2)"
    and "chan_thickness (drawLineOnBuffer a x0 y0 x1 y1 s)
           = pushes (concat (replicate 6
               [or_number (diameter a) (diameter DefaultPenAttributes),
                segment_length x0 y0 x1 y1])) (chan_thickness s2)"
    and "chan_points (drawLineOnBuffer a x0 y0 x1 y1 s)
           = pushes (concat (replicate 6 [x0, num_neg y0, num_sub x1 x0, num_neg (num_sub y1 y0)])) (chan_points s2)"
    unfolding eq using vertex_loop_chan [OF pm, of 0] by (simp_all add: ch)
qed

lemma vertex_body_frame [simp]:
  "skin_id (vertex_body t l x0 y0 dx dy s) = skin_id s"
  "rotationCenter (vertex_body t l x0 y0 dx dy s) = rotationCenter s"
  "texture (vertex_body t l x0 y0 dx dy s) = texture s"
  "canvas_width (vertex_body t l x0 y0 dx dy s) = canvas_width s"
  "canvas_height (vertex_body t l x0 y0 dx dy s) = canvas_height s"
  "exportTexture (vertex_body t l x0 y0 dx dy s) = exportTexture s"
  "framebuffer (vertex_body t l x0 y0 dx dy s) = framebuffer s"
  "silhouetteBuffer (vertex_body t l x0 y0 dx dy s) = silhouetteBuffer s"
  "canvasDirty (vertex_body t l x0 y0 dx dy s) = canvasDirty s"
  "silhouetteDirty (vertex_body t l x0 y0 dx dy s) = silhouetteDirty s"
  "silhouettePixels (vertex_body t l x0 y0 dx dy s) = silhouettePixels s"
  "silhouetteImageData (vertex_body t l x0 y0 dx dy s) = silhouetteImageData s"
  "renderQuality (vertex_body t l x0 y0 dx dy s) = renderQuality s"
  "nativeSize (vertex_body t l x0 y0 dx dy s) = nativeSize s"
  "bounds (vertex_body t l x0 y0 dx dy s) = bounds s"
  "lineBufferInfo (vertex_body t l x0 y0 dx dy s) = lineBufferInfo s"
  "a_position (vertex_body t l x0 y0 dx dy s) = a_position s"
  "premultipliedColor (vertex_body t l x0 y0 dx dy s) = premultipliedColor s"
  "regionId (vertex_body t l x0 y0 dx dy s) = regionId s"
  "listening (vertex_body t l x0 y0 dx dy s) = listening s"
  "gl_textures (vertex_body t l x0 y0 dx dy s) = gl_textures s"
  "texture_sizes (vertex_body t l x0 y0 dx dy s) = texture_sizes s"
  "gl_framebuffers (vertex_body t l x0 y0 dx dy s) = gl_framebuffers s"
  "gl_buffers (vertex_body t l x0 y0 dx dy s) = gl_buffers s"
  "gl_next (vertex_body t l x0 y0 dx dy s) = gl_next s"
  "effects (vertex_body t l x0 y0 dx dy s) = effects s"
  by (simp_all add: vertex_body_def split: prod.split)

lemma vertex_loop_frame [simp]:
  "skin_id (vertex_loop i t l x0 y0 dx dy s) = skin_id s"
  "rotationCenter (vertex_loop i t l x0 y0 dx dy s) = rotationCenter s"
  "texture (vertex_loop i t l x0 y0 dx dy s) = texture s"
  "canvas_width (vertex_loop i t l x0 y0 dx dy s) = canvas_width s"
  "canvas_height (vertex_loop i t l x0 y0 dx dy s) = canvas_height s"
  "exportTexture (vertex_loop i t l x0 y0 dx dy s) = exportTexture s"
  "framebuffer (vertex_loop i t l x0 y0 dx dy s) = framebuffer s"
  "silhouetteBuffer (vertex_loop i t l x0 y0 dx dy s) = silhouetteBuffer s"
  "canvasDirty (vertex_loop i t l x0 y0 dx dy s) = canvasDirty s"
  "silhouetteDirty (vertex_loop i t l x0 y0 dx dy s) = silhouetteDirty s"
  "silhouettePixels (vertex_loop i t l x0 y0 dx dy s) = silhouettePixels s"
  "silhouetteImageData (vertex_loop i t l x0 y0 dx dy s) = silhouetteImageData s"
  "renderQuality (vertex_loop i t l x0 y0 dx dy s) = renderQuality s"
  "nativeSize (vertex_loop i t l x0 y0 dx dy s) = nativeSize s"
  "bounds (vertex_loop i t l x0 y0 dx dy s) = bounds s"
  "lineBufferInfo (vertex_loop i t l x0 y0 dx dy s) = lineBufferInfo s"
  "a_position (vertex_loop i t l x0 y0 dx dy s) = a_position s"
  "premultipliedColor (vertex_loop i t l x0 y0 dx dy s) = premultipliedColor s"
  "regionId (vertex_loop i t l x0 y0 dx dy s) = regionId s"
  "listening (vertex_loop i t l x0 y0 dx dy s) = listening s"
  "gl_textures (vertex_loop i t l x0 y0 dx dy s) = gl_textures s"
  "texture_sizes (vertex_loop i t l x0 y0 dx dy s) = texture_sizes s"
  "gl_framebuffers (vertex_loop i t l x0 y0 dx dy s) = gl_framebuffers s"
  "gl_buffers (vertex_loop i t l x0 y0 dx dy s) = gl_buffers s"
  "gl_next (vertex_loop i t l x0 y0 dx dy s) = gl_next s"
  "effects (vertex_loop i t l x0 y0 dx dy s) = effects s"
  by (induction i t l x0 y0 dx dy s rule: vertex_loop.induct;
      subst vertex_loop.simps; simp)+

lemma drawLineOnBuffer_frame [simp]:
  "skin_id (drawLineOnBuffer a x0 y0 x1 y1 s) = skin_id s"
  "rotationCenter (drawLineOnBuffer a x0 y0 x1 y1 s) = rotationCenter s"
  "texture (drawLineOnBuffer a x0 y0 x1 y1 s) = texture s"
  "canvas_width (drawLineOnBuffer a x0 y0 x1 y1 s) = canvas_width s"
  "canvas_height (drawLineOnBuffer a x0 y0 x1 y1 s) = canvas_height s"
  "exportTexture (drawLineOnBuffer a x0 y0 x1 y1 s) = exportTexture s"
  "framebuffer (drawLineOnBuffer a x0 y0 x1 y1 s) = framebuffer s"
  "silhouetteBuffer (drawLineOnBuffer a x0 y0 x1 y1 s) = silhouetteBuffer s"
  "canvasDirty (drawLineOnBuffer a x0 y0 x1 y1 s) = canvasDirty s"
  "silhouettePixels (drawLineOnBuffer a x0 y0 x1 y1 s) = silhouettePixels s"
  "silhouetteImageData (drawLineOnBuffer a x0 y0 x1 y1 s) = silhouetteImageData s"
  "renderQuality (drawLineOnBuffer a x0 y0 x1 y1 s) = renderQuality s"
  "nativeSize (drawLineOnBuffer a x0 y0 x1 y1 s) = nativeSize s"
  "bounds (drawLineOnBuffer a x0 y0 x1 y1 s) = bounds s"
  "lineBufferInfo (drawLineOnBuffer a x0 y0 x1 y1 s) = lineBufferInfo s"
  "a_position (drawLineOnBuffer a x0 y0 x1 y1 s) = a_position s"
  "listening (drawLineOnBuffer a x0 y0 x1 y1 s) = listening s"
  "gl_textures (drawLineOnBuffer a x0 y0 x1 y1 s) = gl_textures s"
  "texture_sizes (drawLineOnBuffer a x0 y0 x1 y1 s) = texture_sizes s"
  "gl_framebuffers (drawLineOnBuffer a x0 y0 x1 y1 s) = gl_framebuffers s"
  "gl_buffers (drawLineOnBuffer a x0 y0 x1 y1 s) = gl_buffers s"
  "gl_next (drawLineOnBuffer a x0 y0 x1 y1 s) = gl_next s"
  by (simp_all add: drawLineOnBuffer_def Let_def split: prod.split)

lemma drawLine_frame [simp]:
  "skin_id (drawLine a x0 y0 x1 y1 s) = skin_id s"
  "rotationCenter (drawLine a x0 y0 x1 y1 s) = rotationCenter s"
  "texture (drawLine a x0 y0 x1 y1 s) = texture s"
  "canvas_width (drawLine a x0 y0 x1 y1 s) = canvas_width s"
  "canvas_height (drawLine a x0 y0 x1 y1 s) = canvas_height s"
  "exportTexture (drawLine a x0 y0 x1 y1 s) = exportTexture s"
  "framebuffer (drawLine a x0 y0 x1 y1 s) = framebuffer s"
  "silhouetteBuffer (drawLine a x0 y0 x1 y1 s) = silhouetteBuffer s"
  "canvasDirty (drawLine a x0 y0 x1 y1 s) = canvasDirty s"
  "silhouettePixels (drawLine a x0 y0 x1 y1 s) = silhouettePixels s"
  "silhouetteImageData (drawLine a x0 y0 x1 y1 s) = silhouetteImageData s"
  "renderQuality (drawLine a x0 y0 x1 y1 s) = renderQuality s"
  "nativeSize (drawLine a x0 y0 x1 y1 s) = nativeSize s"
  "bounds (drawLine a x0 y0 x1 y1 s) = bounds s"
  "lineBufferInfo (drawLine a x0 y0 x1 y1 s) = lineBufferInfo s"
  "a_position (drawLine a x0 y0 x1 y1 s) = a_position s"
  "listening (drawLine a x0 y0 x1 y1 s) = listening s"
  "gl_textures (drawLine a x0 y0 x1 y1 s) = gl_textures s"
  "texture_sizes (drawLine a x0 y0 x1 y1 s) = texture_sizes s"
  "gl_framebuffers (drawLine a x0 y0 x1 y1 s) = gl_framebuffers s"
  "gl_buffers (drawLine a x0 y0 x1 y1 s) = gl_buffers s"
  "gl_next (drawLine a x0 y0 x1 y1 s) = gl_next s"
  by (simp_all add: drawLine_def Let_def)

lemma drawToBuffer_frame [simp]:
  "texture (drawToBuffer tex x y s) = texture s"
  "skin_id (drawToBuffer tex x y s) = skin_id s"
  "rotationCenter (drawToBuffer tex x y s) = rotationCenter s"
  "canvas_width (drawToBuffer tex x y s) = canvas_width s"
  "canvas_height (drawToBuffer tex x y s) = canvas_height s"
  "exportTexture (drawToBuffer tex x y s) = exportTexture s"
  "framebuffer (drawToBuffer tex x y s) = framebuffer s"
  "silhouetteBuffer (drawToBuffer tex x y s) = silhouetteBuffer s"
  "silhouettePixels (drawToBuffer tex x y s) = silhouettePixels s"
  "silhouetteImageData (drawToBuffer tex x y s) = silhouetteImageData s"
  "renderQuality (drawToBuffer tex x y s) = renderQuality s"
  "nativeSize (drawToBuffer tex x y s) = nativeSize s"
  "bounds (drawToBuffer tex x y s) = bounds s"
  "lineBufferInfo (drawToBuffer tex x y s) = lineBufferInfo s"
  "a_lineColor (drawToBuffer tex x y s) = a_lineColor s"
  "a_lineThicknessAndLength (drawToBuffer tex x y s) = a_lineThicknessAndLength s"
  "a_penPoints (drawToBuffer tex x y s) = a_penPoints s"
  "a_position (drawToBuffer tex x y s) = a_position s"
  "premultipliedColor (drawToBuffer tex x y s) = premultipliedColor s"
  "listening (drawToBuffer tex x y s) = listening s"
  "gl_textures (drawToBuffer tex x y s) = gl_textures s"
  "texture_sizes (drawToBuffer tex x y s) = texture_sizes s"
  "gl_framebuffers (drawToBuffer tex x y s) = gl_framebuffers s"
  "gl_buffers (drawToBuffer tex x y s) = gl_buffers s"
  "gl_next (drawToBuffer tex x y s) = gl_next s"
  by (induction tex x y s rule: drawToBuffer.induct;
      subst drawToBuffer.simps; simp add: Let_def)+

lemma batch_inv_update [simp]:
  "batch_inv (s\<lparr>skin_id := v0\<rparr>) = batch_inv s"
  "batch_inv (s\<lparr>rotationCenter := v1\<rparr>) = batch_inv s"
  "batch_inv (s\<lparr>texture := v2\<rparr>) = batch_inv s"
  "batch_inv (s\<lparr>canvas_width := v3\<rparr>) = batch_inv s"
  "batch_inv (s\<lparr>canvas_height := v4\<rparr>) = batch_inv s"
  "batch_inv (s\<lparr>exportTexture := v5\<rparr>) = batch_inv s"
  "batch_inv (s\<lparr>framebuffer := v6\<rparr>) = batch_inv s"
  "batch_inv (s\<lparr>silhouetteBuffer := v7\<rparr>) = batch_inv s"
  "batch_inv (s\<lparr>canvasDirty := v8\<rparr>) = batch_inv s"
  "batch_inv (s\<lparr>silhouetteDirty := v9\<rparr>) = batch_inv s"
  "batch_inv (s\<lparr>silhouettePixels := v10\<rparr>) = batch_inv s"
  "batch_inv (s\<lparr>silhouetteImageData := v11\<rparr>) = batch_inv s"
  "batch_inv (s\<lparr>renderQuality := v12\<rparr>) = batch_inv s"
  "batch_inv (s\<lparr>nativeSize := v13\<rparr>) = batch_inv s"
  "batch_inv (s\<lparr>bounds := v14\<rparr>) = batch_inv s"
  "batch_inv (s\<lparr>lineBufferInfo := v15\<rparr>) = batch_inv s"
  "batch_inv (s\<lparr>a_position := v22\<rparr>) = batch_inv s"
  "batch_inv (s\<lparr>premultipliedColor := v23\<rparr>) = batch_inv s"
  "batch_inv (s\<lparr>regionId := v24\<rparr>) = batch_inv s"
  "batch_inv (s\<lparr>listening := v25\<rparr>) = batch_inv s"
  "batch_inv (s\<lparr>gl_textures := v26\<rparr>) = batch_inv s"
  "batch_inv (s\<lparr>gl_framebuffers := v27\<rparr>) = batch_inv s"
  "batch_inv (s\<lparr>gl_buffers := v28\<rparr>) = batch_inv s"
  "batch_inv (s\<lparr>gl_next := v29\<rparr>) = batch_inv s"
  "batch_inv (s\<lparr>effects := v30\<rparr>) = batch_inv s"
  by (simp_all add: batch_inv_def)

lemma batch_inv_before_append:
  assumes "batch_inv s"
  shows "batch_inv (before_append s)"
    and "a_lineColorIndex (before_append s) + 24 \<le> 65520"
proof -
  let ?s1 = "enterDrawRegion LineOnBufferDrawRegionId s"
  have inv1: "batch_inv ?s1"
    using assms by (rule batch_inv_enterDrawRegion)
  then show "batch_inv (before_append s)"
    by (simp add: before_append_def Let_def batch_inv_flushLines)
  have "length (a_lineColor ?s1) = 65520"
    using inv1 by (simp add: batch_inv_def)
  then show "a_lineColorIndex (before_append s) + 24 \<le> 65520"
    by (simp add: before_append_def Let_def flushLines_def)
qed

lemma drawLineOnBuffer_batch:
  fixes s :: PenSkin and x0 y0 x1 y1 :: number
  assumes inv: "batch_inv s"
    and col: "or_color (color4f a) (color4f DefaultPenAttributes) = (r, g, b, al)"
  defines "s' \<equiv> drawLineOnBuffer a x0 y0 x1 y1 s"
  shows "a_lineColor s' = write_at (a_lineColor (before_append s)) (a_lineColorIndex (before_append s))
           (concat (replicate 6 [fround (num_mul r al), fround (num_mul g al), fround (num_mul b al), fround al]))"
    and "a_lineColorIndex s' = a_lineColorIndex (before_append s) + 24"
    and "a_lineThicknessAndLength s' =
           write_at (a_lineThicknessAndLength (before_append s))
             (a_lineThicknessAndLengthIndex (before_append s))
             (concat (replicate 6 [fround (or_number (diameter a) (diameter DefaultPenAttributes)),
                fround (segment_length x0 y0 x1 y1)]))"
    and "a_lineThicknessAndLengthIndex s' = a_lineThicknessAndLengthIndex (before_append s) + 12"
    and "a_penPoints s' = write_at (a_penPoints (before_append s)) (a_penPointsIndex (before_append s))
           (concat (replicate 6 [fround x0, fround (num_neg y0), fround (num_sub x1 x0),
              fround (num_neg (num_sub y1 y0))]))"
    and "a_penPointsIndex s' = a_penPointsIndex (before_append s) + 24"
proof -
  let ?b = "before_append s"
  note b = batch_inv_before_append [OF inv]
  have lens: "length (a_lineColor ?b) = 65520" "length (a_lineThicknessAndLength ?b) = 32760"
    "length (a_penPoints ?b) = 65520"
    and idx: "a_penPointsIndex ?b = a_lineColorIndex ?b"
    "a_lineColorIndex ?b = 2 * a_lineThicknessAndLengthIndex ?b"
    using b(1) unfolding batch_inv_def by blast+
  note ch = drawLineOnBuffer_chan [OF col, of x0 y0 x1 y1 s, folded before_append_def s'_def]
  have c: "chan_color s' = (write_at (a_lineColor ?b) (a_lineColorIndex ?b)
              (concat (replicate 6 [fround (num_mul r al), fround (num_mul g al), fround (num_mul b al), fround al])), a_lineColorIndex ?b + 24)"
    using ch(1) b(2) lens
      pushes_write_at [of "a_lineColorIndex ?b" "concat (replicate 6 [num_mul r al, num_mul g al, num_mul b al, al])"
        "a_lineColor ?b"]
    by (simp add: chan_color_def length_concat_replicate map_concat)
  have t: "chan_thickness s' = (write_at (a_lineThicknessAndLength ?b)
              (a_lineThicknessAndLengthIndex ?b)
              (concat (replicate 6 [fround (or_number (diameter a) (diameter DefaultPenAttributes)),
                fround (segment_length x0 y0 x1 y1)])),
              a_lineThicknessAndLengthIndex ?b + 12)"
    using ch(2) b(2) lens idx
      pushes_write_at [of "a_lineThicknessAndLengthIndex ?b"
        "concat (replicate 6 [or_number (diameter a) (diameter DefaultPenAttributes),
                segment_length x0 y0 x1 y1])"
        "a_lineThicknessAndLength ?b"]
    by (simp add: chan_thickness_def length_concat_replicate map_concat)
  have p: "chan_points s' = (write_at (a_penPoints ?b) (a_penPointsIndex ?b)
              (concat (replicate 6 [fround x0, fround (num_neg y0), fround (num_sub x1 x0),
              fround (num_neg (num_sub y1 y0))])), a_penPointsIndex ?b + 24)"
    using ch(3) b(2) lens idx
      pushes_write_at [of "a_penPointsIndex ?b"
        "concat (replicate 6 [x0, num_neg y0, num_sub x1 x0, num_neg (num_sub y1 y0)])" "a_penPoints ?b"]
    by (simp add: chan_points_def length_concat_replicate map_concat)
  show "a_lineColor s' = write_at (a_lineColor (before_append s)) (a_lineColorIndex (before_append s))
           (concat (replicate 6 [fround (num_mul r al), fround (num_mul g al), fround (num_mul b al), fround al]))"
    and "a_lineColorIndex s' = a_lineColorIndex (before_append s) + 24"
    using c by (simp_all add: chan_color_def)
  show "a_lineThicknessAndLength s' =
           write_at (a_lineThicknessAndLength (before_append s))
             (a_lineThicknessAndLengthIndex (before_append s))
             (concat (replicate 6 [fround (or_number (diameter a) (diameter DefaultPenAttributes)),
                fround (segment_length x0 y0 x1 y1)]))"
    and "a_lineThicknessAndLengthIndex s' = a_lineThicknessAndLengthIndex (before_append s) + 12"
    using t by (simp_all add: chan_thickness_def)
  show "a_penPoints s' = write_at (a_penPoints (before_append s)) (a_penPointsIndex (before_append s))
           (concat (replicate 6 [fround x0, fround (num_neg y0), fround (num_sub x1 x0),
              fround (num_neg (num_sub y1 y0))]))"
    and "a_penPointsIndex s' = a_penPointsIndex (before_append s) + 24"
    using p by (simp_all add: chan_points_def)
qed

lemma batch_inv_drawLineOnBuffer:
  assumes "batch_inv s"
  shows "batch_inv (drawLineOnBuffer a x0 y0 x1 y1 s)"
proof -
  obtain r g b al where col: "or_color (color4f a) (color4f DefaultPenAttributes) = (r, g, b, al)"
    by (metis prod_cases4)
  note b = batch_inv_before_append [OF assms]
  note d = drawLineOnBuffer_batch [OF assms col, of x0 y0 x1 y1]
  have "length (a_lineColor (before_append s)) = 65520"
    "length (a_lineThicknessAndLength (before_append s)) = 32760"
    "length (a_penPoints (before_append s)) = 65520"
    "a_penPointsIndex (before_append s) = a_lineColorIndex (before_append s)"
    "a_lineColorIndex (before_append s) = 2 * a_lineThicknessAndLengthIndex (before_append s)"
    "24 dvd a_lineColorIndex (before_append s)"
    using b(1) unfolding batch_inv_def by blast+
  with b(2) show ?thesis
    unfolding batch_inv_def d
    by (simp add: length_write_at length_concat_replicate)
qed

lemma batch_inv_drawLine: "batch_inv s \<Longrightarrow> batch_inv (drawLine a x0 y0 x1 y1 s)"
  by (simp add: drawLine_def Let_def batch_inv_drawLineOnBuffer)

lemma batch_inv_clear: "batch_inv s \<Longrightarrow> batch_inv (clear s)"
  by (simp add: clear_def Let_def)

lemma batch_inv_drawStamp: "batch_inv s \<Longrightarrow> batch_inv (drawStamp e x y s)"
  by (simp add: drawStamp_def Let_def)

lemma batch_inv_drawRectangle [simp]: "batch_inv (drawRectangle sh tex b x y s) = batch_inv s"
  by (rule batch_inv_frame) simp_all

lemma batch_inv_drawToBuffer: "batch_inv s \<Longrightarrow> batch_inv (drawToBuffer tex x y s)"
proof (induction tex x y s rule: drawToBuffer.induct)
  case (1 tex x y s)
  show ?case
    using "1.prems" "1.IH"
    by (subst drawToBuffer.simps) (simp add: Let_def batch_inv_enterDrawRegion)
qed

lemma batch_inv_getTexture: "batch_inv s \<Longrightarrow> batch_inv (snd (getTexture w h s))"
  by (simp add: getTexture_def Let_def drawToBuffer_default_def batch_inv_drawToBuffer)

lemma batch_inv_updateSilhouette: "batch_inv s \<Longrightarrow> batch_inv (updateSilhouette s)"
  by (simp add: updateSilhouette_def Let_def drawToBuffer_default_def batch_inv_drawToBuffer
      batch_inv_enterDrawRegion)

lemma setCanvasSize_canvas_frame [simp]:
  "skin_id (setCanvasSize_canvas w h s) = skin_id s"
  "texture (setCanvasSize_canvas w h s) = texture s"
  "exportTexture (setCanvasSize_canvas w h s) = exportTexture s"
  "framebuffer (setCanvasSize_canvas w h s) = framebuffer s"
  "silhouetteBuffer (setCanvasSize_canvas w h s) = silhouetteBuffer s"
  "canvasDirty (setCanvasSize_canvas w h s) = canvasDirty s"
  "silhouetteDirty (setCanvasSize_canvas w h s) = silhouetteDirty s"
  "silhouettePixels (setCanvasSize_canvas w h s) = silhouettePixels s"
  "silhouetteImageData (setCanvasSize_canvas w h s) = silhouetteImageData s"
  "renderQuality (setCanvasSize_canvas w h s) = renderQuality s"
  "nativeSize (setCanvasSize_canvas w h s) = nativeSize s"
  "lineBufferInfo (setCanvasSize_canvas w h s) = lineBufferInfo s"
  "a_lineColor (setCanvasSize_canvas w h s) = a_lineColor s"
  "a_lineColorIndex (setCanvasSize_canvas w h s) = a_lineColorIndex s"
  "a_lineThicknessAndLength (setCanvasSize_canvas w h s) = a_lineThicknessAndLength s"
  "a_lineThicknessAndLengthIndex (setCanvasSize_canvas w h s) = a_lineThicknessAndLengthIndex s"
  "a_penPoints (setCanvasSize_canvas w h s) = a_penPoints s"
  "a_penPointsIndex (setCanvasSize_canvas w h s) = a_penPointsIndex s"
  "a_position (setCanvasSize_canvas w h s) = a_position s"
  "premultipliedColor (setCanvasSize_canvas w h s) = premultipliedColor s"
  "regionId (setCanvasSize_canvas w h s) = regionId s"
  "listening (setCanvasSize_canvas w h s) = listening s"
  "gl_textures (setCanvasSize_canvas w h s) = gl_textures s"
  "texture_sizes (setCanvasSize_canvas w h s) = texture_sizes s"
  "gl_framebuffers (setCanvasSize_canvas w h s) = gl_framebuffers s"
  "gl_buffers (setCanvasSize_canvas w h s) = gl_buffers s"
  "gl_next (setCanvasSize_canvas w h s) = gl_next s"
  "effects (setCanvasSize_canvas w h s) = effects s"
  by (simp_all add: setCanvasSize_canvas_def Let_def)

lemma setCanvasSize_textures_frame [simp]:
  "skin_id (setCanvasSize_textures w h s) = skin_id s"
  "rotationCenter (setCanvasSize_textures w h s) = rotationCenter s"
  "canvas_width (setCanvasSize_textures w h s) = canvas_width s"
  "canvas_height (setCanvasSize_textures w h s) = canvas_height s"
  "framebuffer (setCanvasSize_textures w h s) = framebuffer s"
  "silhouetteBuffer (setCanvasSize_textures w h s) = silhouetteBuffer s"
  "canvasDirty (setCanvasSize_textures w h s) = canvasDirty s"
  "silhouetteDirty (setCanvasSize_textures w h s) = silhouetteDirty s"
  "silhouettePixels (setCanvasSize_textures w h s) = silhouettePixels s"
  "silhouetteImageData (setCanvasSize_textures w h s) = silhouetteImageData s"
  "renderQuality (setCanvasSize_textures w h s) = renderQuality s"
  "nativeSize (setCanvasSize_textures w h s) = nativeSize s"
  "bounds (setCanvasSize_textures w h s) = bounds s"
  "lineBufferInfo (setCanvasSize_textures w h s) = lineBufferInfo s"
  "a_lineColor (setCanvasSize_textures w h s) = a_lineColor s"
  "a_lineColorIndex (setCanvasSize_textures w h s) = a_lineColorIndex s"
  "a_lineThicknessAndLength (setCanvasSize_textures w h s) = a_lineThicknessAndLength s"
  "a_lineThicknessAndLengthIndex (setCanvasSize_textures w h s) = a_lineThicknessAndLengthIndex s"
  "a_penPoints (setCanvasSize_textures w h s) = a_penPoints s"
  "a_penPointsIndex (setCanvasSize_textures w h s) = a_penPointsIndex s"
  "a_position (setCanvasSize_textures w h s) = a_position s"
  "premultipliedColor (setCanvasSize_textures w h s) = premultipliedColor s"
  "regionId (setCanvasSize_textures w h s) = regionId s"
  "listening (setCanvasSize_textures w h s) = listening s"
  "gl_framebuffers (setCanvasSize_textures w h s) = gl_framebuffers s"
  "gl_buffers (setCanvasSize_textures w h s) = gl_buffers s"
  "effects (setCanvasSize_textures w h s) = effects s"
  by (simp_all add: setCanvasSize_textures_def Let_def createTexture_def)

lemma setCanvasSize_framebuffers_frame [simp]:
  "skin_id (setCanvasSize_framebuffers w h s) = skin_id s"
  "rotationCenter (setCanvasSize_framebuffers w h s) = rotationCenter s"
  "texture (setCanvasSize_framebuffers w h s) = texture s"
  "canvas_width (setCanvasSize_framebuffers w h s) = canvas_width s"
  "canvas_height (setCanvasSize_framebuffers w h s) = canvas_height s"
  "exportTexture (setCanvasSize_framebuffers w h s) = exportTexture s"
  "canvasDirty (setCanvasSize_framebuffers w h s) = canvasDirty s"
  "silhouetteDirty (setCanvasSize_framebuffers w h s) = silhouetteDirty s"
  "silhouettePixels (setCanvasSize_framebuffers w h s) = silhouettePixels s"
  "silhouetteImageData (setCanvasSize_framebuffers w h s) = silhouetteImageData s"
  "renderQuality (setCanvasSize_framebuffers w h s) = renderQuality s"
  "nativeSize (setCanvasSize_framebuffers w h s) = nativeSize s"
  "bounds (setCanvasSize_framebuffers w h s) = bounds s"
  "lineBufferInfo (setCanvasSize_framebuffers w h s) = lineBufferInfo s"
  "a_lineColor (setCanvasSize_framebuffers w h s) = a_lineColor s"
  "a_lineColorIndex (setCanvasSize_framebuffers w h s) = a_lineColorIndex s"
  "a_lineThicknessAndLength (setCanvasSize_framebuffers w h s) = a_lineThicknessAndLength s"
  "a_lineThicknessAndLengthIndex (setCanvasSize_framebuffers w h s) = a_lineThicknessAndLengthIndex s"
  "a_penPoints (setCanvasSize_framebuffers w h s) = a_penPoints s"
  "a_penPointsIndex (setCanvasSize_framebuffers w h s) = a_penPointsIndex s"
  "a_position (setCanvasSize_framebuffers w h s) = a_position s"
  "premultipliedColor (setCanvasSize_framebuffers w h s) = premultipliedColor s"
  "regionId (setCanvasSize_framebuffers w h s) = regionId s"
  "listening (setCanvasSize_framebuffers w h s) = listening s"
  "gl_textures (setCanvasSize_framebuffers w h s) = gl_textures s"
  "texture_sizes (setCanvasSize_framebuffers w h s) = texture_sizes s"
  "gl_buffers (setCanvasSize_framebuffers w h s) = gl_buffers s"
  by (simp_all add: setCanvasSize_framebuffers_def Let_def createFramebufferInfo_def
      deleteFramebuffer_def split: option.split)

lemma setCanvasSize_frame [simp]:
  "skin_id (setCanvasSize sz s) = skin_id s"
  "renderQuality (setCanvasSize sz s) = renderQuality s"
  "nativeSize (setCanvasSize sz s) = nativeSize s"
  "lineBufferInfo (setCanvasSize sz s) = lineBufferInfo s"
  "a_lineColor (setCanvasSize sz s) = a_lineColor s"
  "a_lineThicknessAndLength (setCanvasSize sz s) = a_lineThicknessAndLength s"
  "a_penPoints (setCanvasSize sz s) = a_penPoints s"
  "a_position (setCanvasSize sz s) = a_position s"
  "premultipliedColor (setCanvasSize sz s) = premultipliedColor s"
  "listening (setCanvasSize sz s) = listening s"
  "gl_buffers (setCanvasSize sz s) = gl_buffers s"
  by (simp_all add: setCanvasSize_def Let_def split: option.split prod.split)

lemma batch_inv_setCanvasSize: "batch_inv s \<Longrightarrow> batch_inv (setCanvasSize sz s)"
  by (simp add: setCanvasSize_def Let_def batch_inv_drawToBuffer
      batch_inv_frame [of "setCanvasSize_framebuffers w h (setCanvasSize_textures w h
        (setCanvasSize_canvas w h s))" s for w h]
      split: option.split prod.split)

lemma batch_inv_onNativeSizeChanged: "batch_inv s \<Longrightarrow> batch_inv (onNativeSizeChanged n s)"
  by (simp add: onNativeSizeChanged_def batch_inv_setCanvasSize)

lemma batch_inv_setRenderQuality: "batch_inv s \<Longrightarrow> batch_inv (setRenderQuality q s)"
  by (simp add: setRenderQuality_def Let_def batch_inv_setCanvasSize)

lemma batch_inv_step: "batch_inv s \<Longrightarrow> batch_inv (step s opn)"
  by (cases opn)
    (simp_all add: batch_inv_clear drawPoint_def batch_inv_drawLine batch_inv_drawStamp
      batch_inv_getTexture batch_inv_updateSilhouette batch_inv_setRenderQuality
      batch_inv_onNativeSizeChanged)

lemma batch_inv_run: "batch_inv s \<Longrightarrow> batch_inv (run s ops)"
  unfolding run_def by (induction ops arbitrary: s) (simp_all add: batch_inv_step)

lemma batch_inv_createLineGeometry: "batch_inv (createLineGeometry (blank i n))"
  by (simp add: batch_inv_def createLineGeometry_def createBufferInfoFromArrays_def Let_def)

lemma batch_inv_constructor: "batch_inv (constructor i n)"
  by (simp add: constructor_def Let_def batch_inv_setCanvasSize batch_inv_createLineGeometry)

lemma batch_inv_reachable: "batch_inv (run (constructor i n) ops)"
  by (simp add: batch_inv_run batch_inv_constructor)

subsection \<open>The dirty flags\<close>

lemma canvasDirty_drawToBuffer [simp]: "\<not> canvasDirty (drawToBuffer tex x y s)"
proof (induction tex x y s rule: drawToBuffer.induct)
  case (1 tex x y s)
  show ?case
    using "1.IH" by (subst drawToBuffer.simps) (simp add: Let_def)
qed

lemma silhouetteDirty_drawToBuffer [simp]: "silhouetteDirty (drawToBuffer tex x y s)"
  by (subst drawToBuffer.simps) (simp add: Let_def)

lemma silhouetteDirty_setCanvasSize [simp]: "silhouetteDirty (setCanvasSize sz s)"
  by (simp add: setCanvasSize_def Let_def split: prod.split)

lemma flags_step:
  assumes "canvasDirty s \<longrightarrow> silhouetteDirty s"
  shows "canvasDirty (step s opn) \<longrightarrow> silhouetteDirty (step s opn)"
proof (cases opn)
  case Clear
  then show ?thesis by (simp add: clear_def Let_def)
next
  case (DrawPoint a x y)
  then show ?thesis by (simp add: drawPoint_def drawLine_def Let_def)
next
  case (DrawLine a x0 y0 x1 y1)
  then show ?thesis by (simp add: drawLine_def Let_def)
next
  case (DrawStamp e x y)
  then show ?thesis by (simp add: drawStamp_def Let_def)
next
  case (GetTexture w h)
  then show ?thesis
    using assms by (simp add: getTexture_def drawToBuffer_default_def Let_def)
next
  case UpdateSilhouette
  then show ?thesis
    using assms by (simp add: updateSilhouette_def drawToBuffer_default_def Let_def)
next
  case (SetRenderQuality q)
  then show ?thesis
    using assms by (simp add: setRenderQuality_def Let_def)
next
  case (NativeSizeChanged n)
  then show ?thesis by (simp add: onNativeSizeChanged_def)
qed

lemma flags_run:
  "canvasDirty s \<longrightarrow> silhouetteDirty s \<Longrightarrow>
   canvasDirty (run s ops) \<longrightarrow> silhouetteDirty (run s ops)"
  unfolding run_def
proof (induction ops arbitrary: s)
  case Nil
  then show ?case by simp
next
  case (Cons opn ops)
  from Cons.prems have "canvasDirty (step s opn) \<longrightarrow> silhouetteDirty (step s opn)"
    by (rule flags_step)
  then show ?case
    using Cons.IH [of "step s opn"] by simp
qed

lemma flags_constructor: "silhouetteDirty (constructor i n)"
  by (simp add: constructor_def Let_def)

subsection \<open>Recorded calls: flush, region changes, merge\<close>

lemma effects_flushLines: "effects (flushLines s) = effects s @ flush_calls s"
  by (simp add: flushLines_def flush_calls_def Let_def emit_def)

lemma cursors_flushLines [simp]:
  "a_lineColorIndex (flushLines s) = 0"
  "a_lineThicknessAndLengthIndex (flushLines s) = 0"
  "a_penPointsIndex (flushLines s) = 0"
  by (simp_all add: flushLines_def Let_def)

lemma effects_drawLineOnBuffer:
  "effects (drawLineOnBuffer a x0 y0 x1 y1 s) = effects (before_append s)"
  by (simp add: drawLineOnBuffer_def before_append_def Let_def split: prod.split)

lemma regionId_drawLineOnBuffer [simp]:
  "regionId (drawLineOnBuffer a x0 y0 x1 y1 s) = Some LineOnBufferDrawRegionId"
  by (simp add: drawLineOnBuffer_def Let_def enterDrawRegion_def split: prod.split)

lemma regionId_drawLine [simp]:
  "regionId (drawLine a x0 y0 x1 y1 s) = Some LineOnBufferDrawRegionId"
  by (simp add: drawLine_def Let_def)

subsection \<open>Resizing and the state after construction\<close>

lemma setCanvasSize_canvas_sets [simp]:
  "canvas_width (setCanvasSize_canvas w h s) = w"
  "canvas_height (setCanvasSize_canvas w h s) = h"
  "bounds (setCanvasSize_canvas w h s)
     = initFromBounds (real_of_int w / 2) (real_of_int w / (- 2))
         (real_of_int h / 2) (real_of_int h / (- 2))"
  by (simp_all add: setCanvasSize_canvas_def Let_def)

lemma setCanvasSize_textures_sets [simp]:
  "texture (setCanvasSize_textures w h s) = Some (gl_next s)"
  "exportTexture (setCanvasSize_textures w h s) = Some (Suc (gl_next s))"
  "gl_textures (setCanvasSize_textures w h s)
     = insert (Suc (gl_next s)) (insert (gl_next s) (gl_textures s))"
  "gl_next (setCanvasSize_textures w h s) = Suc (Suc (gl_next s))"
  "texture_sizes (setCanvasSize_textures w h s)
     = (texture_sizes s)(gl_next s \<mapsto> (canvas_width s, canvas_height s),
                         Suc (gl_next s) \<mapsto> (w, h))"
  by (simp_all add: setCanvasSize_textures_def Let_def createTexture_def)

lemma setCanvasSize_framebuffers_sets [simp]:
  "framebuffer (setCanvasSize_framebuffers w h s)
     = Some \<lparr>fbi_framebuffer = gl_next s, fbi_attachment = exportTexture s,
              fbi_width = w, fbi_height = h\<rparr>"
  "silhouetteBuffer (setCanvasSize_framebuffers w h s)
     = Some \<lparr>fbi_framebuffer = Suc (gl_next s), fbi_attachment = None,
              fbi_width = w, fbi_height = h\<rparr>"
  "gl_next (setCanvasSize_framebuffers w h s) = Suc (Suc (gl_next s))"
  "effects (setCanvasSize_framebuffers w h s)
     = effects s @ [ClearColor 0 0 0 0, Clear_COLOR_BUFFER_BIT]"
  by (simp_all add: setCanvasSize_framebuffers_def Let_def createFramebufferInfo_def
      deleteFramebuffer_def emit_def split: option.split)

lemma setCanvasSize_framebuffers_fresh:
  "framebuffer s = None \<Longrightarrow> silhouetteBuffer s = None \<Longrightarrow>
   gl_framebuffers (setCanvasSize_framebuffers w h s)
     = insert (Suc (gl_next s)) (insert (gl_next s) (gl_framebuffers s))"
  by (simp add: setCanvasSize_framebuffers_def Let_def createFramebufferInfo_def)

lemma setCanvasSize_sizes:
  "canvas_width (setCanvasSize (w, h) s) = w"
  "canvas_height (setCanvasSize (w, h) s) = h"
  "map_option fbi_width (framebuffer (setCanvasSize (w, h) s)) = Some w"
  "map_option fbi_height (framebuffer (setCanvasSize (w, h) s)) = Some h"
  "map_option fbi_width (silhouetteBuffer (setCanvasSize (w, h) s)) = Some w"
  "map_option fbi_height (silhouetteBuffer (setCanvasSize (w, h) s)) = Some h"
  "silhouettePixels (setCanvasSize (w, h) s) = Some (w * h * 4)"
  "silhouetteImageData (setCanvasSize (w, h) s) = Some (w, h)"
  "bounds (setCanvasSize (w, h) s)
     = initFromBounds (real_of_int w / 2) (real_of_int w / (- 2))
         (real_of_int h / 2) (real_of_int h / (- 2))"
  by (simp_all add: setCanvasSize_def Let_def split: option.split)

lemma setCanvasSize_texture_sizes:
  "texture_size (setCanvasSize (w, h) s) (texture (setCanvasSize (w, h) s)) = Some (w, h)"
  "texture_size (setCanvasSize (w, h) s) (exportTexture (setCanvasSize (w, h) s)) = Some (w, h)"
  by (simp_all add: setCanvasSize_def Let_def texture_size_def split: option.split)

lemma createLineGeometry_blank:
  "a_lineColor (createLineGeometry (blank i n)) = replicate 65520 (Num 0)"
  "a_lineThicknessAndLength (createLineGeometry (blank i n)) = replicate 32760 (Num 0)"
  "a_penPoints (createLineGeometry (blank i n)) = replicate 65520 (Num 0)"
  "a_lineColorIndex (createLineGeometry (blank i n)) = 0"
  "a_lineThicknessAndLengthIndex (createLineGeometry (blank i n)) = 0"
  "a_penPointsIndex (createLineGeometry (blank i n)) = 0"
  "lineBufferInfo (createLineGeometry (blank i n)) = Some 0"
  "gl_buffers (createLineGeometry (blank i n)) = {0}"
  "gl_next (createLineGeometry (blank i n)) = 1"
  "gl_textures (createLineGeometry (blank i n)) = {}"
  "gl_framebuffers (createLineGeometry (blank i n)) = {}"
  "effects (createLineGeometry (blank i n)) = []"
  "exportTexture (createLineGeometry (blank i n)) = None"
  "framebuffer (createLineGeometry (blank i n)) = None"
  "silhouetteBuffer (createLineGeometry (blank i n)) = None"
  "canvasDirty (createLineGeometry (blank i n)) = False"
  "regionId (createLineGeometry (blank i n)) = None"
  "renderQuality (createLineGeometry (blank i n)) = 1"
  "nativeSize (createLineGeometry (blank i n)) = n"
  "skin_id (createLineGeometry (blank i n)) = i"
  by (simp_all add: createLineGeometry_def blank_def createBufferInfoFromArrays_def Let_def)

lemma constructor_fields:
  "texture (constructor i (w, h)) = Some 1"
  "exportTexture (constructor i (w, h)) = Some 2"
  "framebuffer (constructor i (w, h))
     = Some \<lparr>fbi_framebuffer = 3, fbi_attachment = Some 2, fbi_width = w, fbi_height = h\<rparr>"
  "silhouetteBuffer (constructor i (w, h))
     = Some \<lparr>fbi_framebuffer = 4, fbi_attachment = None, fbi_width = w, fbi_height = h\<rparr>"
  "lineBufferInfo (constructor i (w, h)) = Some 0"
  "gl_textures (constructor i (w, h)) = {1, 2}"
  "gl_framebuffers (constructor i (w, h)) = {3, 4}"
  "gl_buffers (constructor i (w, h)) = {0}"
  "effects (constructor i (w, h)) = [ClearColor 0 0 0 0, Clear_COLOR_BUFFER_BIT]"
  "canvasDirty (constructor i (w, h)) = False"
  "silhouetteDirty (constructor i (w, h)) = True"
  "regionId (constructor i (w, h)) = None"
  "listening (constructor i (w, h)) = True"
  "renderQuality (constructor i (w, h)) = 1"
  "nativeSize (constructor i (w, h)) = (w, h)"
  "canvas_width (constructor i (w, h)) = w"
  "canvas_height (constructor i (w, h)) = h"
  "skin_id (constructor i (w, h)) = i"
  "a_lineColorIndex (constructor i (w, h)) = 0"
  "a_lineThicknessAndLengthIndex (constructor i (w, h)) = 0"
  "a_penPointsIndex (constructor i (w, h)) = 0"
  "a_lineColor (constructor i (w, h)) = replicate 65520 (Num 0)"
  "a_lineThicknessAndLength (constructor i (w, h)) = replicate 32760 (Num 0)"
  "a_penPoints (constructor i (w, h)) = replicate 65520 (Num 0)"
  by (simp_all add: constructor_def Let_def setCanvasSize_def createLineGeometry_blank
      setCanvasSize_framebuffers_fresh insert_commute
      numeral_2_eq_2 [symmetric] numeral_3_eq_3 [symmetric])

lemma effects_emit [simp]: "effects (emit e s) = effects s @ [e]"
  by (simp add: emit_def)




lemma regionId_enterDrawRegion [simp]: "regionId (enterDrawRegion r s) = Some r"
  by (simp add: enterDrawRegion_def Let_def)

lemma enterDrawRegion_same: "regionId s = Some r \<Longrightarrow> enterDrawRegion r s = s"
  by (simp add: enterDrawRegion_def)

lemma effects_drawRectangle:
  "effects (drawRectangle sh tex b x y s)
     = effects s @ [SetTextureParameters tex, SetUniforms_rectangle tex b x y,
                     DrawBufferInfo RendererBufferInfo None]"
  by (simp add: drawRectangle_def)

lemma drawToBuffer_own:
  "drawToBuffer (texture s) x y s =
     (drawRectangle StampShader (texture s) (bounds s) x y
        (enterDrawRegion ToBufferDrawRegionId (merge_canvas s)))\<lparr>silhouetteDirty := True\<rparr>"
  by (subst drawToBuffer.simps) (simp add: Let_def merge_canvas_def)

lemma regionId_drawToBuffer [simp]: "regionId (drawToBuffer tex x y s) = Some ToBufferDrawRegionId"
  by (subst drawToBuffer.simps) (simp add: Let_def)

lemma effects_merge_canvas:
  "effects (merge_canvas s)
     = effects s @ [BindTexture (texture s), TexImage2D_canvas,
                     Ctx_clearRect 0 0 (canvas_width s) (canvas_height s)]"
  by (simp add: merge_canvas_def)


lemma constructor_geometry:
  "rotationCenter (constructor i (w, h)) = (real_of_int w / 2, real_of_int h / 2)"
  "bounds (constructor i (w, h))
     = initFromBounds (real_of_int w / 2) (real_of_int w / (- 2))
         (real_of_int h / 2) (real_of_int h / (- 2))"
  by (simp_all add: constructor_def Let_def setCanvasSize_sizes setCanvasSize_def
      setCanvasSize_canvas_def size_of_def createLineGeometry_blank)

lemma drawStamp_fields:
  "canvasDirty (drawStamp e x y s)"
  "silhouetteDirty (drawStamp e x y s)"
  "effects (drawStamp e x y s)
     = effects s @ [Ctx_drawImage e (num_add (Num (fst (rotationCenter s))) x)
                      (num_sub (Num (snd (rotationCenter s))) y)]"
  "texture (drawStamp e x y s) = texture s"
  "canvas_width (drawStamp e x y s) = canvas_width s"
  "canvas_height (drawStamp e x y s) = canvas_height s"
  "bounds (drawStamp e x y s) = bounds s"
  "batch_inv (drawStamp e x y s) = batch_inv s"
  by (simp_all add: drawStamp_def Let_def)

lemma effects_enterDrawToBuffer:
  "effects (enterDrawToBuffer s)
     = effects s @ [BindFramebufferInfo (map_option fbi_framebuffer (framebuffer s)),
                     Viewport 0 0 (rect_width (bounds s)) (rect_height (bounds s)),
                     UseProgram StampShader,
                     SetBuffersAndAttributes StampShader RendererBufferInfo]"
  by (simp add: enterDrawToBuffer_def drawRectangleRegionEnter_def Let_def)

lemma effects_enterDrawLineOnBuffer:
  "effects (enterDrawLineOnBuffer s)
     = effects s @ [BindFramebufferInfo (map_option fbi_framebuffer (framebuffer s)),
                     Viewport 0 0 (rect_width (bounds s)) (rect_height (bounds s)),
                     UseProgram LineShader,
                     SetUniforms_line (texture s) (rect_width (bounds s)) (rect_height (bounds s))
                       (nativeSize s)]"
  by (simp add: enterDrawLineOnBuffer_def Let_def)

lemma cursors_enterDrawLineOnBuffer [simp]:
  "a_lineColorIndex (enterDrawLineOnBuffer s) = 0"
  "a_lineThicknessAndLengthIndex (enterDrawLineOnBuffer s) = 0"
  "a_penPointsIndex (enterDrawLineOnBuffer s) = 0"
  by (simp_all add: enterDrawLineOnBuffer_def Let_def)

lemma enterDrawRegion_line_to_buffer:
  assumes "regionId s = Some LineOnBufferDrawRegionId" and "a_lineColorIndex s \<noteq> 0"
  shows "enterDrawRegion ToBufferDrawRegionId s
         = (enterDrawToBuffer (emit (BindFramebufferInfo None) (flushLines s)))
             \<lparr>regionId := Some ToBufferDrawRegionId\<rparr>"
  using assms
  by (simp add: enterDrawRegion_def Let_def region_exit_def region_enter_def
      exitDrawLineOnBuffer_def)

lemma enterDrawRegion_none_to_line:
  assumes "regionId s = None"
  shows "enterDrawRegion LineOnBufferDrawRegionId s
         = (enterDrawLineOnBuffer s)\<lparr>regionId := Some LineOnBufferDrawRegionId\<rparr>"
  using assms by (simp add: enterDrawRegion_def Let_def region_enter_def)

lemma flush_calls_cong:
  assumes "a_lineColor s' = a_lineColor s"
    and "a_lineThicknessAndLength s' = a_lineThicknessAndLength s"
    and "a_penPoints s' = a_penPoints s"
    and "a_lineColorIndex s' = a_lineColorIndex s"
    and "a_lineThicknessAndLengthIndex s' = a_lineThicknessAndLengthIndex s"
    and "a_penPointsIndex s' = a_penPointsIndex s"
  shows "flush_calls s' = flush_calls s"
  unfolding flush_calls_def assms ..

lemma merge_canvas_frame [simp]:
  "regionId (merge_canvas s) = regionId s"
  "texture (merge_canvas s) = texture s"
  "exportTexture (merge_canvas s) = exportTexture s"
  "framebuffer (merge_canvas s) = framebuffer s"
  "bounds (merge_canvas s) = bounds s"
  "a_lineColor (merge_canvas s) = a_lineColor s"
  "a_lineThicknessAndLength (merge_canvas s) = a_lineThicknessAndLength s"
  "a_penPoints (merge_canvas s) = a_penPoints s"
  "a_lineColorIndex (merge_canvas s) = a_lineColorIndex s"
  "a_lineThicknessAndLengthIndex (merge_canvas s) = a_lineThicknessAndLengthIndex s"
  "a_penPointsIndex (merge_canvas s) = a_penPointsIndex s"
  "canvasDirty (merge_canvas s) = False"
  by (simp_all add: merge_canvas_def)

lemma flush_calls_merge_canvas [simp]: "flush_calls (merge_canvas s) = flush_calls s"
  by (rule flush_calls_cong) simp_all

lemma a_lineColorIndex_drawLineOnBuffer:
  "a_lineColorIndex (drawLineOnBuffer a x0 y0 x1 y1 s) = a_lineColorIndex (before_append s) + 24"
proof -
  obtain r g b al where col: "or_color (color4f a) (color4f DefaultPenAttributes) = (r, g, b, al)"
    by (metis prod_cases4)
  have "snd (chan_color (drawLineOnBuffer a x0 y0 x1 y1 s))
          = snd (chan_color (before_append s)) + 24"
    unfolding drawLineOnBuffer_chan(1) [OF col] before_append_def [symmetric]
    by (simp add: snd_pushes length_concat_replicate)
  then show ?thesis
    by (simp add: chan_color_def)
qed

lemma a_lineColorIndex_drawLine:
  "a_lineColorIndex (drawLine a x0 y0 x1 y1 s) \<noteq> 0"
  by (simp add: drawLine_def Let_def a_lineColorIndex_drawLineOnBuffer)

lemma getTexture_flushes_pending:
  assumes "regionId s = Some LineOnBufferDrawRegionId" and "a_lineColorIndex s \<noteq> 0"
    and "canvasDirty s"
  shows "a_lineColorIndex (snd (getTexture w h s)) = 0"
    and "a_lineThicknessAndLengthIndex (snd (getTexture w h s)) = 0"
    and "a_penPointsIndex (snd (getTexture w h s)) = 0"
    and "\<not> canvasDirty (snd (getTexture w h s))"
    and "fst (getTexture w h s) = exportTexture s"
    and "prefix (effects s @ [BindTexture (texture s), TexImage2D_canvas,
                              Ctx_clearRect 0 0 (canvas_width s) (canvas_height s)]
                 @ flush_calls s)
           (effects (snd (getTexture w h s)))"
proof -
  let ?m = "merge_canvas s"
  have m: "regionId ?m = Some LineOnBufferDrawRegionId" "a_lineColorIndex ?m \<noteq> 0"
    using assms by simp_all
  note e = enterDrawRegion_line_to_buffer [OF m]
  have g: "snd (getTexture w h s) = drawToBuffer_default s"
    "fst (getTexture w h s) = exportTexture (drawToBuffer_default s)"
    using assms(3) by (simp_all add: getTexture_def Let_def)
  show "a_lineColorIndex (snd (getTexture w h s)) = 0"
    and "a_lineThicknessAndLengthIndex (snd (getTexture w h s)) = 0"
    and "a_penPointsIndex (snd (getTexture w h s)) = 0"
    unfolding g drawToBuffer_default_def drawToBuffer_own e by simp_all
  show "\<not> canvasDirty (snd (getTexture w h s))"
    unfolding g drawToBuffer_default_def by simp
  show "fst (getTexture w h s) = exportTexture s"
    unfolding g drawToBuffer_default_def by simp
  have "effects (drawToBuffer_default s)
        = (effects s @ [BindTexture (texture s), TexImage2D_canvas,
                        Ctx_clearRect 0 0 (canvas_width s) (canvas_height s)]
           @ flush_calls s)
          @ BindFramebufferInfo None
            # [BindFramebufferInfo (map_option fbi_framebuffer (framebuffer s)),
               Viewport 0 0 (rect_width (bounds s)) (rect_height (bounds s)),
               UseProgram StampShader,
               SetBuffersAndAttributes StampShader RendererBufferInfo]
          @ [SetTextureParameters (texture s),
             SetUniforms_rectangle (texture s) (bounds s)
               (- real_of_int (canvas_width s) / 2) (real_of_int (canvas_height s) / 2),
             DrawBufferInfo RendererBufferInfo None]"
    unfolding drawToBuffer_default_def drawToBuffer_own e
    by (simp add: effects_drawRectangle effects_enterDrawToBuffer effects_flushLines
        effects_merge_canvas)
  then show "prefix (effects s @ [BindTexture (texture s), TexImage2D_canvas,
                              Ctx_clearRect 0 0 (canvas_width s) (canvas_height s)]
                 @ flush_calls s)
           (effects (snd (getTexture w h s)))"
    unfolding g by (metis prefixI)
qed

lemma before_append_fresh:
  assumes "regionId s = None" and "length (a_lineColor s) = 65520"
  shows "before_append s
         = (enterDrawLineOnBuffer s)\<lparr>regionId := Some LineOnBufferDrawRegionId\<rparr>"
  using assms by (simp add: before_append_def Let_def enterDrawRegion_none_to_line)

lemma drawLine_fresh:
  assumes "regionId s = None" and "batch_inv s"
  shows "a_lineColorIndex (drawLine a x0 y0 x1 y1 s) = 24"
    and "a_lineThicknessAndLengthIndex (drawLine a x0 y0 x1 y1 s) = 12"
    and "a_penPointsIndex (drawLine a x0 y0 x1 y1 s) = 24"
    and "effects (drawLine a x0 y0 x1 y1 s)
         = effects s @ [BindFramebufferInfo (map_option fbi_framebuffer (framebuffer s)),
                         Viewport 0 0 (rect_width (bounds s)) (rect_height (bounds s)),
                         UseProgram LineShader,
                         SetUniforms_line (texture s) (rect_width (bounds s))
                           (rect_height (bounds s)) (nativeSize s)]"
proof -
  obtain r g b al where col: "or_color (color4f a) (color4f DefaultPenAttributes) = (r, g, b, al)"
    by (metis prod_cases4)
  have len: "length (a_lineColor s) = 65520"
    using assms(2) by (simp add: batch_inv_def)
  note b = before_append_fresh [OF assms(1) len]
  note d = drawLineOnBuffer_batch [OF assms(2) col]
  show "a_lineColorIndex (drawLine a x0 y0 x1 y1 s) = 24"
    and "a_lineThicknessAndLengthIndex (drawLine a x0 y0 x1 y1 s) = 12"
    and "a_penPointsIndex (drawLine a x0 y0 x1 y1 s) = 24"
    by (simp_all add: drawLine_def Let_def d b)
  show "effects (drawLine a x0 y0 x1 y1 s)
         = effects s @ [BindFramebufferInfo (map_option fbi_framebuffer (framebuffer s)),
                         Viewport 0 0 (rect_width (bounds s)) (rect_height (bounds s)),
                         UseProgram LineShader,
                         SetUniforms_line (texture s) (rect_width (bounds s))
                           (rect_height (bounds s)) (nativeSize s)]"
    by (simp add: drawLine_def Let_def effects_drawLineOnBuffer b effects_enterDrawLineOnBuffer)
qed

lemma constructor_rect:
  "rect_width (bounds (constructor i (w, h))) = \<bar>real_of_int w\<bar>"
  "rect_height (bounds (constructor i (w, h))) = \<bar>real_of_int h\<bar>"
  by (simp_all add: constructor_geometry initFromBounds_def rect_width_def rect_height_def)

lemma drawStamp_frame2:
  "regionId (drawStamp e x y s) = regionId s"
  "framebuffer (drawStamp e x y s) = framebuffer s"
  "exportTexture (drawStamp e x y s) = exportTexture s"
  "nativeSize (drawStamp e x y s) = nativeSize s"
  by (simp_all add: drawStamp_def Let_def)

subsection \<open>The record a line leaves in the batch\<close>

lemma batch_record_drawLineOnBuffer:
  assumes inv: "batch_inv s"
    and col: "or_color (color4f a) (color4f DefaultPenAttributes) = (r, g, b, al)"
  shows "take 24 (drop (a_lineColorIndex (drawLineOnBuffer a x0 y0 x1 y1 s) - 24)
                    (a_lineColor (drawLineOnBuffer a x0 y0 x1 y1 s)))
         = concat (replicate 6 [fround (num_mul r al), fround (num_mul g al), fround (num_mul b al), fround al])"
    and "take 12 (drop (a_lineThicknessAndLengthIndex (drawLineOnBuffer a x0 y0 x1 y1 s) - 12)
                    (a_lineThicknessAndLength (drawLineOnBuffer a x0 y0 x1 y1 s)))
         = concat (replicate 6 [fround (or_number (diameter a) (diameter DefaultPenAttributes)),
                fround (segment_length x0 y0 x1 y1)])"
    and "take 24 (drop (a_penPointsIndex (drawLineOnBuffer a x0 y0 x1 y1 s) - 24)
                    (a_penPoints (drawLineOnBuffer a x0 y0 x1 y1 s)))
         = concat (replicate 6 [fround x0, fround (num_neg y0), fround (num_sub x1 x0),
              fround (num_neg (num_sub y1 y0))])"
proof -
  note b = batch_inv_before_append [OF inv]
  note d = drawLineOnBuffer_batch [OF inv col, of x0 y0 x1 y1]
  have lens: "length (a_lineColor (before_append s)) = 65520"
    "length (a_lineThicknessAndLength (before_append s)) = 32760"
    "length (a_penPoints (before_append s)) = 65520"
    and idx: "a_penPointsIndex (before_append s) = a_lineColorIndex (before_append s)"
    "a_lineColorIndex (before_append s) = 2 * a_lineThicknessAndLengthIndex (before_append s)"
    using b(1) unfolding batch_inv_def by blast+
  show "take 24 (drop (a_lineColorIndex (drawLineOnBuffer a x0 y0 x1 y1 s) - 24)
                    (a_lineColor (drawLineOnBuffer a x0 y0 x1 y1 s)))
         = concat (replicate 6 [fround (num_mul r al), fround (num_mul g al), fround (num_mul b al), fround al])"
    unfolding d
    using b(2) lens
      take_drop_write_at [of "a_lineColorIndex (before_append s)"
        "concat (replicate 6 [fround (num_mul r al), fround (num_mul g al), fround (num_mul b al), fround al])" "a_lineColor (before_append s)"]
    by (simp add: length_concat_replicate)
  show "take 12 (drop (a_lineThicknessAndLengthIndex (drawLineOnBuffer a x0 y0 x1 y1 s) - 12)
                    (a_lineThicknessAndLength (drawLineOnBuffer a x0 y0 x1 y1 s)))
         = concat (replicate 6 [fround (or_number (diameter a) (diameter DefaultPenAttributes)),
                fround (segment_length x0 y0 x1 y1)])"
    unfolding d
    using b(2) lens idx
      take_drop_write_at [of "a_lineThicknessAndLengthIndex (before_append s)"
        "concat (replicate 6 [fround (or_number (diameter a) (diameter DefaultPenAttributes)),
                fround (segment_length x0 y0 x1 y1)])"
        "a_lineThicknessAndLength (before_append s)"]
    by (simp add: length_concat_replicate)
  show "take 24 (drop (a_penPointsIndex (drawLineOnBuffer a x0 y0 x1 y1 s) - 24)
                    (a_penPoints (drawLineOnBuffer a x0 y0 x1 y1 s)))
         = concat (replicate 6 [fround x0, fround (num_neg y0), fround (num_sub x1 x0),
              fround (num_neg (num_sub y1 y0))])"
    unfolding d
    using b(2) lens idx
      take_drop_write_at [of "a_penPointsIndex (before_append s)"
        "concat (replicate 6 [fround x0, fround (num_neg y0), fround (num_sub x1 x0),
              fround (num_neg (num_sub y1 y0))])" "a_penPoints (before_append s)"]
    by (simp add: length_concat_replicate)
qed

lemma drawLine_eq:
  "drawLine a x0 y0 x1 y1 s
     = (drawLineOnBuffer a (num_add x0 (pen_offset a)) (num_add y0 (pen_offset a))
          (num_add x1 (pen_offset a)) (num_add y1 (pen_offset a)) s)\<lparr>silhouetteDirty := True\<rparr>"
  by (simp add: drawLine_def pen_offset_def Let_def)

lemma batch_record_drawLine:
  assumes inv: "batch_inv s"
    and col: "or_color (color4f a) (color4f DefaultPenAttributes) = (r, g, b, al)"
  shows "take 24 (drop (a_lineColorIndex (drawLine a x0 y0 x1 y1 s) - 24)
                    (a_lineColor (drawLine a x0 y0 x1 y1 s)))
         = concat (replicate 6 [fround (num_mul r al), fround (num_mul g al), fround (num_mul b al),
              fround al])"
    and "take 24 (drop (a_penPointsIndex (drawLine a x0 y0 x1 y1 s) - 24)
                    (a_penPoints (drawLine a x0 y0 x1 y1 s)))
         = concat (replicate 6
             [fround (num_add x0 (pen_offset a)), fround (num_neg (num_add y0 (pen_offset a))),
              fround (num_sub (num_add x1 (pen_offset a)) (num_add x0 (pen_offset a))),
              fround (num_neg (num_sub (num_add y1 (pen_offset a)) (num_add y0 (pen_offset a))))])"
    and "take 12 (drop (a_lineThicknessAndLengthIndex (drawLine a x0 y0 x1 y1 s) - 12)
                    (a_lineThicknessAndLength (drawLine a x0 y0 x1 y1 s)))
         = concat (replicate 6
             [fround (or_number (diameter a) (diameter DefaultPenAttributes)),
              fround (segment_length (num_add x0 (pen_offset a)) (num_add y0 (pen_offset a))
                        (num_add x1 (pen_offset a)) (num_add y1 (pen_offset a)))])"
  using batch_record_drawLineOnBuffer [OF inv col, of "num_add x0 (pen_offset a)"
      "num_add y0 (pen_offset a)" "num_add x1 (pen_offset a)" "num_add y1 (pen_offset a)"]
  by (simp_all add: drawLine_eq)

lemma drawLine_in_region:
  assumes "batch_inv s" and "regionId s = Some LineOnBufferDrawRegionId"
    and "a_lineColorIndex s + 24 \<le> 65520"
  shows "a_lineColorIndex (drawLine a x0 y0 x1 y1 s) = a_lineColorIndex s + 24"
proof -
  have "length (a_lineColor s) = 65520"
    using assms(1) by (simp add: batch_inv_def)
  then have "before_append s = s"
    using assms(2,3) by (simp add: before_append_def enterDrawRegion_same)
  then show ?thesis
    by (simp add: drawLine_eq a_lineColorIndex_drawLineOnBuffer)
qed

lemma run_Cons: "run s (opn # ops) = run (step s opn) ops"
  by (simp add: run_def)

lemma run_drawLines_in_region:
  assumes "batch_inv s" and "regionId s = Some LineOnBufferDrawRegionId"
    and "a_lineColorIndex s + 24 * n \<le> 65520"
  shows "a_lineColorIndex (run s (replicate n (DrawLine a x0 y0 x1 y1))) = a_lineColorIndex s + 24 * n
         \<and> regionId (run s (replicate n (DrawLine a x0 y0 x1 y1))) = Some LineOnBufferDrawRegionId"
  using assms
proof (induction n arbitrary: s)
  case 0
  then show ?case by (simp add: run_def)
next
  case (Suc n)
  let ?s' = "drawLine a x0 y0 x1 y1 s"
  have idx: "a_lineColorIndex ?s' = a_lineColorIndex s + 24"
    using Suc.prems by (intro drawLine_in_region) simp_all
  have "a_lineColorIndex (run ?s' (replicate n (DrawLine a x0 y0 x1 y1)))
          = a_lineColorIndex ?s' + 24 * n
        \<and> regionId (run ?s' (replicate n (DrawLine a x0 y0 x1 y1)))
          = Some LineOnBufferDrawRegionId"
    using Suc.prems idx by (intro Suc.IH) (simp_all add: batch_inv_drawLine)
  then show ?case
    by (simp add: run_Cons idx)
qed

lemma run_drawLines_fresh:
  assumes "batch_inv s" and "regionId s = None" and "24 * Suc n \<le> 65520"
  shows "a_lineColorIndex (run s (replicate (Suc n) (DrawLine a x0 y0 x1 y1))) = 24 * Suc n"
    and "regionId (run s (replicate (Suc n) (DrawLine a x0 y0 x1 y1)))
           = Some LineOnBufferDrawRegionId"
proof -
  let ?s' = "drawLine a x0 y0 x1 y1 s"
  have "a_lineColorIndex ?s' = 24"
    using assms by (intro drawLine_fresh) simp_all
  moreover have "batch_inv ?s'" "regionId ?s' = Some LineOnBufferDrawRegionId"
    using assms by (simp_all add: batch_inv_drawLine)
  ultimately have "a_lineColorIndex (run ?s' (replicate n (DrawLine a x0 y0 x1 y1)))
          = a_lineColorIndex ?s' + 24 * n
        \<and> regionId (run ?s' (replicate n (DrawLine a x0 y0 x1 y1)))
          = Some LineOnBufferDrawRegionId"
    using assms(3) by (intro run_drawLines_in_region) simp_all
  then show "a_lineColorIndex (run s (replicate (Suc n) (DrawLine a x0 y0 x1 y1))) = 24 * Suc n"
    and "regionId (run s (replicate (Suc n) (DrawLine a x0 y0 x1 y1)))
           = Some LineOnBufferDrawRegionId"
    using \<open>a_lineColorIndex ?s' = 24\<close> by (simp_all add: run_Cons)
qed

lemma drawLineOnBuffer_cursors:
  assumes "batch_inv s"
  shows "a_lineColorIndex (drawLineOnBuffer a x0 y0 x1 y1 s) = a_lineColorIndex (before_append s) + 24"
    and "a_lineThicknessAndLengthIndex (drawLineOnBuffer a x0 y0 x1 y1 s)
           = a_lineThicknessAndLengthIndex (before_append s) + 12"
    and "a_penPointsIndex (drawLineOnBuffer a x0 y0 x1 y1 s) = a_penPointsIndex (before_append s) + 24"
proof -
  obtain r g b al where col: "or_color (color4f a) (color4f DefaultPenAttributes) = (r, g, b, al)"
    by (metis prod_cases4)
  note d = drawLineOnBuffer_batch [OF assms col, of x0 y0 x1 y1]
  show "a_lineColorIndex (drawLineOnBuffer a x0 y0 x1 y1 s) = a_lineColorIndex (before_append s) + 24"
    and "a_lineThicknessAndLengthIndex (drawLineOnBuffer a x0 y0 x1 y1 s)
           = a_lineThicknessAndLengthIndex (before_append s) + 12"
    and "a_penPointsIndex (drawLineOnBuffer a x0 y0 x1 y1 s) = a_penPointsIndex (before_append s) + 24"
    by (simp_all add: d)
qed

section \<open>The claims\<close>

text \<open>
  C1, as amended. After \<open>drawLine\<close>, a \<open>getTexture\<close> that finds the canvas dirty merges
  the canvas and, on leaving the line draw region for that, flushes the pending batch:
  all cursors are back at 0 and the calls of the flush follow the upload of the canvas.
  A \<open>getTexture\<close> that finds the canvas clean returns the export texture and changes
  nothing: the line stays pending in the batch.
\<close>

theorem getTexture_after_drawLine:
  "(canvasDirty s \<longrightarrow>
      a_lineColorIndex (snd (getTexture w h (drawLine a x0 y0 x1 y1 s))) = 0 \<and>
      a_lineThicknessAndLengthIndex (snd (getTexture w h (drawLine a x0 y0 x1 y1 s))) = 0 \<and>
      a_penPointsIndex (snd (getTexture w h (drawLine a x0 y0 x1 y1 s))) = 0 \<and>
      fst (getTexture w h (drawLine a x0 y0 x1 y1 s)) = exportTexture s \<and>
      prefix (effects (drawLine a x0 y0 x1 y1 s)
              @ [BindTexture (texture s), TexImage2D_canvas,
                 Ctx_clearRect 0 0 (canvas_width s) (canvas_height s)]
              @ flush_calls (drawLine a x0 y0 x1 y1 s))
        (effects (snd (getTexture w h (drawLine a x0 y0 x1 y1 s))))) \<and>
   (\<not> canvasDirty s \<longrightarrow>
      getTexture w h (drawLine a x0 y0 x1 y1 s)
        = (exportTexture s, drawLine a x0 y0 x1 y1 s))"
proof (cases "canvasDirty s")
  case False
  then show ?thesis
    by (simp add: getTexture_def Let_def)
next
  case True
  let ?s1 = "drawLine a x0 y0 x1 y1 s"
  have pre: "regionId ?s1 = Some LineOnBufferDrawRegionId" "a_lineColorIndex ?s1 \<noteq> 0"
    "canvasDirty ?s1"
    using True by (simp_all add: a_lineColorIndex_drawLine)
  from getTexture_flushes_pending [OF pre, of w h] True show ?thesis
    by simp
qed

theorem getTexture_after_drawLine_witness:
  "a_lineColorIndex (snd (getTexture 480 360 (drawLine DefaultPenAttributes (Num 0) (Num 0) (Num 100) (Num 0)
       (drawStamp 7 (Num 10) (Num 20) (constructor 1 (480, 360)))))) = 0 \<and>
   fst (getTexture 480 360 (drawLine DefaultPenAttributes (Num 0) (Num 0) (Num 100) (Num 0)
       (drawStamp 7 (Num 10) (Num 20) (constructor 1 (480, 360))))) = Some 2 \<and>
   prefix ([ClearColor 0 0 0 0, Clear_COLOR_BUFFER_BIT, Ctx_drawImage 7 (Num 250) (Num 160),
            BindFramebufferInfo (Some 3), Viewport 0 0 480 360, UseProgram LineShader,
            SetUniforms_line (Some 1) 480 360 (480, 360),
            BindTexture (Some 1), TexImage2D_canvas, Ctx_clearRect 0 0 480 360]
           @ flush_calls (drawLine DefaultPenAttributes (Num 0) (Num 0) (Num 100) (Num 0)
               (drawStamp 7 (Num 10) (Num 20) (constructor 1 (480, 360)))))
     (effects (snd (getTexture 480 360 (drawLine DefaultPenAttributes (Num 0) (Num 0) (Num 100) (Num 0)
        (drawStamp 7 (Num 10) (Num 20) (constructor 1 (480, 360))))))) \<and>
   last (flush_calls (drawLine DefaultPenAttributes (Num 0) (Num 0) (Num 100) (Num 0)
        (drawStamp 7 (Num 10) (Num 20) (constructor 1 (480, 360)))))
     = DrawBufferInfo LineBufferInfo (Some 6) \<and>
   getTexture 480 360 (drawLine DefaultPenAttributes (Num 0) (Num 0) (Num 100) (Num 0) (constructor 1 (480, 360)))
     = (Some 2, drawLine DefaultPenAttributes (Num 0) (Num 0) (Num 100) (Num 0) (constructor 1 (480, 360)))"
proof -
  let ?s0 = "constructor 1 (480, 360)"
  let ?st = "drawStamp 7 (Num 10) (Num 20) ?s0"
  have e: "to_double 250 = Num 250" "num_sub (Num 180) (Num 20) = Num 160"
    by (simp_all add: num_eval)
  have st: "regionId ?st = None" "batch_inv ?st"
    by (simp_all add: drawStamp_frame2 drawStamp_fields constructor_fields batch_inv_constructor)
  have l: "last (flush_calls (drawLine DefaultPenAttributes (Num 0) (Num 0) (Num 100) (Num 0) ?st))
             = DrawBufferInfo LineBufferInfo (Some 6)"
    by (simp add: flush_calls_def drawLine_fresh [OF st])
  show ?thesis
    using getTexture_after_drawLine [of ?st 480 360 DefaultPenAttributes "Num 0" "Num 0" "Num 100"
        "Num 0"]
      getTexture_after_drawLine [of ?s0 480 360 DefaultPenAttributes "Num 0" "Num 0" "Num 100"
        "Num 0"] l
    by (simp add: drawLine_fresh(4) [OF st] drawStamp_fields drawStamp_frame2
        constructor_fields constructor_geometry rect_width_def rect_height_def
        initFromBounds_def e)
qed

text \<open>
  C1 as stated fails: on a freshly constructed pen layer, whose canvas is clean,
  \<open>drawLine\<close> followed by \<open>getTexture\<close> leaves the six vertex records of the line
  pending in the batch; the only GL calls issued are those of entering the line draw
  region, and no vertex data has been uploaded or drawn.
\<close>

theorem getTexture_after_drawLine_counterexample:
  "a_lineColorIndex (snd (getTexture 480 360
       (drawLine DefaultPenAttributes (Num 0) (Num 0) (Num 100) (Num 0) (constructor 1 (480, 360))))) = 24 \<and>
   effects (snd (getTexture 480 360
       (drawLine DefaultPenAttributes (Num 0) (Num 0) (Num 100) (Num 0) (constructor 1 (480, 360)))))
     = [ClearColor 0 0 0 0, Clear_COLOR_BUFFER_BIT,
        BindFramebufferInfo (Some 3), Viewport 0 0 480 360, UseProgram LineShader,
        SetUniforms_line (Some 1) 480 360 (480, 360)]"
proof -
  let ?s0 = "constructor 1 (480, 360)"
  have s0: "regionId ?s0 = None" "batch_inv ?s0"
    by (simp_all add: constructor_fields batch_inv_constructor)
  have "snd (getTexture 480 360 (drawLine DefaultPenAttributes (Num 0) (Num 0) (Num 100) (Num 0) ?s0))
          = drawLine DefaultPenAttributes (Num 0) (Num 0) (Num 100) (Num 0) ?s0"
    by (simp add: getTexture_def Let_def constructor_fields)
  then show ?thesis
    by (simp add: drawLine_fresh [OF s0] constructor_fields constructor_rect)
qed

text \<open>
  C2. In every state reached from the constructor by public operations each batch write
  cursor is at most the length of its array. When, on a \<open>drawLine\<close>, the color cursor
  plus 24 would exceed the length of the color array, the batch is flushed first (the
  calls of the flush are issued on the full batch and all cursors return to 0) and the six
  vertex records are then written from the start of the arrays; otherwise nothing is
  flushed and the records are appended to the batch. Either way the records of one
  segment lie in a single batch.
\<close>

theorem cursors_within_capacity:
  "(let s = run (constructor i n) ops;
        s1 = enterDrawRegion LineOnBufferDrawRegionId s;
        s' = drawLineOnBuffer a x0 y0 x1 y1 s
    in a_lineColorIndex s \<le> length (a_lineColor s) \<and>
       a_lineThicknessAndLengthIndex s \<le> length (a_lineThicknessAndLength s) \<and>
       a_penPointsIndex s \<le> length (a_penPoints s) \<and>
       (length (a_lineColor s1) < a_lineColorIndex s1 + 24 \<longrightarrow>
          effects s' = effects s1 @ flush_calls s1 \<and>
          a_lineColorIndex s' = 24 \<and>
          a_lineThicknessAndLengthIndex s' = 12 \<and>
          a_penPointsIndex s' = 24) \<and>
       (a_lineColorIndex s1 + 24 \<le> length (a_lineColor s1) \<longrightarrow>
          effects s' = effects s1 \<and>
          a_lineColorIndex s' = a_lineColorIndex s1 + 24 \<and>
          a_lineThicknessAndLengthIndex s' = a_lineThicknessAndLengthIndex s1 + 12 \<and>
          a_penPointsIndex s' = a_penPointsIndex s1 + 24))"
proof -
  let ?s = "run (constructor i n) ops"
  let ?s1 = "enterDrawRegion LineOnBufferDrawRegionId ?s"
  have inv: "batch_inv ?s"
    by (rule batch_inv_reachable)
  then have bounds: "a_lineColorIndex ?s \<le> length (a_lineColor ?s)"
    "a_lineThicknessAndLengthIndex ?s \<le> length (a_lineThicknessAndLength ?s)"
    "a_penPointsIndex ?s \<le> length (a_penPoints ?s)"
    by (simp_all add: batch_inv_def)
  note c = drawLineOnBuffer_cursors [OF inv, of a x0 y0 x1 y1]
  note e = effects_drawLineOnBuffer [of a x0 y0 x1 y1 ?s]
  have over: "before_append ?s = flushLines ?s1"
    if "length (a_lineColor ?s1) < a_lineColorIndex ?s1 + 24"
    using that by (simp add: before_append_def Let_def)
  have under: "before_append ?s = ?s1"
    if "a_lineColorIndex ?s1 + 24 \<le> length (a_lineColor ?s1)"
    using that by (simp add: before_append_def Let_def)
  show ?thesis
    unfolding Let_def
    using bounds by (auto simp: c e over under effects_flushLines)
qed

theorem cursors_within_capacity_witness:
  "a_lineColorIndex (run (constructor 1 (480, 360))
       (replicate 2730 (DrawLine DefaultPenAttributes (Num 0) (Num 0) (Num 0) (Num 0)))) = 65520 \<and>
   a_lineColorIndex (drawLineOnBuffer DefaultPenAttributes (Num 0) (Num 0) (Num 1) (Num 1)
       (run (constructor 1 (480, 360))
          (replicate 2730 (DrawLine DefaultPenAttributes (Num 0) (Num 0) (Num 0) (Num 0))))) = 24 \<and>
   a_lineColorIndex (drawLineOnBuffer DefaultPenAttributes (Num 0) (Num 0) (Num 1) (Num 1)
       (run (constructor 1 (480, 360)) [DrawLine DefaultPenAttributes (Num 0) (Num 0) (Num 0) (Num 0)])) = 48"
proof -
  let ?s0 = "constructor 1 (480, 360)"
  let ?line = "DrawLine DefaultPenAttributes (Num 0) (Num 0) (Num 0) (Num 0)"
  let ?full = "run ?s0 (replicate 2730 ?line)"
  let ?one = "run ?s0 [?line]"
  have s0: "batch_inv ?s0" "regionId ?s0 = None"
    by (simp_all add: batch_inv_constructor constructor_fields)
  have n: "replicate 2730 ?line = replicate (Suc 2729) ?line"
    by simp
  have full: "a_lineColorIndex ?full = 65520" "regionId ?full = Some LineOnBufferDrawRegionId"
    unfolding n
    using run_drawLines_fresh [OF s0, of 2729 DefaultPenAttributes "Num 0" "Num 0" "Num 0" "Num 0"]
    by simp_all
  have len: "length (a_lineColor ?full) = 65520" "length (a_lineColor ?one) = 65520"
    using batch_inv_reachable [of 1 "(480, 360)"] by (simp_all add: batch_inv_def)
  have one: "a_lineColorIndex ?one = 24" "regionId ?one = Some LineOnBufferDrawRegionId"
    using drawLine_fresh(1) [OF s0(2,1)] by (simp_all add: run_def)
  show ?thesis
    using cursors_within_capacity [of 1 "(480, 360)" "replicate 2730 ?line"
        DefaultPenAttributes "Num 0" "Num 0" "Num 1" "Num 1"]
      cursors_within_capacity [of 1 "(480, 360)" "[?line]" DefaultPenAttributes "Num 0" "Num 0"
        "Num 1" "Num 1"]
    by (simp add: Let_def enterDrawRegion_same full one len)
qed

text \<open>
  C3. In every state reached from the constructor by a sequence of public operations
  (clear, drawPoint, drawLine, drawStamp, getTexture, updateSilhouette,
  setRenderQuality, a native-size change), a dirty canvas implies a dirty silhouette.
\<close>

theorem rasterDirty_implies_silhouetteDirty:
  "canvasDirty (run (constructor i n) ops) \<longrightarrow> silhouetteDirty (run (constructor i n) ops)"
  by (rule flags_run) (simp add: flags_constructor)

theorem rasterDirty_implies_silhouetteDirty_witness:
  "canvasDirty (run (constructor 1 (480, 360)) [DrawStamp 7 (Num 10) (Num 20)]) \<and>
   silhouetteDirty (run (constructor 1 (480, 360)) [DrawStamp 7 (Num 10) (Num 20)])"
proof -
  have c: "canvasDirty (run (constructor 1 (480, 360)) [DrawStamp 7 (Num 10) (Num 20)])"
    by (simp add: run_def drawStamp_def Let_def)
  with rasterDirty_implies_silhouetteDirty [of 1 "(480, 360)" "[DrawStamp 7 (Num 10) (Num 20)]"]
  show ?thesis by simp
qed

text \<open>
  C4, as amended. When the effective pen diameter (the diameter given, or 1 when it is
  missing, 0 or \<open>NaN\<close>) is exactly 1 or exactly 3, \<open>drawLine\<close> passes to the batch
  each coordinate plus \<open>0.5\<close>, the sum rounded to a double, and the record appended to
  the batch holds, rounded to single precision, the start point so shifted and the
  difference of the shifted endpoints. For any other diameter the coordinates go to the
  batch as they are, and the record holds the start point and the difference of the
  endpoints rounded to single precision.
\<close>

theorem drawLine_offset:
  "(or_number (diameter a) (diameter DefaultPenAttributes) = Num 1
      \<or> or_number (diameter a) (diameter DefaultPenAttributes) = Num 3 \<longrightarrow>
      drawLine a x0 y0 x1 y1 s
        = (drawLineOnBuffer a (num_add x0 (Num (1 / 2))) (num_add y0 (Num (1 / 2)))
             (num_add x1 (Num (1 / 2))) (num_add y1 (Num (1 / 2))) s)
            \<lparr>silhouetteDirty := True\<rparr> \<and>
      take 24 (drop (a_penPointsIndex (drawLine a x0 y0 x1 y1 (run (constructor i n) ops)) - 24)
                 (a_penPoints (drawLine a x0 y0 x1 y1 (run (constructor i n) ops))))
        = concat (replicate 6
            [fround (num_add x0 (Num (1 / 2))),
             fround (num_neg (num_add y0 (Num (1 / 2)))),
             fround (num_sub (num_add x1 (Num (1 / 2))) (num_add x0 (Num (1 / 2)))),
             fround (num_neg (num_sub (num_add y1 (Num (1 / 2))) (num_add y0 (Num (1 / 2)))))])) \<and>
   (or_number (diameter a) (diameter DefaultPenAttributes) \<noteq> Num 1
      \<and> or_number (diameter a) (diameter DefaultPenAttributes) \<noteq> Num 3
      \<and> is_double x0 \<and> is_double y0 \<and> is_double x1 \<and> is_double y1 \<longrightarrow>
      drawLine a x0 y0 x1 y1 s
        = (drawLineOnBuffer a x0 y0 x1 y1 s)\<lparr>silhouetteDirty := True\<rparr> \<and>
      take 24 (drop (a_penPointsIndex (drawLine a x0 y0 x1 y1 (run (constructor i n) ops)) - 24)
                 (a_penPoints (drawLine a x0 y0 x1 y1 (run (constructor i n) ops))))
        = concat (replicate 6
            [fround x0, fround (num_neg y0), fround (num_sub x1 x0),
             fround (num_neg (num_sub y1 y0))]))"
proof -
  obtain r g b al where col: "or_color (color4f a) (color4f DefaultPenAttributes) = (r, g, b, al)"
    by (metis prod_cases4)
  note rec = batch_record_drawLine(2) [OF batch_inv_reachable [of i n ops] col, of x0 y0 x1 y1]
  have shifted:
    "drawLine a x0 y0 x1 y1 s
        = (drawLineOnBuffer a (num_add x0 (Num (1 / 2))) (num_add y0 (Num (1 / 2)))
             (num_add x1 (Num (1 / 2))) (num_add y1 (Num (1 / 2))) s)
            \<lparr>silhouetteDirty := True\<rparr> \<and>
      take 24 (drop (a_penPointsIndex (drawLine a x0 y0 x1 y1 (run (constructor i n) ops)) - 24)
                 (a_penPoints (drawLine a x0 y0 x1 y1 (run (constructor i n) ops))))
        = concat (replicate 6
            [fround (num_add x0 (Num (1 / 2))),
             fround (num_neg (num_add y0 (Num (1 / 2)))),
             fround (num_sub (num_add x1 (Num (1 / 2))) (num_add x0 (Num (1 / 2)))),
             fround (num_neg (num_sub (num_add y1 (Num (1 / 2))) (num_add y0 (Num (1 / 2)))))])"
    if "or_number (diameter a) (diameter DefaultPenAttributes) = Num 1
      \<or> or_number (diameter a) (diameter DefaultPenAttributes) = Num 3"
  proof -
    have off: "pen_offset a = Num (1 / 2)"
      using that unfolding pen_offset_def by (rule if_P)
    have eq: "drawLine a x0 y0 x1 y1 s
        = (drawLineOnBuffer a (num_add x0 (Num (1 / 2))) (num_add y0 (Num (1 / 2)))
             (num_add x1 (Num (1 / 2))) (num_add y1 (Num (1 / 2))) s)
            \<lparr>silhouetteDirty := True\<rparr>"
      unfolding drawLine_eq off by (rule refl)
    from eq rec [unfolded off] show ?thesis
      by (rule conjI)
  qed
  have plain:
    "drawLine a x0 y0 x1 y1 s
        = (drawLineOnBuffer a x0 y0 x1 y1 s)\<lparr>silhouetteDirty := True\<rparr> \<and>
      take 24 (drop (a_penPointsIndex (drawLine a x0 y0 x1 y1 (run (constructor i n) ops)) - 24)
                 (a_penPoints (drawLine a x0 y0 x1 y1 (run (constructor i n) ops))))
        = concat (replicate 6
            [fround x0, fround (num_neg y0), fround (num_sub x1 x0),
             fround (num_neg (num_sub y1 y0))])"
    if "or_number (diameter a) (diameter DefaultPenAttributes) \<noteq> Num 1
      \<and> or_number (diameter a) (diameter DefaultPenAttributes) \<noteq> Num 3
      \<and> is_double x0 \<and> is_double y0 \<and> is_double x1 \<and> is_double y1"
  proof -
    have "\<not> (or_number (diameter a) (diameter DefaultPenAttributes) = Num 1
      \<or> or_number (diameter a) (diameter DefaultPenAttributes) = Num 3)"
      using that by blast
    then have off: "pen_offset a = Num 0"
      unfolding pen_offset_def by (rule if_not_P)
    have same: "num_add x0 (Num 0) = x0" "num_add y0 (Num 0) = y0"
      "num_add x1 (Num 0) = x1" "num_add y1 (Num 0) = y1"
      using that by (blast intro: num_add_0)+
    have eq: "drawLine a x0 y0 x1 y1 s
        = (drawLineOnBuffer a x0 y0 x1 y1 s)\<lparr>silhouetteDirty := True\<rparr>"
      unfolding drawLine_eq off same by (rule refl)
    from eq rec [unfolded off same] show ?thesis
      by (rule conjI)
  qed
  from shifted plain show ?thesis
    by blast
qed

theorem drawLine_offset_witness:
  "take 24 (drop (a_penPointsIndex (drawLine \<lparr>diameter = Some (Num 3), color4f = None\<rparr>
                    (Num 10) (Num 20) (Num 30) (Num 40) (constructor 1 (480, 360))) - 24)
              (a_penPoints (drawLine \<lparr>diameter = Some (Num 3), color4f = None\<rparr>
                    (Num 10) (Num 20) (Num 30) (Num 40) (constructor 1 (480, 360)))))
     = concat (replicate 6 [Num (21 / 2), Num (- (41 / 2)), Num 20, Num (- 20)]) \<and>
   take 24 (drop (a_penPointsIndex (drawLine \<lparr>diameter = None, color4f = None\<rparr>
                    (Num 10) (Num 20) (Num 30) (Num 40) (constructor 1 (480, 360))) - 24)
              (a_penPoints (drawLine \<lparr>diameter = None, color4f = None\<rparr>
                    (Num 10) (Num 20) (Num 30) (Num 40) (constructor 1 (480, 360)))))
     = concat (replicate 6 [Num (21 / 2), Num (- (41 / 2)), Num 20, Num (- 20)]) \<and>
   take 24 (drop (a_penPointsIndex (drawLine \<lparr>diameter = Some (Num 2), color4f = None\<rparr>
                    (Num 10) (Num 20) (Num 30) (Num 40) (constructor 1 (480, 360))) - 24)
              (a_penPoints (drawLine \<lparr>diameter = Some (Num 2), color4f = None\<rparr>
                    (Num 10) (Num 20) (Num 30) (Num 40) (constructor 1 (480, 360)))))
     = concat (replicate 6 [Num 10, Num (- 20), Num 20, Num (- 20)])"
proof -
  let ?a3 = "\<lparr>diameter = Some (Num 3), color4f = None\<rparr>"
  let ?a1 = "\<lparr>diameter = None, color4f = None\<rparr>"
  let ?a2 = "\<lparr>diameter = Some (Num 2), color4f = None\<rparr>"
  let ?s0 = "constructor 1 (480, 360)"
  have d3: "or_number (diameter ?a3) (diameter DefaultPenAttributes) = Num 1
            \<or> or_number (diameter ?a3) (diameter DefaultPenAttributes) = Num 3"
    and d1: "or_number (diameter ?a1) (diameter DefaultPenAttributes) = Num 1
            \<or> or_number (diameter ?a1) (diameter DefaultPenAttributes) = Num 3"
    and d2: "or_number (diameter ?a2) (diameter DefaultPenAttributes) \<noteq> Num 1
            \<and> or_number (diameter ?a2) (diameter DefaultPenAttributes) \<noteq> Num 3
            \<and> is_double (Num 10) \<and> is_double (Num 20) \<and> is_double (Num 30) \<and> is_double (Num 40)"
    by (simp_all add: or_number_def DefaultPenAttributes_def num_eval)
  have e3: "[fround (num_add (Num 10) (Num (1 / 2))),
             fround (num_neg (num_add (Num 20) (Num (1 / 2)))),
             fround (num_sub (num_add (Num 30) (Num (1 / 2))) (num_add (Num 10) (Num (1 / 2)))),
             fround (num_neg (num_sub (num_add (Num 40) (Num (1 / 2))) (num_add (Num 20) (Num (1 / 2)))))]
            = [Num (21 / 2), Num (- (41 / 2)), Num 20, Num (- 20)]"
    by (simp add: num_eval)
  have e2: "[fround (Num 10), fround (num_neg (Num 20)), fround (num_sub (Num 30) (Num 10)),
             fround (num_neg (num_sub (Num 40) (Num 20)))]
            = [Num 10, Num (- 20), Num 20, Num (- 20)]"
    by (simp add: num_eval)
  have r: "run ?s0 [] = ?s0"
    by (simp add: run_def)
  have q3: "take 24 (drop (a_penPointsIndex (drawLine ?a3 (Num 10) (Num 20) (Num 30) (Num 40)
                             (run ?s0 [])) - 24)
                 (a_penPoints (drawLine ?a3 (Num 10) (Num 20) (Num 30) (Num 40) (run ?s0 []))))
        = concat (replicate 6
            [fround (num_add (Num 10) (Num (1 / 2))),
             fround (num_neg (num_add (Num 20) (Num (1 / 2)))),
             fround (num_sub (num_add (Num 30) (Num (1 / 2))) (num_add (Num 10) (Num (1 / 2)))),
             fround (num_neg (num_sub (num_add (Num 40) (Num (1 / 2))) (num_add (Num 20) (Num (1 / 2)))))])"
    using drawLine_offset [of ?a3 "Num 10" "Num 20" "Num 30" "Num 40" ?s0 1 "(480, 360)" "[]"] d3
    by blast
  have q1: "take 24 (drop (a_penPointsIndex (drawLine ?a1 (Num 10) (Num 20) (Num 30) (Num 40)
                             (run ?s0 [])) - 24)
                 (a_penPoints (drawLine ?a1 (Num 10) (Num 20) (Num 30) (Num 40) (run ?s0 []))))
        = concat (replicate 6
            [fround (num_add (Num 10) (Num (1 / 2))),
             fround (num_neg (num_add (Num 20) (Num (1 / 2)))),
             fround (num_sub (num_add (Num 30) (Num (1 / 2))) (num_add (Num 10) (Num (1 / 2)))),
             fround (num_neg (num_sub (num_add (Num 40) (Num (1 / 2))) (num_add (Num 20) (Num (1 / 2)))))])"
    using drawLine_offset [of ?a1 "Num 10" "Num 20" "Num 30" "Num 40" ?s0 1 "(480, 360)" "[]"] d1
    by blast
  have q2: "take 24 (drop (a_penPointsIndex (drawLine ?a2 (Num 10) (Num 20) (Num 30) (Num 40)
                             (run ?s0 [])) - 24)
                 (a_penPoints (drawLine ?a2 (Num 10) (Num 20) (Num 30) (Num 40) (run ?s0 []))))
        = concat (replicate 6
            [fround (Num 10), fround (num_neg (Num 20)), fround (num_sub (Num 30) (Num 10)),
             fround (num_neg (num_sub (Num 40) (Num 20)))])"
    using drawLine_offset [of ?a2 "Num 10" "Num 20" "Num 30" "Num 40" ?s0 1 "(480, 360)" "[]"] d2
    by blast
  from q3 [unfolded r e3] q1 [unfolded r e3] q2 [unfolded r e2] show ?thesis
    by (intro conjI)
qed

text \<open>
  C4 as stated fails. With the default pen, whose diameter is 1, a line on a fresh pen
  layer whose coordinates are all \<open>10 ^ 16\<close> reaches the batch unshifted, because the
  double nearest to \<open>10 ^ 16 + 0.5\<close> is \<open>10 ^ 16\<close>: the state is the one that no
  offset gives. And for a point at \<open>(2 ^ 24, 0)\<close>, whose shifted coordinates are
  doubles, the record appended to the batch holds the start point \<open>(2 ^ 24, 0.5)\<close> (the
  second component negated): the store in single precision loses the shift of the first
  coordinate.
\<close>

theorem drawLine_offset_counterexample:
  "or_number (diameter DefaultPenAttributes) (diameter DefaultPenAttributes) = Num 1 \<and>
   is_double (Num (10 ^ 16)) \<and>
   drawLine DefaultPenAttributes (Num (10 ^ 16)) (Num (10 ^ 16)) (Num (10 ^ 16)) (Num (10 ^ 16))
       (constructor 1 (480, 360))
     = (drawLineOnBuffer DefaultPenAttributes (Num (10 ^ 16)) (Num (10 ^ 16)) (Num (10 ^ 16))
          (Num (10 ^ 16)) (constructor 1 (480, 360)))\<lparr>silhouetteDirty := True\<rparr> \<and>
   is_double (Num (2 ^ 24)) \<and>
   num_add (Num (2 ^ 24)) (Num (1 / 2)) = Num (2 ^ 24 + 1 / 2) \<and>
   take 24 (drop (a_penPointsIndex (drawLine DefaultPenAttributes (Num (2 ^ 24)) (Num 0)
                    (Num (2 ^ 24)) (Num 0) (constructor 1 (480, 360))) - 24)
              (a_penPoints (drawLine DefaultPenAttributes (Num (2 ^ 24)) (Num 0)
                    (Num (2 ^ 24)) (Num 0) (constructor 1 (480, 360)))))
     = concat (replicate 6 [Num (2 ^ 24), Num (- (1 / 2)), Num 0, Num 0])"
proof -
  let ?a = DefaultPenAttributes
  let ?s0 = "constructor 1 (480, 360)"
  have d: "or_number (diameter ?a) (diameter ?a) = Num 1"
    by (simp add: or_number_def DefaultPenAttributes_def)
  then have "or_number (diameter ?a) (diameter ?a) = Num 1
      \<or> or_number (diameter ?a) (diameter ?a) = Num 3"
    by (rule disjI1)
  then have off: "pen_offset ?a = Num (1 / 2)"
    unfolding pen_offset_def by (rule if_P)
  have big: "num_add (Num (10 ^ 16)) (Num (1 / 2)) = Num (10 ^ 16)"
    by (simp add: num_eval)
  have dbl: "is_double (Num (10 ^ 16))" "is_double (Num (2 ^ 24))"
    by (simp_all add: num_eval)
  have sum: "num_add (Num (2 ^ 24)) (Num (1 / 2)) = Num (2 ^ 24 + 1 / 2)"
    by (simp add: num_eval)
  have same: "drawLine ?a (Num (10 ^ 16)) (Num (10 ^ 16)) (Num (10 ^ 16)) (Num (10 ^ 16)) ?s0
     = (drawLineOnBuffer ?a (Num (10 ^ 16)) (Num (10 ^ 16)) (Num (10 ^ 16)) (Num (10 ^ 16)) ?s0)
         \<lparr>silhouetteDirty := True\<rparr>"
    unfolding drawLine_eq off big by (rule refl)
  have col: "or_color (color4f ?a) (color4f ?a) = (Num 0, Num 0, Num 1, Num 1)"
    by (simp add: or_color_def DefaultPenAttributes_def)
  have e: "[fround (num_add (Num (2 ^ 24)) (Num (1 / 2))),
            fround (num_neg (num_add (Num 0) (Num (1 / 2)))),
            fround (num_sub (num_add (Num (2 ^ 24)) (Num (1 / 2)))
                      (num_add (Num (2 ^ 24)) (Num (1 / 2)))),
            fround (num_neg (num_sub (num_add (Num 0) (Num (1 / 2)))
                      (num_add (Num 0) (Num (1 / 2)))))]
           = [Num (2 ^ 24), Num (- (1 / 2)), Num 0, Num 0]"
    by (simp add: num_eval)
  note rec = batch_record_drawLine(2) [OF batch_inv_constructor col,
      of "Num (2 ^ 24)" "Num 0" "Num (2 ^ 24)" "Num 0", unfolded off e]
  from d dbl(1) same dbl(2) sum rec show ?thesis
    by (intro conjI)
qed

text \<open>
  C5, as amended. For pen attributes whose color is \<open>(r, g, b, a)\<close>, the color stored in
  the batch for each of the six vertices of the segment drawn is
  \<open>(r * a, g * a, b * a, a)\<close> with each product rounded to a double and each of the four
  components then rounded to single precision by the store into the \<open>Float32Array\<close>.
\<close>

theorem batch_color_premultiplied:
  assumes "color4f penAttributes = Some (r, g, b, a)"
  shows "take 24 (drop (a_lineColorIndex
                      (drawLine penAttributes x0 y0 x1 y1 (run (constructor i n) ops)) - 24)
                   (a_lineColor (drawLine penAttributes x0 y0 x1 y1 (run (constructor i n) ops))))
         = concat (replicate 6
             [fround (num_mul r a), fround (num_mul g a), fround (num_mul b a), fround a])"
proof -
  have "or_color (color4f penAttributes) (color4f DefaultPenAttributes) = (r, g, b, a)"
    using assms by (simp add: or_color_def)
  with batch_inv_reachable show ?thesis
    by (rule batch_record_drawLine(1))
qed

theorem batch_color_premultiplied_witness:
  "take 24 (drop (a_lineColorIndex
                (drawLine \<lparr>diameter = Some (Num 1),
                            color4f = Some (Num (1 / 2), Num (1 / 4), Num 1, Num (1 / 2))\<rparr>
                   (Num 0) (Num 0) (Num 100) (Num 0) (constructor 1 (480, 360))) - 24)
             (a_lineColor
                (drawLine \<lparr>diameter = Some (Num 1),
                            color4f = Some (Num (1 / 2), Num (1 / 4), Num 1, Num (1 / 2))\<rparr>
                   (Num 0) (Num 0) (Num 100) (Num 0) (constructor 1 (480, 360)))))
     = concat (replicate 6 [Num (1 / 4), Num (1 / 8), Num (1 / 2), Num (1 / 2)])"
proof -
  let ?a = "\<lparr>diameter = Some (Num 1),
             color4f = Some (Num (1 / 2), Num (1 / 4), Num 1, Num (1 / 2))\<rparr>"
  let ?s0 = "constructor 1 (480, 360)"
  have c: "color4f ?a = Some (Num (1 / 2), Num (1 / 4), Num 1, Num (1 / 2))"
    by simp
  have e: "[fround (num_mul (Num (1 / 2)) (Num (1 / 2))), fround (num_mul (Num (1 / 4)) (Num (1 / 2))),
            fround (num_mul (Num 1) (Num (1 / 2))), fround (Num (1 / 2))]
           = [Num (1 / 4), Num (1 / 8), Num (1 / 2), Num (1 / 2)]"
    by (simp add: num_eval)
  have r: "run ?s0 [] = ?s0"
    by (simp add: run_def)
  from batch_color_premultiplied [OF c, of "Num 0" "Num 0" "Num 100" "Num 0" 1 "(480, 360)" "[]",
      unfolded r e]
  show ?thesis .
qed

text \<open>
  C5 as stated fails. For the color \<open>(0.2, 0.4, 0.6, 0.5)\<close>, its components the doubles
  nearest to these decimals, the products \<open>r * a\<close>, \<open>g * a\<close> and \<open>b * a\<close> are
  doubles, and the batch holds none of them: it holds the single-precision numbers
  nearest to them.
\<close>

theorem batch_color_premultiplied_counterexample:
  "is_double (Num (3602879701896397 / 18014398509481984)) \<and>
   is_double (Num (3602879701896397 / 9007199254740992)) \<and>
   is_double (Num (5404319552844595 / 9007199254740992)) \<and>
   take 24 (drop (a_lineColorIndex
                (drawLine \<lparr>diameter = Some (Num 1),
                            color4f = Some (Num (3602879701896397 / 18014398509481984),
                                            Num (3602879701896397 / 9007199254740992),
                                            Num (5404319552844595 / 9007199254740992),
                                            Num (1 / 2))\<rparr>
                   (Num 0) (Num 0) (Num 100) (Num 0) (constructor 1 (480, 360))) - 24)
             (a_lineColor
                (drawLine \<lparr>diameter = Some (Num 1),
                            color4f = Some (Num (3602879701896397 / 18014398509481984),
                                            Num (3602879701896397 / 9007199254740992),
                                            Num (5404319552844595 / 9007199254740992),
                                            Num (1 / 2))\<rparr>
                   (Num 0) (Num 0) (Num 100) (Num 0) (constructor 1 (480, 360)))))
     = concat (replicate 6 [Num (13421773 / 134217728), Num (13421773 / 67108864),
                            Num (5033165 / 16777216), Num (1 / 2)]) \<and>
   num_mul (Num (3602879701896397 / 18014398509481984)) (Num (1 / 2))
     = Num (3602879701896397 / 36028797018963968) \<and>
   num_mul (Num (3602879701896397 / 9007199254740992)) (Num (1 / 2))
     = Num (3602879701896397 / 18014398509481984) \<and>
   num_mul (Num (5404319552844595 / 9007199254740992)) (Num (1 / 2))
     = Num (5404319552844595 / 18014398509481984) \<and>
   Num (13421773 / 134217728) \<noteq> Num (3602879701896397 / 36028797018963968) \<and>
   Num (13421773 / 67108864) \<noteq> Num (3602879701896397 / 18014398509481984) \<and>
   Num (5033165 / 16777216) \<noteq> Num (5404319552844595 / 18014398509481984)"
proof -
  let ?a = "\<lparr>diameter = Some (Num 1),
             color4f = Some (Num (3602879701896397 / 18014398509481984),
                             Num (3602879701896397 / 9007199254740992),
                             Num (5404319552844595 / 9007199254740992),
                             Num (1 / 2))\<rparr>"
  let ?s0 = "constructor 1 (480, 360)"
  have dbl: "is_double (Num (3602879701896397 / 18014398509481984))"
    "is_double (Num (3602879701896397 / 9007199254740992))"
    "is_double (Num (5404319552844595 / 9007199254740992))"
    by (simp_all add: num_eval)
  have col: "or_color (color4f ?a) (color4f DefaultPenAttributes)
      = (Num (3602879701896397 / 18014398509481984), Num (3602879701896397 / 9007199254740992),
         Num (5404319552844595 / 9007199254740992), Num (1 / 2))"
    by (simp add: or_color_def)
  have e: "[fround (num_mul (Num (3602879701896397 / 18014398509481984)) (Num (1 / 2))),
            fround (num_mul (Num (3602879701896397 / 9007199254740992)) (Num (1 / 2))),
            fround (num_mul (Num (5404319552844595 / 9007199254740992)) (Num (1 / 2))),
            fround (Num (1 / 2))]
           = [Num (13421773 / 134217728), Num (13421773 / 67108864),
              Num (5033165 / 16777216), Num (1 / 2)]"
    by (simp add: num_eval)
  note rec = batch_record_drawLine(1) [OF batch_inv_constructor col,
      of "Num 0" "Num 0" "Num 100" "Num 0", unfolded e]
  have prod: "num_mul (Num (3602879701896397 / 18014398509481984)) (Num (1 / 2))
     = Num (3602879701896397 / 36028797018963968)"
    "num_mul (Num (3602879701896397 / 9007199254740992)) (Num (1 / 2))
     = Num (3602879701896397 / 18014398509481984)"
    "num_mul (Num (5404319552844595 / 9007199254740992)) (Num (1 / 2))
     = Num (5404319552844595 / 18014398509481984)"
    by (simp_all add: num_eval)
  have ne: "Num (13421773 / 134217728) \<noteq> Num (3602879701896397 / 36028797018963968)"
    "Num (13421773 / 67108864) \<noteq> Num (3602879701896397 / 18014398509481984)"
    "Num (5033165 / 16777216) \<noteq> Num (5404319552844595 / 18014398509481984)"
    by simp_all
  from dbl rec prod ne show ?thesis
    by (intro conjI)
qed

text \<open>
  C6. \<open>drawPoint(attrs, x, y)\<close> leaves the whole state (batch arrays, cursors, dirty
  flags and everything else) exactly as \<open>drawLine(attrs, x, y, x, y)\<close> does, alone
  and as a step of a sequence. In a reachable state, when the coordinates with the
  offset of \<open>drawLine\<close> are finite, the record it appends is that of a segment of
  length 0: thickness and length \<open>(diameter, 0)\<close>, start point the point drawn with the
  offset, delta \<open>(0, 0)\<close>, as single-precision numbers.
\<close>

theorem drawPoint_is_drawLine:
  "drawPoint penAttributes x y s = drawLine penAttributes x y x y s \<and>
   run s [DrawPoint penAttributes x y] = run s [DrawLine penAttributes x y x y] \<and>
   (\<forall>x' y'. num_add x (pen_offset penAttributes) = Num x'
        \<and> num_add y (pen_offset penAttributes) = Num y' \<longrightarrow>
      take 12 (drop (a_lineThicknessAndLengthIndex
                       (drawPoint penAttributes x y (run (constructor i n) ops)) - 12)
                 (a_lineThicknessAndLength
                    (drawPoint penAttributes x y (run (constructor i n) ops))))
        = concat (replicate 6
            [fround (or_number (diameter penAttributes) (diameter DefaultPenAttributes)), Num 0]) \<and>
      take 24 (drop (a_penPointsIndex (drawPoint penAttributes x y (run (constructor i n) ops)) - 24)
                 (a_penPoints (drawPoint penAttributes x y (run (constructor i n) ops))))
        = concat (replicate 6 [fround (Num x'), fround (Num (- y')), Num 0, Num 0]))"
proof -
  obtain r g b al
    where col: "or_color (color4f penAttributes) (color4f DefaultPenAttributes) = (r, g, b, al)"
    by (metis prod_cases4)
  note rec = batch_record_drawLine(2,3) [OF batch_inv_reachable [of i n ops] col, of x y x y]
  have a: "drawPoint penAttributes x y s = drawLine penAttributes x y x y s" for s
    by (simp add: drawPoint_def)
  have b: "run s [DrawPoint penAttributes x y] = run s [DrawLine penAttributes x y x y]"
    by (simp add: run_def drawPoint_def)
  have c: "take 12 (drop (a_lineThicknessAndLengthIndex
                       (drawPoint penAttributes x y (run (constructor i n) ops)) - 12)
                 (a_lineThicknessAndLength
                    (drawPoint penAttributes x y (run (constructor i n) ops))))
        = concat (replicate 6
            [fround (or_number (diameter penAttributes) (diameter DefaultPenAttributes)), Num 0]) \<and>
      take 24 (drop (a_penPointsIndex (drawPoint penAttributes x y (run (constructor i n) ops)) - 24)
                 (a_penPoints (drawPoint penAttributes x y (run (constructor i n) ops))))
        = concat (replicate 6 [fround (Num x'), fround (Num (- y')), Num 0, Num 0])"
    if "num_add x (pen_offset penAttributes) = Num x'
        \<and> num_add y (pen_offset penAttributes) = Num y'" for x' y'
  proof -
    have xy: "num_add x (pen_offset penAttributes) = Num x'"
      "num_add y (pen_offset penAttributes) = Num y'"
      using that by blast+
    have z: "fround (segment_length (Num x') (Num y') (Num x') (Num y')) = Num 0"
      "fround (num_sub (Num x') (Num x')) = Num 0"
      "fround (num_neg (num_sub (Num y') (Num y'))) = Num 0"
      "num_neg (Num y') = Num (- y')"
      by (simp_all add: segment_length_point num_sub_self to_float32_0)
    from rec(2) [unfolded xy z] rec(1) [unfolded xy z] show ?thesis
      unfolding a by (rule conjI)
  qed
  from a b c show ?thesis
    by blast
qed

theorem drawPoint_is_drawLine_witness:
  "take 12 (drop (a_lineThicknessAndLengthIndex
                    (drawPoint DefaultPenAttributes (Num 10) (Num 20) (constructor 1 (480, 360))) - 12)
              (a_lineThicknessAndLength
                 (drawPoint DefaultPenAttributes (Num 10) (Num 20) (constructor 1 (480, 360)))))
     = concat (replicate 6 [Num 1, Num 0]) \<and>
   take 24 (drop (a_penPointsIndex
                    (drawPoint DefaultPenAttributes (Num 10) (Num 20) (constructor 1 (480, 360))) - 24)
              (a_penPoints
                 (drawPoint DefaultPenAttributes (Num 10) (Num 20) (constructor 1 (480, 360)))))
     = concat (replicate 6 [Num (21 / 2), Num (- (41 / 2)), Num 0, Num 0])"
proof -
  let ?a = DefaultPenAttributes
  let ?s0 = "constructor 1 (480, 360)"
  have d: "or_number (diameter ?a) (diameter ?a) = Num 1"
    by (simp add: or_number_def DefaultPenAttributes_def)
  then have "or_number (diameter ?a) (diameter ?a) = Num 1
      \<or> or_number (diameter ?a) (diameter ?a) = Num 3"
    by (rule disjI1)
  then have off: "pen_offset ?a = Num (1 / 2)"
    unfolding pen_offset_def by (rule if_P)
  have h: "num_add (Num 10) (pen_offset ?a) = Num (21 / 2)
           \<and> num_add (Num 20) (pen_offset ?a) = Num (41 / 2)"
    unfolding off by (simp add: num_eval)
  have e: "fround (or_number (diameter ?a) (diameter ?a)) = Num 1"
    "fround (Num (21 / 2)) = Num (21 / 2)"
    "fround (Num (- (41 / 2))) = Num (- (41 / 2))"
    unfolding d by (simp_all add: num_eval)
  have r: "run ?s0 [] = ?s0"
    by (simp add: run_def)
  from drawPoint_is_drawLine [of ?a "Num 10" "Num 20" ?s0 1 "(480, 360)" "[]"] h
  have "take 12 (drop (a_lineThicknessAndLengthIndex
                    (drawPoint ?a (Num 10) (Num 20) (run ?s0 [])) - 12)
              (a_lineThicknessAndLength (drawPoint ?a (Num 10) (Num 20) (run ?s0 []))))
     = concat (replicate 6 [fround (or_number (diameter ?a) (diameter ?a)), Num 0]) \<and>
   take 24 (drop (a_penPointsIndex (drawPoint ?a (Num 10) (Num 20) (run ?s0 [])) - 24)
              (a_penPoints (drawPoint ?a (Num 10) (Num 20) (run ?s0 []))))
     = concat (replicate 6 [fround (Num (21 / 2)), fround (Num (- (41 / 2))), Num 0, Num 0])"
    by blast
  then show ?thesis
    unfolding r e .
qed

text \<open>
  C7, as amended. \<open>setRenderQuality(q)\<close> with \<open>q\<close> equal to the current render
  quality leaves the whole state unchanged, so no surface is reallocated. With a
  different \<open>q\<close> the canvas, both textures and both framebuffers get the size
  \<open>(Math.round(nativeWidth * q), Math.round(nativeHeight * q))\<close> in which each product
  is the product of doubles, the exact product rounded to the nearest double, while the
  size reported by the \<open>size\<close> getter is still the native size.
\<close>

theorem setRenderQuality_backing_size:
  "(renderQuality s = q \<longrightarrow> setRenderQuality q s = s) \<and>
   (renderQuality s \<noteq> q \<longrightarrow>
      canvas_width (setRenderQuality q s)
        = Math_round (double_of (real_of_int (fst (nativeSize s)) * q)) \<and>
      canvas_height (setRenderQuality q s)
        = Math_round (double_of (real_of_int (snd (nativeSize s)) * q)) \<and>
      texture_size (setRenderQuality q s) (texture (setRenderQuality q s))
        = Some (Math_round (double_of (real_of_int (fst (nativeSize s)) * q)),
                Math_round (double_of (real_of_int (snd (nativeSize s)) * q))) \<and>
      texture_size (setRenderQuality q s) (exportTexture (setRenderQuality q s))
        = Some (Math_round (double_of (real_of_int (fst (nativeSize s)) * q)),
                Math_round (double_of (real_of_int (snd (nativeSize s)) * q))) \<and>
      map_option fbi_width (framebuffer (setRenderQuality q s))
        = Some (Math_round (double_of (real_of_int (fst (nativeSize s)) * q))) \<and>
      map_option fbi_height (framebuffer (setRenderQuality q s))
        = Some (Math_round (double_of (real_of_int (snd (nativeSize s)) * q))) \<and>
      map_option fbi_width (silhouetteBuffer (setRenderQuality q s))
        = Some (Math_round (double_of (real_of_int (fst (nativeSize s)) * q))) \<and>
      map_option fbi_height (silhouetteBuffer (setRenderQuality q s))
        = Some (Math_round (double_of (real_of_int (snd (nativeSize s)) * q))) \<and>
      renderQuality (setRenderQuality q s) = q \<and>
      size_of (setRenderQuality q s) = nativeSize s)"
  by (simp add: setRenderQuality_def Let_def setCanvasSize_sizes setCanvasSize_texture_sizes
      size_of_def)

theorem setRenderQuality_backing_size_witness:
  "setRenderQuality 1 (constructor 1 (480, 360)) = constructor 1 (480, 360) \<and>
   canvas_width (setRenderQuality (3 / 2) (constructor 1 (480, 360))) = 720 \<and>
   canvas_height (setRenderQuality (3 / 2) (constructor 1 (480, 360))) = 540 \<and>
   texture_size (setRenderQuality (3 / 2) (constructor 1 (480, 360)))
       (exportTexture (setRenderQuality (3 / 2) (constructor 1 (480, 360)))) = Some (720, 540) \<and>
   map_option fbi_width (framebuffer (setRenderQuality (3 / 2) (constructor 1 (480, 360)))) = Some 720 \<and>
   map_option fbi_height (framebuffer (setRenderQuality (3 / 2) (constructor 1 (480, 360)))) = Some 540 \<and>
   size_of (setRenderQuality (3 / 2) (constructor 1 (480, 360))) = (480, 360)"
proof -
  have r: "Math_round (double_of (480 * (3 / 2))) = 720" "Math_round (double_of (360 * (3 / 2))) = 540"
    by (simp_all add: Math_round_def num_eval)
  show ?thesis
    using setRenderQuality_backing_size [of "constructor 1 (480, 360)" 1]
      setRenderQuality_backing_size [of "constructor 1 (480, 360)" "3 / 2"] r
    by (simp add: constructor_fields)
qed

text \<open>
  C7 as stated fails when \<open>round(nativeSize * q)\<close> is taken of the exact product. On a
  480 by 360 stage, with \<open>q\<close> the double nearest to \<open>722 / 480\<close>, the exact product
  \<open>360 * q\<close> lies just below \<open>541.5\<close> and rounds to 541, while the double nearest to
  it is \<open>541.5\<close>, which \<open>Math.round\<close> takes to 542: the canvas becomes 722 by 542.
\<close>

theorem setRenderQuality_backing_size_counterexample:
  "renderQuality (constructor 1 (480, 360)) \<noteq> 6774164439503121 / 4503599627370496 \<and>
   is_double (Num (6774164439503121 / 4503599627370496)) \<and>
   nativeSize (constructor 1 (480, 360)) = (480, 360) \<and>
   canvas_width (setRenderQuality (6774164439503121 / 4503599627370496)
                   (constructor 1 (480, 360))) = 722 \<and>
   canvas_height (setRenderQuality (6774164439503121 / 4503599627370496)
                    (constructor 1 (480, 360))) = 542 \<and>
   Math_round (480 * (6774164439503121 / 4503599627370496)) = 722 \<and>
   Math_round (360 * (6774164439503121 / 4503599627370496)) = 541"
proof -
  let ?q = "6774164439503121 / 4503599627370496 :: real"
  let ?s0 = "constructor 1 (480, 360)"
  have ne: "renderQuality ?s0 \<noteq> ?q"
    by (simp add: constructor_fields)
  have dbl: "is_double (Num ?q)"
    by (simp add: num_eval)
  have n: "nativeSize ?s0 = (480, 360)"
    by (simp add: constructor_fields)
  have r: "Math_round (double_of (480 * ?q)) = 722" "Math_round (double_of (360 * ?q)) = 542"
    by (simp_all add: Math_round_def num_eval)
  have x: "Math_round (480 * ?q) = 722" "Math_round (360 * ?q) = 541"
    by (simp_all add: Math_round_def)
  have w: "canvas_width (setRenderQuality ?q ?s0) = 722"
    and h: "canvas_height (setRenderQuality ?q ?s0) = 542"
    using ne n r by (simp_all add: setRenderQuality_def Let_def setCanvasSize_sizes)
  from ne dbl n w h x show ?thesis
    by (intro conjI)
qed



text \<open>
  C9, as amended. \<open>dispose()\<close> unregisters the size-change listener, deletes the
  canvas-mirror texture and the export texture, drops the reference to the canvas-mirror
  texture and marks the skin disposed; it deletes no other texture and leaves the line
  vertex buffers allocated.
\<close>

theorem dispose_releases_textures:
  "\<not> listening (dispose s) \<and>
   texture (dispose s) = None \<and>
   skin_id (dispose s) = ID_NONE \<and>
   (\<forall>h. texture s = Some h \<longrightarrow> h \<notin> gl_textures (dispose s)) \<and>
   (\<forall>h. exportTexture s = Some h \<longrightarrow> h \<notin> gl_textures (dispose s)) \<and>
   gl_textures (dispose s) \<subseteq> gl_textures s \<and>
   gl_buffers (dispose s) = gl_buffers s"
  by (auto simp add: dispose_def Let_def deleteTexture_def Skin_dispose_def split: option.splits)

theorem dispose_releases_textures_witness:
  "\<not> listening (dispose (constructor 1 (480, 360))) \<and>
   texture (dispose (constructor 1 (480, 360))) = None \<and>
   skin_id (dispose (constructor 1 (480, 360))) = - 1 \<and>
   1 \<notin> gl_textures (dispose (constructor 1 (480, 360))) \<and>
   2 \<notin> gl_textures (dispose (constructor 1 (480, 360))) \<and>
   gl_buffers (dispose (constructor 1 (480, 360))) = {0}"
  using dispose_releases_textures [of "constructor 1 (480, 360)"]
  by (simp add: constructor_fields ID_NONE_def)

text \<open>
  C9 as stated fails: after disposing a freshly constructed pen layer both framebuffers
  and the line vertex buffers are still alive.
\<close>

theorem dispose_keeps_framebuffers_counterexample:
  "framebuffer (dispose (constructor 1 (480, 360)))
     = Some \<lparr>fbi_framebuffer = 3, fbi_attachment = Some 2, fbi_width = 480, fbi_height = 360\<rparr> \<and>
   silhouetteBuffer (dispose (constructor 1 (480, 360)))
     = Some \<lparr>fbi_framebuffer = 4, fbi_attachment = None, fbi_width = 480, fbi_height = 360\<rparr> \<and>
   gl_framebuffers (dispose (constructor 1 (480, 360))) = {3, 4} \<and>
   lineBufferInfo (dispose (constructor 1 (480, 360))) = Some 0 \<and>
   gl_buffers (dispose (constructor 1 (480, 360))) = {0}"
  by (simp add: dispose_def Let_def deleteTexture_def Skin_dispose_def constructor_fields)

text \<open>
  C10. In every state reached from the constructor by public operations the three batch
  write cursors are in lockstep: the color cursor equals the pen-point cursor, both are
  twice the thickness-and-length cursor, and the three are multiples of 24, 24 and 12,
  so the batch holds a whole number of six-vertex segment records.
\<close>

theorem cursors_lockstep:
  "a_lineColorIndex (run (constructor i n) ops) = a_penPointsIndex (run (constructor i n) ops) \<and>
   a_lineColorIndex (run (constructor i n) ops)
     = 2 * a_lineThicknessAndLengthIndex (run (constructor i n) ops) \<and>
   24 dvd a_lineColorIndex (run (constructor i n) ops) \<and>
   24 dvd a_penPointsIndex (run (constructor i n) ops) \<and>
   12 dvd a_lineThicknessAndLengthIndex (run (constructor i n) ops)"
proof -
  let ?s = "run (constructor i n) ops"
  have inv: "batch_inv ?s"
    by (rule batch_inv_reachable)
  then have eq: "a_penPointsIndex ?s = a_lineColorIndex ?s"
    "a_lineColorIndex ?s = 2 * a_lineThicknessAndLengthIndex ?s"
    and d: "24 dvd a_lineColorIndex ?s"
    unfolding batch_inv_def by blast+
  have "12 dvd k" if "24 dvd 2 * k" for k :: nat
    using that by presburger
  with d eq(2) have "12 dvd a_lineThicknessAndLengthIndex ?s"
    by simp
  with eq d show ?thesis
    by simp
qed

end
